theory Spec2Isabelle
  imports Main "HOL-Library.Sublist" "HOL-Library.AList"
begin

section \<open>LogOps: tiered log resolution and analysis, embedded from the Python source\<close>

text \<open>
  The development embeds \<^verbatim>\<open>app/views.py\<close> and
  \<^verbatim>\<open>services/elasticsearch_service.py\<close>.

  Conventions of the embedding.
  \<^item> A Python \<^verbatim>\<open>str\<close> is a \<^typ>\<open>string\<close>; a character is a code point below 256
    (Latin-1), on which \<^verbatim>\<open>str.lower\<close> and \<^verbatim>\<open>str.strip\<close> are written out below.
    Symbols beyond Latin-1 occur in the source only inside fixed message literals
    (emoji); each is written as the bytes of its UTF-8 encoding.
  \<^item> Everything the code does to the outside (HTTP calls to the search store and to the
    remote model, cache reads and writes, file system access) is an \<open>event\<close> appended to
    the trace of the state; what the outside answers is an oracle of the environment
    that may depend on the whole trace so far.
  \<^item> An exception is a value: the body of a \<^verbatim>\<open>try\<close> returns \<open>exn + 'a\<close> and the
    \<^verbatim>\<open>except\<close> clause is the case distinction on it.
  \<^item> The clock is read once per handler call (\<open>now\<close>, in seconds);
    \<^verbatim>\<open>strftime\<close> is a parameter of the environment.
\<close>

subsection \<open>Python string primitives\<close>

text \<open>\<^verbatim>\<open>str.isspace\<close> on one character, for the code points below 256.\<close>

definition py_isspace :: "char \<Rightarrow> bool" where
  "py_isspace c =
     (let n = (of_char c :: nat)
      in (9 \<le> n \<and> n \<le> 13) \<or> (28 \<le> n \<and> n \<le> 32) \<or> n = 133 \<or> n = 160)"

text \<open>\<^verbatim>\<open>s.strip()\<close>\<close>

definition strip :: "string \<Rightarrow> string" where
  "strip s = rev (dropWhile py_isspace (rev (dropWhile py_isspace s)))"

text \<open>\<^verbatim>\<open>s.lower()\<close>: A-Z and the upper-case letters of Latin-1 (U+00C0 to U+00DE but the
  multiplication sign U+00D7) move up by 32.\<close>

definition lower_char :: "char \<Rightarrow> char" where
  "lower_char c =
     (let n = (of_char c :: nat)
      in if (65 \<le> n \<and> n \<le> 90) \<or> (192 \<le> n \<and> n \<le> 222 \<and> n \<noteq> 215)
         then char_of (n + 32) else c)"

definition lower :: "string \<Rightarrow> string" where
  "lower s = map lower_char s"

text \<open>\<^verbatim>\<open>sep.join(xs)\<close>\<close>

fun join :: "string \<Rightarrow> string list \<Rightarrow> string" where
  "join sep [] = []"
| "join sep [x] = x"
| "join sep (x # y # ys) = x @ sep @ join sep (y # ys)"

text \<open>\<^verbatim>\<open>s.split(sep)\<close> for a one-character separator: never the empty list.\<close>

fun split_on :: "char \<Rightarrow> string \<Rightarrow> string list" where
  "split_on sep [] = [[]]"
| "split_on sep (c # cs) =
     (if c = sep then [] # split_on sep cs
      else (case split_on sep cs of [] \<Rightarrow> [[c]] | l # ls \<Rightarrow> (c # l) # ls))"

text \<open>\<^verbatim>\<open>str(n)\<close> for a natural number.\<close>

fun str_nat :: "nat \<Rightarrow> string" where
  "str_nat n =
     (if n < 10 then [''0123456789'' ! n]
      else str_nat (n div 10) @ [''0123456789'' ! (n mod 10)])"

text \<open>\<^verbatim>\<open>s.replace(old, new)\<close> for a non-empty \<open>old\<close>: left to right, without overlap.\<close>

function replace :: "string \<Rightarrow> string \<Rightarrow> string \<Rightarrow> string" where
  "replace old new s =
     (if old = [] \<or> s = [] then s
      else if prefix old s then new @ replace old new (drop (length old) s)
      else hd s # replace old new (tl s))"
  by pat_completeness auto
termination
  by (relation "measure (\<lambda>(old, new, s). length s)") auto

declare replace.simps [simp del]
declare str_nat.simps [simp del]

text \<open>\<^verbatim>\<open>needle in haystack\<close> is \<^const>\<open>sublist\<close>; \<^verbatim>\<open>s.startswith(p)\<close> is
  \<^const>\<open>prefix\<close>.\<close>

subsection \<open>Field normalizer and identifier sanitizer (views.py)\<close>

text \<open>The character class \<^verbatim>\<open>[a-zA-Z0-9_\-]\<close> of the regular expression.\<close>

definition safe_char :: "char \<Rightarrow> bool" where
  "safe_char c =
     (let n = (of_char c :: nat)
      in (97 \<le> n \<and> n \<le> 122) \<or> (65 \<le> n \<and> n \<le> 90) \<or> (48 \<le> n \<and> n \<le> 57)
         \<or> c = CHR ''_'' \<or> c = CHR ''-'')"

text \<open>\<^verbatim>\<open>sanitize_filename(value)\<close>: \<^verbatim>\<open>"unknown"\<close> for a falsy value, else
  \<^verbatim>\<open>re.sub(r'[^a-zA-Z0-9_\-]', '_', str(value))\<close>.\<close>

definition sanitize_filename :: "string \<Rightarrow> string" where
  "sanitize_filename v =
     (if v = [] then ''unknown''
      else map (\<lambda>c. if safe_char c then c else CHR ''_'') v)"

definition cluster_mapping :: "(string \<times> string) list" where
  "cluster_mapping =
    [(''cluster1'', ''Cluster Prod AKS 1''),
     (''cluster2'', ''Cluster Prod AKS 2''),
     (''cluster3'', ''Cluster Prod AKS 3''),
     (''cluster4'', ''Cluster Prod AKS 4'')]"

definition bundle_mapping :: "(string \<times> string) list" where
  "bundle_mapping =
    [(''bulkdeviceenrollment'', ''Bulkdeviceenrollment''),
     (''bulkordervalidation'', ''Bulkordervalidation''),
     (''iotsubscription'', ''IOTSubscription''),
     (''mobilitysubscription'', ''MobilitySubscription''),
     (''mobilitypromotiontreatmentrules'', ''MobilityPromotionTreatmentRules''),
     (''mobilitydevicetreatmentrules'', ''MobilityDeviceTreatmentRules''),
     (''businessrules'', ''BusinessRules''),
     (''customermanagement'', ''CustomerManagement''),
     (''inventorytracking'', ''InventoryTracking''),
     (''devicemanagement'', ''DeviceManagement''),
     (''networkmonitoring'', ''NetworkMonitoring'')]"

text \<open>\<^verbatim>\<open>d.get(k, default)\<close> on a dictionary literal.\<close>

definition dict_get :: "('k \<times> 'v) list \<Rightarrow> 'k \<Rightarrow> 'v \<Rightarrow> 'v" where
  "dict_get d k dflt = (case map_of d k of Some v \<Rightarrow> v | None \<Rightarrow> dflt)"

text \<open>\<^verbatim>\<open>map_frontend_to_elasticsearch_values(app, cluster, bundle, pod)\<close>; the pod is
  \<^verbatim>\<open>None\<close> at two call sites, and \<^verbatim>\<open>pod.lower() if pod else pod\<close> leaves a falsy pod
  as it is.\<close>

definition map_frontend_to_elasticsearch_values ::
  "string \<Rightarrow> string \<Rightarrow> string \<Rightarrow> string option
     \<Rightarrow> string \<times> string \<times> string \<times> string option" where
  "map_frontend_to_elasticsearch_values app cluster bundle pod =
     (let mapped_cluster = dict_get cluster_mapping cluster cluster;
          mapped_bundle = dict_get bundle_mapping (lower bundle) bundle;
          mapped_pod = (case pod of
                          None \<Rightarrow> None
                        | Some p \<Rightarrow> if p \<noteq> [] then Some (lower p) else Some p)
      in (app, mapped_cluster, mapped_bundle, mapped_pod))"

subsection \<open>Data of the search store and of the handlers\<close>

type_synonym time = int

text \<open>A stored document (\<^verbatim>\<open>hit['_source']\<close>): a dictionary, its values kept as text.\<close>

type_synonym doc = "(string \<times> string) list"

text \<open>The log entries the program builds for bulk indexing. \<^verbatim>\<open>'@timestamp'\<close> and
  \<^verbatim>\<open>'timestamp'\<close> hold the same instant, \<^verbatim>\<open>'log_message'\<close> and
  \<^verbatim>\<open>'message'\<close> the same text; the response time is in thousandths of a second.\<close>

record log_entry =
  log_timestamp :: time
  log_application :: string
  log_cluster :: string
  log_bundle :: string
  log_pod :: string
  log_level :: string
  log_message :: string
  log_source_file :: string
  log_response_time :: "nat option"
  log_status_code :: "nat option"

text \<open>A pod descriptor (\<^verbatim>\<open>{"name": ..., "display_name": ...}\<close>) and the values that
  travel through the cache and the JSON responses.\<close>

type_synonym pod_item = "(string \<times> string) list"

datatype jvalue = Str string | Pods "pod_item list"

text \<open>Python truthiness of such a value (\<^verbatim>\<open>if cached_pods:\<close>).\<close>

fun truthy :: "jvalue \<Rightarrow> bool" where
  "truthy (Str s) = (s \<noteq> [])"
| "truthy (Pods ps) = (ps \<noteq> [])"

text \<open>\<^verbatim>\<open>JsonResponse(payload, status=...)\<close>\<close>

record response =
  http_status :: nat
  payload :: "(string \<times> jvalue) list"

text \<open>Exceptions; \<^verbatim>\<open>requests.exceptions.Timeout\<close> is told apart because one handler
  catches it separately.\<close>

datatype exn = Timeout string | Exception string

fun exn_str :: "exn \<Rightarrow> string" where
  "exn_str (Timeout m) = m"
| "exn_str (Exception m) = m"

text \<open>What an HTTP call gives back: it raises, or it returns a status code, the raw text
  and the body. Reading the body (\<^verbatim>\<open>response.json()\<close> and the subscripts applied
  to it) either raises or yields the fields the code reads.\<close>

datatype 'a parsed = Unreadable exn | Parsed 'a

datatype 'a reply = Raises exn | Responds nat string "'a parsed"

text \<open>Search requests.\<close>

datatype clause = Term string string | Multi_match string "string list"

datatype query_body = Bool_must "clause list" | Match_all

record es_query =
  q_query :: query_body
  q_size :: nat
  q_sort :: "(string \<times> string) list"

record stats_query =
  a_query :: query_body
  a_size :: nat
  a_aggs :: "(string \<times> string \<times> nat) list"

text \<open>The \<^verbatim>\<open>query_params\<close> dictionary: an absent key is \<open>None\<close>.\<close>

record query_params =
  qp_application :: "string option"
  qp_cluster :: "string option"
  qp_bundle :: "string option"
  qp_pod :: "string option"
  qp_log_level :: "string option"
  qp_search_text :: "string option"
  qp_size :: "nat option"
  qp_page :: "nat option"

text \<open>The dictionary \<^verbatim>\<open>search_logs\<close> returns.\<close>

record search_result =
  sr_logs :: "doc list"
  sr_total :: nat
  sr_page :: "nat option"
  sr_size :: "nat option"
  sr_error :: "string option"

record bulk_result =
  indexed :: nat
  errors :: nat

record stats =
  st_total_logs :: nat
  st_log_levels :: "(string \<times> nat) list"
  st_applications :: "(string \<times> nat) list"
  st_clusters :: "(string \<times> nat) list"
  st_pods :: "(string \<times> nat) list"
  st_bundles :: "(string \<times> nat) list"

datatype stats_result = Stats_error string | Stats stats

text \<open>The chat request sent to the remote model: model name, system prompt, user content,
  \<^verbatim>\<open>max_tokens\<close> (the constant sampling parameters are left out).\<close>

record together_request =
  t_model :: string
  t_system :: string
  t_user :: string
  t_max_tokens :: nat

subsection \<open>Effects: events, state, environment\<close>

text \<open>Every interaction with the outside, with the timeout or time-to-live passed.
  \<open>Invoke\<close> marks a call of a synthetic generator or of a local analyzer,
  which leave no trace outside.\<close>

datatype event =
    Health_probe nat
  | Search_post es_query nat
  | Stats_post stats_query nat
  | Bulk_post string "log_entry list" nat
  | Together_post together_request nat
  | Cache_get string
  | Cache_set string jvalue nat
  | Path_exists string
  | File_read string
  | Invoke string

record state =
  cache :: "string \<Rightarrow> (jvalue \<times> time) option"
  trace :: "event list"

record env =
  es_health :: "event list \<Rightarrow> unit reply"
  es_search :: "event list \<Rightarrow> es_query \<Rightarrow> ((doc \<times> string) list \<times> nat) reply"
  es_stats :: "event list \<Rightarrow> stats_query
                \<Rightarrow> (nat \<times> (string \<times> (string \<times> nat) list) list) reply"
  es_bulk :: "event list \<Rightarrow> log_entry list \<Rightarrow> (nat option list) reply"
  together :: "event list \<Rightarrow> together_request \<Rightarrow> string reply"
  path_exists :: "event list \<Rightarrow> string \<Rightarrow> bool"
  pods_config :: "event list \<Rightarrow> string \<Rightarrow> string \<Rightarrow> string \<Rightarrow> pod_item list option"
  together_api_key :: "string option"
  strftime :: "time \<Rightarrow> string"
  title :: "string \<Rightarrow> string"
  format_elasticsearch_logs :: "time \<Rightarrow> doc list \<Rightarrow> string"

text \<open>
  The oracles of the environment:
  \<^item> \<open>es_health\<close>, \<open>es_search\<close>, \<open>es_stats\<close>, \<open>es_bulk\<close>, \<open>together\<close>: the answer to the
    HTTP call, given the trace before it. A search answer read successfully is the list of
    hits (\<^verbatim>\<open>_source\<close>, \<^verbatim>\<open>_id\<close>) and the total; a statistics answer the total and the
    buckets of each named aggregation; a bulk answer, per item, the status under
    \<^verbatim>\<open>'index'\<close> if the item has that key; a chat answer the content of the first choice.
  \<^item> \<open>path_exists\<close> is \<^verbatim>\<open>os.path.exists\<close>; \<open>pods_config\<close> is the outcome of opening and
    navigating \<^verbatim>\<open>pods_config.json\<close> for (app, cluster, bundle): \<open>None\<close> when that raises,
    else the list found (empty when a key is missing or the entry is no list).
  \<^item> \<open>together_api_key\<close> is the module constant \<^verbatim>\<open>TOGETHER_API_KEY\<close>.
  \<^item> \<open>strftime\<close> renders an instant as \<^verbatim>\<open>'%Y-%m-%d %H:%M:%S'\<close>, \<open>title\<close> is
    \<^verbatim>\<open>str.title\<close>, and \<open>format_elasticsearch_logs\<close> is the display formatter of
    views.py, whose text no property below depends on.
\<close>

definition emit :: "event \<Rightarrow> state \<Rightarrow> state" where
  "emit e s = s\<lparr>trace := trace s @ [e]\<rparr>"

text \<open>The events a call added to the trace.\<close>

definition new_events :: "state \<Rightarrow> state \<Rightarrow> event list" where
  "new_events s s' = drop (length (trace s)) (trace s')"

text \<open>Django's cache: an entry is fresh strictly before its expiry; a read past expiry
  is a miss.\<close>

definition cache_lookup :: "time \<Rightarrow> state \<Rightarrow> string \<Rightarrow> jvalue option" where
  "cache_lookup now s key =
     (case cache s key of
        None \<Rightarrow> None
      | Some (v, expires) \<Rightarrow> if now < expires then Some v else None)"

definition cache_get :: "time \<Rightarrow> string \<Rightarrow> state \<Rightarrow> jvalue option \<times> state" where
  "cache_get now key s = (cache_lookup now s key, emit (Cache_get key) s)"

definition cache_set :: "time \<Rightarrow> string \<Rightarrow> jvalue \<Rightarrow> nat \<Rightarrow> state \<Rightarrow> state" where
  "cache_set now key v ttl s =
     emit (Cache_set key v ttl) (s\<lparr>cache := (cache s)(key \<mapsto> (v, now + int ttl))\<rparr>)"

subsection \<open>Search client adapter (elasticsearch_service.py)\<close>

text \<open>\<^verbatim>\<open>is_available\<close>: the body of the \<^verbatim>\<open>try\<close>, then the bare \<^verbatim>\<open>except\<close>.\<close>

definition is_available_try :: "env \<Rightarrow> state \<Rightarrow> (exn + bool) \<times> state" where
  "is_available_try env s =
     (case es_health env (trace s) of
        Raises e \<Rightarrow> (Inl e, emit (Health_probe 5) s)
      | Responds st txt body \<Rightarrow> (Inr (st = 200), emit (Health_probe 5) s))"

definition is_available :: "env \<Rightarrow> state \<Rightarrow> bool \<times> state" where
  "is_available env s =
     (case is_available_try env s of
        (Inl e, s') \<Rightarrow> (False, s')
      | (Inr b, s') \<Rightarrow> (b, s'))"

text \<open>\<^verbatim>\<open>if query_params.get(field)\<close>: present and non-empty.\<close>

definition term_clauses :: "(string \<times> string option) list \<Rightarrow> clause list" where
  "term_clauses present =
     concat (map (\<lambda>(field, v). case v of
                     None \<Rightarrow> []
                   | Some x \<Rightarrow> if x \<noteq> [] then [Term (field @ ''.keyword'') x] else [])
                 present)"

definition build_search_query :: "query_params \<Rightarrow> es_query" where
  "build_search_query qp =
     (let must = term_clauses
            [(''application'', qp_application qp), (''cluster'', qp_cluster qp),
             (''bundle'', qp_bundle qp), (''pod'', qp_pod qp),
             (''log_level'', qp_log_level qp)];
          must = (case qp_search_text qp of
                    None \<Rightarrow> must
                  | Some t \<Rightarrow> if t \<noteq> []
                      then must @ [Multi_match t [''log_message'', ''message'']] else must)
      in \<lparr>q_query = (if must = [] then Match_all else Bool_must must),
          q_size = (case qp_size qp of None \<Rightarrow> 100 | Some n \<Rightarrow> n),
          q_sort = [(''@timestamp'', ''desc'')]\<rparr>)"

definition search_error :: "string \<Rightarrow> search_result" where
  "search_error msg =
     \<lparr>sr_logs = [], sr_total = 0, sr_page = None, sr_size = None, sr_error = Some msg\<rparr>"

definition search_logs_try ::
  "env \<Rightarrow> query_params \<Rightarrow> state \<Rightarrow> (exn + search_result) \<times> state" where
  "search_logs_try env qp s =
     (case is_available env s of
        (available, s1) \<Rightarrow>
          if \<not> available then (Inr (search_error ''Elasticsearch not available''), s1)
          else
            let query = build_search_query qp;
                s2 = emit (Search_post query 15) s1
            in (case es_search env (trace s1) query of
                  Raises e \<Rightarrow> (Inl e, s2)
                | Responds st txt body \<Rightarrow>
                    if st = 200 then
                      (case body of
                         Unreadable e \<Rightarrow> (Inl e, s2)
                       | Parsed (hits, total_value) \<Rightarrow>
                           (Inr \<lparr>sr_logs = map (\<lambda>(source, ident).
                                              AList.update ''_id'' ident source) hits,
                                 sr_total = total_value,
                                 sr_page = Some (case qp_page qp of None \<Rightarrow> 1 | Some p \<Rightarrow> p),
                                 sr_size = Some (length hits),
                                 sr_error = None\<rparr>, s2))
                    else (Inr (search_error (''HTTP '' @ str_nat st)), s2)))"

definition search_logs :: "env \<Rightarrow> query_params \<Rightarrow> state \<Rightarrow> search_result \<times> state" where
  "search_logs env qp s =
     (case search_logs_try env qp s of
        (Inl e, s') \<Rightarrow> (search_error (exn_str e), s')
      | (Inr r, s') \<Rightarrow> (r, s'))"

definition bulk_index_logs_try ::
  "env \<Rightarrow> log_entry list \<Rightarrow> state \<Rightarrow> (exn + bulk_result) \<times> state" where
  "bulk_index_logs_try env logs s =
     (if logs = [] then (Inr \<lparr>indexed = 0, errors = 0\<rparr>, s)
      else
        let s1 = emit (Bulk_post ''logops-logs'' logs 60) s
        in (case es_bulk env (trace s) logs of
              Raises e \<Rightarrow> (Inl e, s1)
            | Responds st txt body \<Rightarrow>
                if st = 200 then
                  (case body of
                     Unreadable e \<Rightarrow> (Inl e, s1)
                   | Parsed items \<Rightarrow>
                       let n = length (filter (\<lambda>i. i = Some 200 \<or> i = Some 201) items)
                       in (Inr \<lparr>indexed = n, errors = length items - n\<rparr>, s1))
                else (Inr \<lparr>indexed = 0, errors = length logs\<rparr>, s1)))"

definition bulk_index_logs :: "env \<Rightarrow> log_entry list \<Rightarrow> state \<Rightarrow> bulk_result \<times> state" where
  "bulk_index_logs env logs s =
     (case bulk_index_logs_try env logs s of
        (Inl e, s') \<Rightarrow> (\<lparr>indexed = 0, errors = length logs\<rparr>, s')
      | (Inr r, s') \<Rightarrow> (r, s'))"

text \<open>A dictionary comprehension over buckets: first position, last value of a key.\<close>

definition dict_of :: "(string \<times> nat) list \<Rightarrow> (string \<times> nat) list" where
  "dict_of buckets = foldl (\<lambda>d (k, v). AList.update k v d) [] buckets"

text \<open>The aggregation request of \<^verbatim>\<open>get_log_statistics\<close> (lines 392 to 411).\<close>

definition stats_request :: "query_params option \<Rightarrow> stats_query" where
  "stats_request filters =
     (let must_filters =
            (case filters of
               None \<Rightarrow> []
             | Some f \<Rightarrow> term_clauses
                 [(''application'', qp_application f), (''cluster'', qp_cluster f),
                  (''bundle'', qp_bundle f)])
      in \<lparr>a_query = (if must_filters \<noteq> [] then Bool_must must_filters else Match_all),
          a_size = 0,
          a_aggs = [(''log_levels'', ''log_level.keyword'', 10),
                    (''applications'', ''application.keyword'', 20),
                    (''clusters'', ''cluster.keyword'', 20),
                    (''pods'', ''pod.keyword'', 100),
                    (''bundles'', ''bundle.keyword'', 50)]\<rparr>)"

definition get_log_statistics_try ::
  "env \<Rightarrow> query_params option \<Rightarrow> state \<Rightarrow> (exn + stats_result) \<times> state" where
  "get_log_statistics_try env filters s =
     (let query = stats_request filters;
          s1 = emit (Stats_post query 15) s
      in (case es_stats env (trace s) query of
            Raises e \<Rightarrow> (Inl e, s1)
          | Responds st txt body \<Rightarrow>
              if st = 200 then
                (case body of
                   Unreadable e \<Rightarrow> (Inl e, s1)
                 | Parsed (total_value, aggs) \<Rightarrow>
                     (Inr (Stats
                        \<lparr>st_total_logs = total_value,
                         st_log_levels = dict_of (dict_get aggs ''log_levels'' []),
                         st_applications = dict_of (dict_get aggs ''applications'' []),
                         st_clusters = dict_of (dict_get aggs ''clusters'' []),
                         st_pods = dict_of (dict_get aggs ''pods'' []),
                         st_bundles = dict_of (dict_get aggs ''bundles'' [])\<rparr>), s1))
              else (Inr (Stats_error (''HTTP '' @ str_nat st)), s1)))"

definition get_log_statistics ::
  "env \<Rightarrow> query_params option \<Rightarrow> state \<Rightarrow> stats_result \<times> state" where
  "get_log_statistics env filters s =
     (case get_log_statistics_try env filters s of
        (Inl e, s') \<Rightarrow> (Stats_error (exn_str e), s')
      | (Inr r, s') \<Rightarrow> (r, s'))"

subsection \<open>Literals\<close>

abbreviation NL :: string where "NL \<equiv> [CHR 0x0A]"

text \<open>The emoji of the message literals, as UTF-8 bytes: U+274C, U+1F4CA, U+2022,
  U+26A0 U+FE0F, U+26A1, U+2705, U+1F4C8, U+1F552, U+1F916, U+1F52C, U+1F50D, U+1F6A8,
  U+1F527.\<close>

abbreviation cross_mark :: string where "cross_mark \<equiv> [CHR 0xE2, CHR 0x9D, CHR 0x8C]"
abbreviation bar_chart :: string where "bar_chart \<equiv> [CHR 0xF0, CHR 0x9F, CHR 0x93, CHR 0x8A]"
abbreviation bullet :: string where "bullet \<equiv> [CHR 0xE2, CHR 0x80, CHR 0xA2]"
abbreviation warning_sign :: string where
  "warning_sign \<equiv> [CHR 0xE2, CHR 0x9A, CHR 0xA0, CHR 0xEF, CHR 0xB8, CHR 0x8F]"
abbreviation high_voltage :: string where "high_voltage \<equiv> [CHR 0xE2, CHR 0x9A, CHR 0xA1]"
abbreviation check_mark :: string where "check_mark \<equiv> [CHR 0xE2, CHR 0x9C, CHR 0x85]"
abbreviation chart_up :: string where "chart_up \<equiv> [CHR 0xF0, CHR 0x9F, CHR 0x93, CHR 0x88]"
abbreviation clock_three :: string where "clock_three \<equiv> [CHR 0xF0, CHR 0x9F, CHR 0x95, CHR 0x92]"
abbreviation robot_face :: string where "robot_face \<equiv> [CHR 0xF0, CHR 0x9F, CHR 0xA4, CHR 0x96]"
abbreviation microscope :: string where "microscope \<equiv> [CHR 0xF0, CHR 0x9F, CHR 0x94, CHR 0xAC]"
abbreviation magnifier :: string where "magnifier \<equiv> [CHR 0xF0, CHR 0x9F, CHR 0x94, CHR 0x8D]"
abbreviation police_light :: string where "police_light \<equiv> [CHR 0xF0, CHR 0x9F, CHR 0x9A, CHR 0xA8]"
abbreviation wrench :: string where "wrench \<equiv> [CHR 0xF0, CHR 0x9F, CHR 0x94, CHR 0xA7]"

subsection \<open>Synthetic pods and pod logs (views.py)\<close>

text \<open>\<^verbatim>\<open>request.POST\<close> and \<^verbatim>\<open>request.POST.get(key, default)\<close>.\<close>

type_synonym post = "string \<Rightarrow> string option"

definition post_get :: "post \<Rightarrow> string \<Rightarrow> string \<Rightarrow> string" where
  "post_get req key dflt = (case req key of None \<Rightarrow> dflt | Some v \<Rightarrow> v)"

definition PODS_CACHE_TIMEOUT :: nat where
  "PODS_CACHE_TIMEOUT = 120"

definition generate_sample_pods :: "string \<Rightarrow> string \<Rightarrow> pod_item list" where
  "generate_sample_pods app bundle =
     (let stem = sanitize_filename app @ ''-'' @ sanitize_filename bundle;
          base_pods = [stem @ ''-web-001'', stem @ ''-web-002'', stem @ ''-api-001'',
                       stem @ ''-worker-001'', stem @ ''-error-pod'', stem @ ''-warn-service'']
      in map (\<lambda>pod. [(''name'', pod),
                      (''display_name'',
                         replace ''-warn-service'' '' (Warning Demo)''
                           (replace ''-error-pod'' '' (Error Demo)''
                              (replace ''_'' ''-'' pod)))])
             base_pods)"

text \<open>One generated line, \<^verbatim>\<open>f"[{t.strftime(...)}] LEVEL: message"\<close>.\<close>

definition log_line :: "env \<Rightarrow> time \<times> string \<times> string \<Rightarrow> string" where
  "log_line env e =
     (case e of (t, level, msg) \<Rightarrow> ''['' @ strftime env t @ ''] '' @ level @ '': '' @ msg)"

text \<open>\<^verbatim>\<open>auto_generate_pod_logs\<close>: the lines appended to \<^verbatim>\<open>logs\<close>, each as
  (instant, level, message), in the order of the source.\<close>

definition auto_generate_pod_entries ::
  "time \<Rightarrow> string \<Rightarrow> string \<Rightarrow> string \<Rightarrow> string \<Rightarrow> (time \<times> string \<times> string) list" where
  "auto_generate_pod_entries now app cluster bundle pod =
     (let base_time = now - 5400;
          startup = [(base_time, ''INFO'', ''Starting pod '' @ pod),
                     (base_time + 1, ''INFO'', ''Application: '' @ app),
                     (base_time + 2, ''INFO'', ''Cluster: '' @ cluster),
                     (base_time + 3, ''INFO'', ''Bundle: '' @ bundle)];
          current_time = base_time + 20
      in if sublist ''error'' (lower pod) then
           startup @
           [(current_time, ''INFO'', ''Processing incoming requests...''),
            (current_time + 30, ''WARN'', ''High memory usage detected: 85%''),
            (current_time + 60, ''ERROR'', ''Database connection timeout after 30s''),
            (current_time + 90, ''ERROR'', ''Failed to process request: connection refused''),
            (current_time + 120, ''FATAL'', ''Critical error - service unavailable'')]
         else if sublist ''warn'' (lower pod) then
           startup @
           [(current_time, ''INFO'', ''Service operational - processing requests''),
            (current_time + 45, ''WARN'', ''High CPU usage detected: 78%''),
            (current_time + 90, ''WARN'', ''Response time degradation: 2.8s (SLA: 1s)''),
            (current_time + 135, ''WARN'', ''Queue backlog growing: 150 pending items'')]
         else
           startup @
           [(current_time, ''INFO'', ''Service running normally''),
            (current_time + 60, ''INFO'', ''Processed 250 requests in last minute''),
            (current_time + 120, ''INFO'', ''Health check passed - all systems green''),
            (current_time + 180, ''INFO'', ''Database queries avg response: 45ms'')])"

definition auto_generate_pod_logs ::
  "env \<Rightarrow> time \<Rightarrow> string \<Rightarrow> string \<Rightarrow> string \<Rightarrow> string \<Rightarrow> string" where
  "auto_generate_pod_logs env now app cluster bundle pod =
     join NL (map (log_line env) (auto_generate_pod_entries now app cluster bundle pod))"

text \<open>The entries \<^verbatim>\<open>index_generated_logs_to_elasticsearch\<close> collects: one per line of
  the text that is not blank and does not start with \<^verbatim>\<open>#\<close>.\<close>

definition generated_log_entries ::
  "time \<Rightarrow> string \<Rightarrow> string \<Rightarrow> string \<Rightarrow> string \<Rightarrow> log_entry list" where
  "generated_log_entries now log_content app cluster bundle =
     (let lines = split_on (CHR 0x0A) (strip log_content)
      in map (\<lambda>line. \<lparr>log_timestamp = now,
                      log_application = app,
                      log_cluster = cluster,
                      log_bundle = bundle,
                      log_pod = app @ ''-'' @ bundle @ ''-pod'',
                      log_level = ''INFO'',
                      log_message = line,
                      log_source_file = ''auto-generated'',
                      log_response_time = None,
                      log_status_code = None\<rparr>)
             (filter (\<lambda>line. strip line \<noteq> [] \<and> \<not> prefix ''#'' line) lines))"

text \<open>\<^verbatim>\<open>index_generated_logs_to_elasticsearch\<close>; nothing in its \<^verbatim>\<open>try\<close> raises
  (\<^verbatim>\<open>bulk_index_logs\<close> catches its own failures).\<close>

definition index_generated_logs_to_elasticsearch ::
  "env \<Rightarrow> time \<Rightarrow> string \<Rightarrow> string \<Rightarrow> string \<Rightarrow> string \<Rightarrow> state \<Rightarrow> state" where
  "index_generated_logs_to_elasticsearch env now log_content app cluster bundle s =
     (let log_entries = generated_log_entries now log_content app cluster bundle
      in if log_entries \<noteq> [] then snd (bulk_index_logs env log_entries s) else s)"

subsection \<open>Pod list resolution (views.py)\<close>

text \<open>\<^verbatim>\<open>get_pods_from_elasticsearch\<close>: an error dictionary has no \<^verbatim>\<open>'pods'\<close> key.\<close>

definition get_pods_from_elasticsearch ::
  "env \<Rightarrow> string \<Rightarrow> string \<Rightarrow> string \<Rightarrow> state \<Rightarrow> pod_item list \<times> state" where
  "get_pods_from_elasticsearch env app cluster bundle s =
     (case map_frontend_to_elasticsearch_values app cluster bundle None of
        (mapped_app, mapped_cluster, mapped_bundle, mapped_pod) \<Rightarrow>
          let query_params =
                \<lparr>qp_application = Some mapped_app, qp_cluster = Some mapped_cluster,
                 qp_bundle = Some mapped_bundle, qp_pod = None, qp_log_level = None,
                 qp_search_text = None, qp_size = None, qp_page = None\<rparr>
          in (case get_log_statistics env (Some query_params) s of
                (Stats st, s1) \<Rightarrow>
                  (map (\<lambda>(pod_name, count).
                          [(''name'', pod_name),
                           (''display_name'',
                              title env (replace ''-'' '' '' pod_name)
                                @ '' ('' @ str_nat count @ '' logs)'')])
                       (st_pods st), s1)
              | (Stats_error msg, s1) \<Rightarrow> ([], s1)))"

definition get_pods_from_config ::
  "env \<Rightarrow> string \<Rightarrow> string \<Rightarrow> string \<Rightarrow> state \<Rightarrow> pod_item list \<times> state" where
  "get_pods_from_config env app cluster bundle s =
     (let pods_config_path = ''app/static/pods_config.json'';
          s1 = emit (Path_exists pods_config_path) s
      in if path_exists env (trace s) pods_config_path then
           let s2 = emit (File_read pods_config_path) s1
           in (case pods_config env (trace s1) app cluster bundle of
                 None \<Rightarrow> ([], s2)
               | Some bundle_pods \<Rightarrow> (bundle_pods, s2))
         else ([], s1))"

text \<open>\<^verbatim>\<open>get_pods\<close> after a cache miss (lines 631 to 649).\<close>

definition get_pods_uncached ::
  "env \<Rightarrow> time \<Rightarrow> string \<Rightarrow> string \<Rightarrow> string \<Rightarrow> string \<Rightarrow> state \<Rightarrow> response \<times> state" where
  "get_pods_uncached env now app cluster bundle cache_key s =
     (case get_pods_from_elasticsearch env app cluster bundle s of
        (es_pods, s1) \<Rightarrow>
          (case (if es_pods \<noteq> [] then (es_pods, s1)
                 else (case get_pods_from_config env app cluster bundle s1 of
                         (pods, s2) \<Rightarrow>
                           if pods = []
                           then (generate_sample_pods app bundle,
                                 emit (Invoke ''generate_sample_pods'') s2)
                           else (pods, s2))) of
             (pods, s3) \<Rightarrow>
               (\<lparr>http_status = 200, payload = [(''pods'', Pods pods)]\<rparr>,
                cache_set now cache_key (Pods pods) PODS_CACHE_TIMEOUT s3)))"

definition pods_cache_key :: "string \<Rightarrow> string \<Rightarrow> string \<Rightarrow> string" where
  "pods_cache_key app cluster bundle =
     ''pods_'' @ sanitize_filename app @ ''_'' @ sanitize_filename cluster
       @ ''_'' @ sanitize_filename bundle"

definition get_pods :: "env \<Rightarrow> time \<Rightarrow> post \<Rightarrow> state \<Rightarrow> response \<times> state" where
  "get_pods env now req s =
     (let app = strip (post_get req ''application'' []);
          cluster = strip (post_get req ''cluster'' []);
          bundle = strip (post_get req ''bundle'' [])
      in if \<not> (app \<noteq> [] \<and> cluster \<noteq> [] \<and> bundle \<noteq> []) then
           (\<lparr>http_status = 400,
             payload = [(''error'', Str ''Missing required parameters''), (''pods'', Pods [])]\<rparr>,
            s)
         else
           let cache_key = pods_cache_key app cluster bundle
           in (case cache_get now cache_key s of
                 (Some cached_pods, s1) \<Rightarrow>
                   if truthy cached_pods
                   then (\<lparr>http_status = 200, payload = [(''pods'', cached_pods)]\<rparr>, s1)
                   else get_pods_uncached env now app cluster bundle cache_key s1
               | (None, s1) \<Rightarrow> get_pods_uncached env now app cluster bundle cache_key s1))"

subsection \<open>Pod log resolution (views.py)\<close>

text \<open>The \<^verbatim>\<open>query_params\<close> of \<^verbatim>\<open>get_pod_logs_from_elasticsearch\<close>: the mapped
  values, up to 1000 lines.\<close>

definition pod_logs_query_params ::
  "string \<Rightarrow> string \<Rightarrow> string \<Rightarrow> string \<Rightarrow> query_params" where
  "pod_logs_query_params app cluster bundle pod =
     (case map_frontend_to_elasticsearch_values app cluster bundle (Some pod) of
        (mapped_app, mapped_cluster, mapped_bundle, mapped_pod) \<Rightarrow>
          \<lparr>qp_application = Some mapped_app, qp_cluster = Some mapped_cluster,
           qp_bundle = Some mapped_bundle, qp_pod = mapped_pod, qp_log_level = None,
           qp_search_text = None, qp_size = Some 1000, qp_page = Some 1\<rparr>)"

definition get_pod_logs_from_elasticsearch ::
  "env \<Rightarrow> time \<Rightarrow> string \<Rightarrow> string \<Rightarrow> string \<Rightarrow> string \<Rightarrow> state \<Rightarrow> string option \<times> state" where
  "get_pod_logs_from_elasticsearch env now app cluster bundle pod s =
     (case search_logs env (pod_logs_query_params app cluster bundle pod) s of
        (result, s1) \<Rightarrow>
          if sr_logs result \<noteq> []
          then (Some (format_elasticsearch_logs env now (sr_logs result)), s1)
          else (None, s1))"

text \<open>\<^verbatim>\<open>get_pod_logs_from_files\<close> is a placeholder in the source: it returns
  \<^verbatim>\<open>(None, None)\<close> and touches no file.\<close>

definition get_pod_logs_from_files ::
  "string \<Rightarrow> string \<Rightarrow> string \<Rightarrow> string \<Rightarrow> string option \<times> string option" where
  "get_pod_logs_from_files app cluster bundle pod = (None, None)"

definition log_metadata ::
  "env \<Rightarrow> time \<Rightarrow> string \<Rightarrow> string \<Rightarrow> string \<Rightarrow> string \<Rightarrow> string \<Rightarrow> string" where
  "log_metadata env now found_log_source pod app cluster bundle =
     ''# LogOps - Enhanced Log Viewer'' @ NL @ ''# Loaded: '' @ strftime env now
       @ NL @ ''# Source: '' @ found_log_source
       @ NL @ ''# Pod: '' @ pod
       @ NL @ ''# Application: '' @ app
       @ NL @ ''# Cluster: '' @ cluster
       @ NL @ ''# Bundle: '' @ bundle
       @ NL @ ''# ===================================='' @ NL @ NL"

text \<open>The synthetic tier of \<^verbatim>\<open>get_pod_logs\<close> (lines 759 to 764).\<close>

definition generate_and_index ::
  "env \<Rightarrow> time \<Rightarrow> string \<Rightarrow> string \<Rightarrow> string \<Rightarrow> string \<Rightarrow> state
     \<Rightarrow> (string \<times> string) \<times> state" where
  "generate_and_index env now app cluster bundle pod s =
     (let log_content = auto_generate_pod_logs env now app cluster bundle pod
      in ((log_content, ''auto-generated''),
          index_generated_logs_to_elasticsearch env now log_content app cluster bundle
            (emit (Invoke ''auto_generate_pod_logs'') s)))"

text \<open>The tiers of \<^verbatim>\<open>get_pod_logs\<close> after a cache miss (lines 748 to 764): the log
  text and its source tag.\<close>

definition resolve_pod_logs ::
  "env \<Rightarrow> time \<Rightarrow> string \<Rightarrow> string \<Rightarrow> string \<Rightarrow> string \<Rightarrow> state
     \<Rightarrow> (string \<times> string) \<times> state" where
  "resolve_pod_logs env now app cluster bundle pod s =
     (case get_pod_logs_from_elasticsearch env now app cluster bundle pod s of
        (es_logs, s1) \<Rightarrow>
          if es_logs \<noteq> None \<and> es_logs \<noteq> Some []
          then ((the es_logs, ''elasticsearch''), s1)
          else
            (case get_pod_logs_from_files app cluster bundle pod of
               (Some log_content, Some found_log_source) \<Rightarrow>
                 if log_content \<noteq> [] then ((log_content, found_log_source), s1)
                 else generate_and_index env now app cluster bundle pod s1
             | (Some log_content, None) \<Rightarrow>
                 if log_content \<noteq> [] then ((log_content, ''None''), s1)
                 else generate_and_index env now app cluster bundle pod s1
             | (None, found_log_source) \<Rightarrow>
                 generate_and_index env now app cluster bundle pod s1))"

definition get_pod_logs_uncached ::
  "env \<Rightarrow> time \<Rightarrow> string \<Rightarrow> string \<Rightarrow> string \<Rightarrow> string \<Rightarrow> string \<Rightarrow> state
     \<Rightarrow> response \<times> state" where
  "get_pod_logs_uncached env now app cluster bundle pod cache_key s =
     (case resolve_pod_logs env now app cluster bundle pod s of
        ((log_content, found_log_source), s1) \<Rightarrow>
          let final_log_content =
                log_metadata env now found_log_source pod app cluster bundle @ log_content
          in (\<lparr>http_status = 200, payload = [(''logs'', Str final_log_content)]\<rparr>,
              cache_set now cache_key (Str final_log_content) 30 s1))"

definition pod_logs_cache_key :: "string \<Rightarrow> string \<Rightarrow> string \<Rightarrow> string \<Rightarrow> string" where
  "pod_logs_cache_key app cluster bundle pod =
     ''pod_logs_'' @ sanitize_filename app @ ''_'' @ sanitize_filename cluster
       @ ''_'' @ sanitize_filename bundle @ ''_'' @ sanitize_filename pod"

definition get_pod_logs :: "env \<Rightarrow> time \<Rightarrow> post \<Rightarrow> state \<Rightarrow> response \<times> state" where
  "get_pod_logs env now req s =
     (let app = strip (post_get req ''application'' []);
          cluster = strip (post_get req ''cluster'' []);
          bundle = strip (post_get req ''bundle'' []);
          pod = strip (post_get req ''pod'' [])
      in if \<not> (app \<noteq> [] \<and> cluster \<noteq> [] \<and> bundle \<noteq> [] \<and> pod \<noteq> []) then
           (\<lparr>http_status = 400,
             payload = [(''error'', Str ''Missing required parameters''), (''logs'', Str [])]\<rparr>,
            s)
         else
           let cache_key = pod_logs_cache_key app cluster bundle pod
           in (case cache_get now cache_key s of
                 (Some cached_logs, s1) \<Rightarrow>
                   if truthy cached_logs
                   then (\<lparr>http_status = 200, payload = [(''logs'', cached_logs)]\<rparr>, s1)
                   else get_pod_logs_uncached env now app cluster bundle pod cache_key s1
               | (None, s1) \<Rightarrow>
                   get_pod_logs_uncached env now app cluster bundle pod cache_key s1))"

text \<open>
  Both handlers wrap their body in \<^verbatim>\<open>try ... except Exception\<close>, answering status 500.
  Under the types above nothing in the body raises (every store failure is caught in the
  callee), so the embedding has no such branch.
\<close>

subsection \<open>Analysis engine (views.py)\<close>

text \<open>\<^verbatim>\<open>TOGETHER_API_KEY and ...\<close>: the key is configured and non-empty.\<close>

definition api_key_configured :: "env \<Rightarrow> bool" where
  "api_key_configured env =
     (case together_api_key env of None \<Rightarrow> False | Some k \<Rightarrow> k \<noteq> [])"

text \<open>\<^verbatim>\<open>if len(log_text) > 8000: log_text = log_text[:8000] + "..."\<close>\<close>

definition truncate_for_analysis :: "string \<Rightarrow> string" where
  "truncate_for_analysis log_text =
     (if length log_text > 8000
      then take 8000 log_text @ NL @ ''... (truncated for analysis)''
      else log_text)"

definition summary_system_prompt :: string where
  "summary_system_prompt =
     ''You are an expert DevOps engineer who specializes in analyzing application logs. '' @ NL
     @ ''                    Provide a clear, concise summary that includes:'' @ NL
     @ ''                    1. Overall status (Success/Failure/Warning)'' @ NL
     @ ''                    2. Key events or operations performed'' @ NL
     @ ''                    3. Any errors or warnings found'' @ NL
     @ ''                    4. Performance metrics if available'' @ NL
     @ ''                    5. Actionable recommendations'' @ NL
     @ ''                    Keep the summary under 300 words and use bullet points for clarity.''"

definition analysis_system_prompt :: string where
  "analysis_system_prompt =
     ''You are a senior DevOps engineer specializing in root cause analysis. '' @ NL
     @ ''                    Analyze the provided logs and identify:'' @ NL
     @ ''                    1. Primary errors or failures and their root causes'' @ NL
     @ ''                    2. Impact assessment (High/Medium/Low)'' @ NL
     @ ''                    3. Recommended actions to resolve issues'' @ NL
     @ ''                    4. Prevention strategies for the future'' @ NL
     @ ''                    5. Timeline of critical events'' @ NL
     @ ''                    '' @ NL
     @ ''                    Be specific and actionable in your recommendations. '' @ NL
     @ ''                    If no errors are found, indicate successful execution and any optimization opportunities.'' @ NL
     @ ''                    Provide step-by-step remediation where applicable.''"

definition get_together_ai_summary_try ::
  "env \<Rightarrow> time \<Rightarrow> string \<Rightarrow> state \<Rightarrow> (exn + string) \<times> state" where
  "get_together_ai_summary_try env now log_text s =
     (let log_text = truncate_for_analysis log_text;
          data = \<lparr>t_model = ''meta-llama/Llama-3-8b-chat-hf'',
                  t_system = summary_system_prompt,
                  t_user = ''Analyze and summarize this application log:'' @ NL @ NL @ log_text,
                  t_max_tokens = 500\<rparr>;
          s1 = emit (Together_post data 30) s
      in (case together env (trace s) data of
            Raises e \<Rightarrow> (Inl e, s1)
          | Responds st txt body \<Rightarrow>
              if st = 200 then
                (case body of
                   Unreadable e \<Rightarrow> (Inl e, s1)
                 | Parsed summary \<Rightarrow>
                     if summary \<noteq> [] then
                       (Inr (robot_face @ '' **Together.ai Analysis** (Llama-3-8b)'' @ NL @ NL
                             @ strip summary
                             @ NL @ NL @ bar_chart @ '' **Analysis Metadata:**'' @ NL
                             @ bullet @ '' Model: meta-llama/Llama-3-8b-chat-hf'' @ NL
                             @ bullet @ '' Service: Together.ai Cloud AI'' @ NL
                             @ bullet @ '' Generated: '' @ strftime env now), s1)
                     else (Inr (cross_mark @ '' Received empty response from Together.ai''), s1))
              else (Inr (cross_mark @ '' Together.ai API error '' @ str_nat st @ '': ''
                         @ take 200 txt), s1)))"

definition get_together_ai_summary :: "env \<Rightarrow> time \<Rightarrow> string \<Rightarrow> state \<Rightarrow> string \<times> state" where
  "get_together_ai_summary env now log_text s =
     (case get_together_ai_summary_try env now log_text s of
        (Inl (Timeout m), s') \<Rightarrow> (cross_mark @ '' Together.ai request timeout'', s')
      | (Inl (Exception m), s') \<Rightarrow> (cross_mark @ '' Together.ai error: '' @ m, s')
      | (Inr r, s') \<Rightarrow> (r, s'))"

definition get_together_ai_analysis_try ::
  "env \<Rightarrow> time \<Rightarrow> string \<Rightarrow> state \<Rightarrow> (exn + string) \<times> state" where
  "get_together_ai_analysis_try env now log_text s =
     (let log_text = truncate_for_analysis log_text;
          data = \<lparr>t_model = ''meta-llama/Llama-3-8b-chat-hf'',
                  t_system = analysis_system_prompt,
                  t_user = ''Perform comprehensive root cause analysis on this log:''
                           @ NL @ NL @ log_text,
                  t_max_tokens = 600\<rparr>;
          s1 = emit (Together_post data 30) s
      in (case together env (trace s) data of
            Raises e \<Rightarrow> (Inl e, s1)
          | Responds st txt body \<Rightarrow>
              if st = 200 then
                (case body of
                   Unreadable e \<Rightarrow> (Inl e, s1)
                 | Parsed analysis \<Rightarrow>
                     if analysis \<noteq> [] then
                       (Inr (microscope @ '' **Together.ai Root Cause Analysis** (Llama-3-8b)''
                             @ NL @ NL @ strip analysis
                             @ NL @ NL @ bar_chart @ '' **Analysis Metadata:**'' @ NL
                             @ bullet @ '' Model: meta-llama/Llama-3-8b-chat-hf'' @ NL
                             @ bullet @ '' Service: Together.ai Cloud AI'' @ NL
                             @ bullet @ '' Analysis Method: Large Language Model'' @ NL
                             @ bullet @ '' Generated: '' @ strftime env now), s1)
                     else (Inr (cross_mark @ '' Received empty response from Together.ai''), s1))
              else (Inr (cross_mark @ '' Together.ai API error '' @ str_nat st @ '': ''
                         @ take 200 txt), s1)))"

definition get_together_ai_analysis :: "env \<Rightarrow> time \<Rightarrow> string \<Rightarrow> state \<Rightarrow> string \<times> state" where
  "get_together_ai_analysis env now log_text s =
     (case get_together_ai_analysis_try env now log_text s of
        (Inl (Timeout m), s') \<Rightarrow> (cross_mark @ '' Together.ai request timeout'', s')
      | (Inl (Exception m), s') \<Rightarrow> (cross_mark @ '' Together.ai error: '' @ m, s')
      | (Inr r, s') \<Rightarrow> (r, s'))"

text \<open>The status block of the local summary (lines 1052 to 1060).\<close>

definition local_summary_status :: "nat \<Rightarrow> nat \<Rightarrow> string" where
  "local_summary_status error_count warn_count =
     (if error_count > 0 then
        ''**Status: '' @ warning_sign @ '' ERRORS DETECTED**'' @ NL
        @ bullet @ '' '' @ str_nat error_count @ '' error(s) found requiring attention'' @ NL
      else if warn_count > 0 then
        ''**Status: '' @ high_voltage @ '' WARNINGS PRESENT**'' @ NL
        @ bullet @ '' '' @ str_nat warn_count @ '' warning(s) detected'' @ NL
      else
        ''**Status: '' @ check_mark @ '' HEALTHY**'' @ NL
        @ bullet @ '' No errors or warnings detected'' @ NL)"

text \<open>\<^verbatim>\<open>generate_local_summary\<close>; nothing in its \<^verbatim>\<open>try\<close> raises.\<close>

definition generate_local_summary :: "env \<Rightarrow> time \<Rightarrow> string \<Rightarrow> string" where
  "generate_local_summary env now log_text =
     (let lines = split_on (CHR 0x0A) log_text;
          info_count = length (filter (sublist ''INFO'') lines);
          warn_count = length (filter (sublist ''WARN'') lines);
          error_count = length (filter (sublist ''ERROR'') lines)
      in bar_chart @ '' **Local Log Analysis Engine**'' @ NL @ NL
         @ ''**Log Summary:**'' @ NL
         @ bullet @ '' Total log entries: ''
             @ str_nat (length (filter (\<lambda>line. strip line \<noteq> []) lines)) @ NL
         @ bullet @ '' INFO messages: '' @ str_nat info_count @ NL
         @ bullet @ '' WARN messages: '' @ str_nat warn_count @ NL
         @ bullet @ '' ERROR messages: '' @ str_nat error_count @ NL @ NL
         @ local_summary_status error_count warn_count
         @ NL @ ''**Recommendations:**'' @ NL
         @ (if error_count > 0
            then bullet @ '' Immediate investigation required for errors'' @ NL else [])
         @ (if warn_count > 0
            then bullet @ '' Monitor warnings for potential issues'' @ NL else [])
         @ bullet @ '' Continue monitoring system health'' @ NL
         @ NL @ chart_up @ '' **Analysis Engine:** LogOps Pattern Analyzer'' @ NL
         @ clock_three @ '' **Generated:** '' @ strftime env now)"

text \<open>\<^verbatim>\<open>for i, x in enumerate(xs[:3], 1): analysis += f"{i}. {x.strip()}\n"\<close>\<close>

definition first_three :: "string list \<Rightarrow> string" where
  "first_three xs =
     concat (map (\<lambda>(i, x). str_nat i @ ''. '' @ strip x @ NL) (zip [1 ..< 4] (take 3 xs)))"

definition generate_local_rca :: "env \<Rightarrow> time \<Rightarrow> string \<Rightarrow> string" where
  "generate_local_rca env now log_text =
     (let lines = split_on (CHR 0x0A) log_text;
          errs = filter (sublist ''ERROR'') lines;
          warnings = filter (sublist ''WARN'') lines
      in magnifier @ '' **Local Root Cause Analysis Engine**'' @ NL @ NL
         @ (if errs \<noteq> [] then
              ''**'' @ police_light @ '' Critical Issues Found ('' @ str_nat (length errs)
                @ ''):**'' @ NL
              @ first_three errs
              @ (if length errs > 3
                 then ''... and '' @ str_nat (length errs - 3) @ '' more errors'' @ NL else [])
              @ NL
              @ ''**Root Cause Assessment:**'' @ NL
              @ (if sublist ''timeout'' (lower log_text)
                 then bullet @ '' Connection timeouts detected - network or database issues'' @ NL
                 else [])
              @ (if sublist ''memory'' (lower log_text)
                 then bullet
                   @ '' Memory-related issues detected - potential resource constraints'' @ NL
                 else [])
              @ (if sublist ''connection'' (lower log_text)
                 then bullet
                   @ '' Connection issues detected - service availability problems'' @ NL
                 else [])
              @ NL @ ''**Immediate Actions:**'' @ NL
              @ ''1. Check service health and connectivity'' @ NL
              @ ''2. Review system resources (CPU, memory, disk)'' @ NL
              @ ''3. Verify database and network connectivity'' @ NL
              @ ''4. Check for recent deployments or configuration changes'' @ NL
            else if warnings \<noteq> [] then
              ''**'' @ warning_sign @ '' Warning Conditions ('' @ str_nat (length warnings)
                @ ''):**'' @ NL
              @ first_three warnings
              @ (if length warnings > 3
                 then ''... and '' @ str_nat (length warnings - 3) @ '' more warnings'' @ NL
                 else [])
              @ NL @ ''**Preventive Actions:**'' @ NL
              @ ''1. Monitor system metrics closely'' @ NL
              @ ''2. Consider scaling resources if needed'' @ NL
              @ ''3. Review performance thresholds'' @ NL
            else
              ''**'' @ check_mark @ '' System Operating Normally**'' @ NL
              @ bullet @ '' No critical errors detected'' @ NL
              @ bullet @ '' System appears healthy'' @ NL
              @ NL @ ''**Optimization Opportunities:**'' @ NL
              @ ''1. Continue monitoring for trends'' @ NL
              @ ''2. Review performance metrics'' @ NL
              @ ''3. Consider proactive maintenance'' @ NL)
         @ NL @ wrench @ '' **Analysis Method:** Pattern Recognition & Keyword Analysis'' @ NL
         @ clock_three @ '' **Generated:** '' @ strftime env now)"

text \<open>The placeholder texts the page shows before logs are loaded.\<close>

definition placeholders :: "string list" where
  "placeholders = [''Waiting for execution...'', ''Fetching pod logs...'']"

text \<open>The local fallbacks of the two handlers (lines 850 to 856 and 882 to 888).\<close>

definition local_summary_response :: "env \<Rightarrow> time \<Rightarrow> string \<Rightarrow> state \<Rightarrow> response \<times> state" where
  "local_summary_response env now log_text s =
     (\<lparr>http_status = 200,
       payload = [(''summary'', Str (generate_local_summary env now log_text)),
                  (''ai_service'', Str ''local_ai''),
                  (''model'', Str ''LogOps Pattern Analysis Engine'')]\<rparr>,
      emit (Invoke ''generate_local_summary'') s)"

definition local_rca_response :: "env \<Rightarrow> time \<Rightarrow> string \<Rightarrow> state \<Rightarrow> response \<times> state" where
  "local_rca_response env now log_text s =
     (\<lparr>http_status = 200,
       payload = [(''analysis'', Str (generate_local_rca env now log_text)),
                  (''ai_service'', Str ''local_ai''),
                  (''model'', Str ''LogOps RCA Engine'')]\<rparr>,
      emit (Invoke ''generate_local_rca'') s)"

definition summarize_logs :: "env \<Rightarrow> time \<Rightarrow> post \<Rightarrow> state \<Rightarrow> response \<times> state" where
  "summarize_logs env now req s =
     (let log_text = strip (post_get req ''log_text'' []);
          use_together = (lower (post_get req ''use_together'' ''true'') = ''true'')
      in if log_text = [] \<or> log_text \<in> set placeholders then
           (\<lparr>http_status = 200,
             payload = [(''summary'', Str (cross_mark @ '' No logs available to summarize.''))]\<rparr>,
            s)
         else if api_key_configured env \<and> use_together then
           (case get_together_ai_summary env now log_text s of
              (together_summary, s1) \<Rightarrow>
                if together_summary \<noteq> [] \<and> \<not> prefix cross_mark together_summary then
                  (\<lparr>http_status = 200,
                    payload = [(''summary'', Str together_summary),
                               (''ai_service'', Str ''together_ai''),
                               (''model'', Str ''meta-llama/Llama-3-8b-chat-hf'')]\<rparr>, s1)
                else local_summary_response env now log_text s1)
         else local_summary_response env now log_text s)"

definition analyze_logs :: "env \<Rightarrow> time \<Rightarrow> post \<Rightarrow> state \<Rightarrow> response \<times> state" where
  "analyze_logs env now req s =
     (let log_text = strip (post_get req ''log_text'' []);
          use_together = (lower (post_get req ''use_together'' ''true'') = ''true'')
      in if log_text = [] \<or> log_text \<in> set placeholders then
           (\<lparr>http_status = 200,
             payload = [(''analysis'',
                          Str (cross_mark @ '' No logs available for root cause analysis.''))]\<rparr>,
            s)
         else if api_key_configured env \<and> use_together then
           (case get_together_ai_analysis env now log_text s of
              (together_analysis, s1) \<Rightarrow>
                if together_analysis \<noteq> [] \<and> \<not> prefix cross_mark together_analysis then
                  (\<lparr>http_status = 200,
                    payload = [(''analysis'', Str together_analysis),
                               (''ai_service'', Str ''together_ai''),
                               (''model'', Str ''meta-llama/Llama-3-8b-chat-hf'')]\<rparr>, s1)
                else local_rca_response env now log_text s1)
         else local_rca_response env now log_text s)"

subsection \<open>The states the program reaches\<close>

definition init :: state where
  "init = \<lparr>cache = Map.empty, trace = []\<rparr>"

text \<open>The cache is the process-local one of settings.py, written by nothing but the two
  resolvers: the states of the program are those the handlers produce from the empty
  cache, whatever the environment answers and whenever they run.\<close>

inductive reachable :: "state \<Rightarrow> bool" where
  reach_init: "reachable init"
| reach_get_pods: "reachable s \<Longrightarrow> reachable (snd (get_pods env now req s))"
| reach_get_pod_logs: "reachable s \<Longrightarrow> reachable (snd (get_pod_logs env now req s))"
| reach_summarize_logs: "reachable s \<Longrightarrow> reachable (snd (summarize_logs env now req s))"
| reach_analyze_logs: "reachable s \<Longrightarrow> reachable (snd (analyze_logs env now req s))"

subsection \<open>Sample log generator (views.py, \<^verbatim>\<open>generate_specific_sample_logs\<close>)\<close>

text \<open>
  The random source is a stream of natural numbers read from a position; every call of
  the \<^verbatim>\<open>random\<close> module takes the next number. A float is drawn on a grid:
  \<^verbatim>\<open>random() < p/q\<close> is \<open>n mod q < p\<close>, \<^verbatim>\<open>uniform(a, b)\<close> formatted or rounded
  to k decimals is an integer number of 10^-k between the bounds, and
  \<^verbatim>\<open>choices(population, weights)\<close> falls into the cumulative weights as the
  library's bisection does.
\<close>

type_synonym rng = "(nat \<Rightarrow> nat) \<times> nat"

definition draw :: "rng \<Rightarrow> nat \<times> rng" where
  "draw g = (fst g (snd g), (fst g, Suc (snd g)))"

text \<open>\<^verbatim>\<open>random.randint(a, b)\<close>, both ends included.\<close>

definition randint :: "nat \<Rightarrow> nat \<Rightarrow> rng \<Rightarrow> nat \<times> rng" where
  "randint a b g = (case draw g of (n, g') \<Rightarrow> (a + n mod (b - a + 1), g'))"

text \<open>\<^verbatim>\<open>random.random() < p / q\<close>\<close>

definition random_below :: "nat \<Rightarrow> nat \<Rightarrow> rng \<Rightarrow> bool \<times> rng" where
  "random_below p q g = (case draw g of (n, g') \<Rightarrow> (n mod q < p, g'))"

fun weighted_index :: "nat list \<Rightarrow> nat \<Rightarrow> nat" where
  "weighted_index [] r = 0"
| "weighted_index [w] r = 0"
| "weighted_index (w # ws) r = (if r < w then 0 else Suc (weighted_index ws (r - w)))"

text \<open>\<^verbatim>\<open>random.choices(population, weights=weights)[0]\<close>\<close>

definition choices :: "'a list \<Rightarrow> nat list \<Rightarrow> rng \<Rightarrow> 'a \<times> rng" where
  "choices population weights g =
     (case draw g of
        (n, g') \<Rightarrow> (population ! weighted_index weights (n mod sum_list weights), g'))"

text \<open>\<^verbatim>\<open>random.choice(seq)\<close>: IndexError on an empty sequence.\<close>

definition choice :: "'a list \<Rightarrow> rng \<Rightarrow> exn + ('a \<times> rng)" where
  "choice seq g =
     (if seq = [] then Inl (Exception ''Cannot choose from an empty sequence'')
      else (case draw g of (n, g') \<Rightarrow> Inr (seq ! (n mod length seq), g')))"

text \<open>The message catalogue; its f-strings draw when the dictionary is built.\<close>

definition log_messages :: "rng \<Rightarrow> (string \<times> string list) list \<times> rng" where
  "log_messages g =
     (let (i1, g) = randint 50 200 g;
          (i2, g) = randint 1000 9999 g;
          (w1, g) = randint 75 90 g;
          (w2, g) = randint 15 30 g;
          (w3, g) = randint 50 200 g;
          (w4, g) = randint 80 95 g;
          (w5, g) = randint 25 45 g;
          (w6, g) = randint 1000 3000 g;
          (e1, g) = randint 30 60 g
      in ([(''INFO'',
             [''Service started successfully'',
              ''Processing request completed'',
              ''Health check passed'',
              ''Database connection established'',
              ''User authenticated successfully'',
              ''Request processed in '' @ str_nat i1 @ ''ms'',
              ''Cache hit for key: user_'' @ str_nat i2,
              ''Background job completed'',
              ''Configuration loaded successfully'',
              ''Transaction completed successfully'']),
           (''WARN'',
             [''High memory usage detected: '' @ str_nat w1 @ ''%'',
              ''Response time degradation: '' @ str_nat (w2 div 10) @ ''.''
                 @ str_nat (w2 mod 10) @ ''s'',
              ''Queue backlog growing: '' @ str_nat w3 @ '' pending items'',
              ''Connection pool near capacity: '' @ str_nat w4 @ ''%'',
              ''Cache miss ratio high: '' @ str_nat w5 @ ''%'',
              ''Slow query detected: '' @ str_nat w6 @ ''ms'']),
           (''ERROR'',
             [''Database connection timeout after '' @ str_nat e1 @ ''s'',
              ''Failed to process request: connection refused'',
              ''Authentication failed: invalid credentials'',
              ''OutOfMemoryError: Java heap space'',
              ''Network timeout: connection reset by peer'',
              ''Service temporarily unavailable'',
              ''Invalid request format''])], g))"

text \<open>\<^verbatim>\<open>f"{pod_num:03d}"\<close>\<close>

definition pad3 :: "nat \<Rightarrow> string" where
  "pad3 n = replicate (3 - length (str_nat n)) (CHR ''0'') @ str_nat n"

text \<open>One turn of the inner loop (lines 388 to 424): the entry and the random source
  after it, or the exception a failed lookup raises.\<close>

definition sample_entry ::
  "(string \<times> string list) list \<Rightarrow> time \<Rightarrow> string \<Rightarrow> string \<Rightarrow> string \<Rightarrow> string \<Rightarrow> rng
     \<Rightarrow> exn + (log_entry \<times> rng)" where
  "sample_entry messages base_time app cluster bundle pod_name g =
     (let (minutes, g) = randint 0 120 g;
          (seconds, g) = randint 0 59 g;
          log_time = base_time + int (60 * minutes) + int seconds;
          (level, g) = choices [''INFO'', ''WARN'', ''ERROR''] [70, 20, 10] g
      in (case map_of messages level of
            None \<Rightarrow> Inl (Exception level)
          | Some catalogue \<Rightarrow>
              (case choice catalogue g of
                 Inl e \<Rightarrow> Inl e
               | Inr (message, g) \<Rightarrow>
                   let (with_time, g) = random_below 3 10 g;
                       (response_time, g) =
                          (if with_time
                           then (case randint 100 2000 g of (r, g') \<Rightarrow> (Some r, g'))
                           else (None, g));
                       (with_status, g) = random_below 2 10 g
                   in (case (if with_status
                             then (case choice [200, 201, 400, 401, 404, 500] g of
                                     Inl e \<Rightarrow> Inl e
                                   | Inr (c, g') \<Rightarrow> Inr (Some c, g'))
                             else Inr (None, g)) of
                         Inl e \<Rightarrow> Inl e
                       | Inr (status, g) \<Rightarrow>
                           Inr (\<lparr>log_timestamp = log_time,
                                 log_application = app,
                                 log_cluster = cluster,
                                 log_bundle = bundle,
                                 log_pod = pod_name,
                                 log_level = level,
                                 log_message = message,
                                 log_source_file = ''elasticsearch'',
                                 log_response_time = response_time,
                                 log_status_code = status\<rparr>, g)))))"

text \<open>\<^verbatim>\<open>for _ in range(log_count)\<close>\<close>

fun sample_entries ::
  "nat \<Rightarrow> (string \<times> string list) list \<Rightarrow> time \<Rightarrow> string \<Rightarrow> string \<Rightarrow> string \<Rightarrow> string \<Rightarrow> rng
     \<Rightarrow> exn + (log_entry list \<times> rng)" where
  "sample_entries 0 messages base_time app cluster bundle pod_name g = Inr ([], g)"
| "sample_entries (Suc k) messages base_time app cluster bundle pod_name g =
     (case sample_entry messages base_time app cluster bundle pod_name g of
        Inl e \<Rightarrow> Inl e
      | Inr (entry, g1) \<Rightarrow>
          (case sample_entries k messages base_time app cluster bundle pod_name g1 of
             Inl e \<Rightarrow> Inl e
           | Inr (rest, g2) \<Rightarrow> Inr (entry # rest, g2)))"

text \<open>\<^verbatim>\<open>f"{app.lower()}-{bundle.lower()}-web-{pod_num:03d}"\<close>\<close>

definition sample_pod_name :: "string \<Rightarrow> string \<Rightarrow> nat \<Rightarrow> string" where
  "sample_pod_name app bundle pod_num =
     lower app @ ''-'' @ lower bundle @ ''-web-'' @ pad3 pod_num"

text \<open>\<^verbatim>\<open>for pod_num in range(1, 4)\<close>, over the pod numbers still to do.\<close>

fun sample_pods ::
  "nat list \<Rightarrow> (string \<times> string list) list \<Rightarrow> time \<Rightarrow> string \<Rightarrow> string \<Rightarrow> string \<Rightarrow> rng
     \<Rightarrow> exn + (log_entry list \<times> rng)" where
  "sample_pods [] messages base_time app cluster bundle g = Inr ([], g)"
| "sample_pods (pod_num # pod_nums) messages base_time app cluster bundle g =
     (let pod_name = sample_pod_name app bundle pod_num;
          (log_count, g1) = randint 20 30 g
      in (case sample_entries log_count messages base_time app cluster bundle pod_name g1 of
            Inl e \<Rightarrow> Inl e
          | Inr (logs, g2) \<Rightarrow>
              (case sample_pods pod_nums messages base_time app cluster bundle g2 of
                 Inl e \<Rightarrow> Inl e
               | Inr (rest, g3) \<Rightarrow> Inr (logs @ rest, g3))))"

definition generate_specific_sample_logs_try ::
  "rng \<Rightarrow> time \<Rightarrow> string \<Rightarrow> string \<Rightarrow> string \<Rightarrow> exn + (log_entry list \<times> rng)" where
  "generate_specific_sample_logs_try g now app cluster bundle =
     (let (messages, g) = log_messages g;
          base_time = now - 7200
      in sample_pods [1, 2, 3] messages base_time app cluster bundle g)"

text \<open>\<^verbatim>\<open>generate_specific_sample_logs\<close>: the empty list when the body raises.\<close>

definition generate_specific_sample_logs ::
  "rng \<Rightarrow> time \<Rightarrow> string \<Rightarrow> string \<Rightarrow> string \<Rightarrow> log_entry list" where
  "generate_specific_sample_logs g now app cluster bundle =
     (case generate_specific_sample_logs_try g now app cluster bundle of
        Inl e \<Rightarrow> []
      | Inr (sample_logs, g') \<Rightarrow> sample_logs)"

subsection \<open>Vocabulary of the properties, and a concrete environment\<close>

text \<open>A required field is missing or blank: absent from the form, or white space only.\<close>

definition missing_or_blank :: "post \<Rightarrow> string \<Rightarrow> bool" where
  "missing_or_blank req key =
     (case req key of None \<Rightarrow> True | Some v \<Rightarrow> list_all py_isspace v)"

text \<open>An environment in which the search store and the remote model cannot be reached,
  no configuration file exists and no remote credentials are configured.\<close>

definition offline_env :: env where
  "offline_env =
     \<lparr>es_health = (\<lambda>tr. Raises (Exception ''connection refused'')),
      es_search = (\<lambda>tr q. Raises (Exception ''connection refused'')),
      es_stats = (\<lambda>tr q. Raises (Exception ''connection refused'')),
      es_bulk = (\<lambda>tr logs. Raises (Exception ''connection refused'')),
      together = (\<lambda>tr r. Raises (Timeout ''timed out'')),
      path_exists = (\<lambda>tr p. False),
      pods_config = (\<lambda>tr a c b. None),
      together_api_key = None,
      strftime = (\<lambda>t. ''2024-05-01 12:00:00''),
      title = (\<lambda>x. x),
      format_elasticsearch_logs = (\<lambda>t logs. ''# Source: elasticsearch'')\<rparr>"

definition blank_cluster_request :: post where
  "blank_cluster_request =
     [''application'' \<mapsto> ''FOBPM'', ''cluster'' \<mapsto> ''   '', ''pod'' \<mapsto> ''web-001'']"

definition placeholder_request :: post where
  "placeholder_request = [''log_text'' \<mapsto> ''Waiting for execution...'']"

text \<open>The level of a generated line.\<close>

definition entry_level :: "time \<times> string \<times> string \<Rightarrow> string" where
  "entry_level e = fst (snd e)"

text \<open>The health probe fails: the request raises, or the status is not 200.\<close>

definition probe_fails :: "env \<Rightarrow> state \<Rightarrow> bool" where
  "probe_fails env s =
     (case es_health env (trace s) of Raises e \<Rightarrow> True | Responds st txt body \<Rightarrow> st \<noteq> 200)"

text \<open>A search fails: the probe fails, or the search request (sent after the probe)
  raises, answers with a status other than 200, or has a body that cannot be read.\<close>

definition search_fails :: "env \<Rightarrow> query_params \<Rightarrow> state \<Rightarrow> bool" where
  "search_fails env qp s =
     (probe_fails env s \<or>
      (case es_search env (trace s @ [Health_probe 5]) (build_search_query qp) of
         Raises e \<Rightarrow> True
       | Responds st txt body \<Rightarrow>
           st \<noteq> 200 \<or> (case body of Unreadable e \<Rightarrow> True | Parsed hits \<Rightarrow> False)))"

definition example_query :: query_params where
  "example_query =
     \<lparr>qp_application = Some ''FOBPM'', qp_cluster = Some ''Cluster Prod AKS 1'',
      qp_bundle = Some ''Bulkdeviceenrollment'', qp_pod = None, qp_log_level = None,
      qp_search_text = None, qp_size = Some 100, qp_page = Some 1\<rparr>"



text \<open>The cache answers the key with a fresh value the handlers accept (\<^verbatim>\<open>if cached:\<close>).\<close>

definition cache_hit :: "time \<Rightarrow> state \<Rightarrow> string \<Rightarrow> bool" where
  "cache_hit now s key = (case cache_lookup now s key of None \<Rightarrow> False | Some v \<Rightarrow> truthy v)"

definition example_request :: post where
  "example_request =
     [''application'' \<mapsto> ''FOBPM'', ''cluster'' \<mapsto> ''cluster1'',
      ''bundle'' \<mapsto> ''Bulkdeviceenrollment'',
      ''pod'' \<mapsto> ''fobpm-bulkdeviceenrollment-web-001'']"

definition display_name_request :: post where
  "display_name_request =
     [''application'' \<mapsto> ''FOBPM'', ''cluster'' \<mapsto> ''Cluster Prod AKS 1'',
      ''bundle'' \<mapsto> ''Bulkdeviceenrollment'',
      ''pod'' \<mapsto> ''fobpm-bulkdeviceenrollment-web-001'']"

text \<open>A form field as the handlers read it:
  \<^verbatim>\<open>request.POST.get(key, '').strip()\<close>.\<close>

definition form_field :: "post \<Rightarrow> string \<Rightarrow> string" where
  "form_field req key = strip (post_get req key [])"

text \<open>Every value in the cache is one the handlers accept on a read.\<close>

definition cache_ok :: "state \<Rightarrow> bool" where
  "cache_ok s = (\<forall>k v e. cache s k = Some (v, e) \<longrightarrow> truthy v)"

text \<open>The state after one pod-list and one pod-log request for the example filter, both at
  time 0 with the store unreachable: both results are in the cache.\<close>

definition warm_state :: state where
  "warm_state =
     snd (get_pod_logs offline_env 0 example_request
            (snd (get_pods offline_env 0 example_request init)))"


text \<open>Vocabulary for the sample log generator: a catalogue with a non-empty message list
  for each of the three levels; an entry with one of the three levels, the given pod name
  and an instant that is the base time plus two consecutive draws, reduced as
  \<^verbatim>\<open>randint(0, 120)\<close> minutes and \<^verbatim>\<open>randint(0, 59)\<close> seconds.\<close>

definition catalogue_ok :: "(string \<times> string list) list \<Rightarrow> bool" where
  "catalogue_ok messages =
     (\<forall>level\<in>set [''INFO'', ''WARN'', ''ERROR''].
        \<exists>c. map_of messages level = Some c \<and> c \<noteq> [])"

definition entry_ok :: "(nat \<Rightarrow> nat) \<Rightarrow> time \<Rightarrow> string \<Rightarrow> log_entry \<Rightarrow> bool" where
  "entry_ok f base_time pod_name e =
     (log_level e \<in> set [''INFO'', ''WARN'', ''ERROR'']
      \<and> log_pod e = pod_name
      \<and> (\<exists>n. log_timestamp e = base_time + int (60 * (f n mod 121)) + int (f (Suc n) mod 60)))"

text \<open>A random source whose every draw is 241: \<^verbatim>\<open>randint(0, 120)\<close> gives 120,
  \<^verbatim>\<open>randint(0, 59)\<close> gives 1 and \<^verbatim>\<open>randint(20, 30)\<close> gives 30.\<close>

definition late_rng :: rng where
  "late_rng = ((\<lambda>i. 241), 0)"

subsection \<open>Cache operations and line levels\<close>

text \<open>The cache operations among some events, in their order.\<close>

fun is_cache_event :: "event \<Rightarrow> bool" where
  "is_cache_event (Cache_get key) = True"
| "is_cache_event (Cache_set key v ttl) = True"
| "is_cache_event e = False"

definition cache_events :: "event list \<Rightarrow> event list" where
  "cache_events evs = filter is_cache_event evs"

text \<open>A step from \<open>s\<close> to \<open>s'\<close> that leaves the cache alone: it only appends events,
  none of them a cache operation.\<close>

definition quiet :: "state \<Rightarrow> state \<Rightarrow> bool" where
  "quiet s s' =
     (cache s' = cache s \<and> prefix (trace s) (trace s')
      \<and> cache_events (new_events s s') = [])"

text \<open>The keys of the cache operations among some events, in their order.\<close>

fun cache_keys :: "event list \<Rightarrow> string list" where
  "cache_keys [] = []"
| "cache_keys (Cache_get key # evs) = key # cache_keys evs"
| "cache_keys (Cache_set key v ttl # evs) = key # cache_keys evs"
| "cache_keys (e # evs) = cache_keys evs"

text \<open>The level a line of a log text shows: what stands between the first closing
  bracket with its space (the end of the timestamp) and the next colon.\<close>

definition line_level :: "string \<Rightarrow> string" where
  "line_level line =
     takeWhile (\<lambda>c. c \<noteq> CHR '':'') (drop 2 (dropWhile (\<lambda>c. c \<noteq> CHR '']'') line))"

text \<open>A pod name that says "warn", not "error", and carries a line break followed by
  a line of its own.\<close>

definition two_line_pod :: string where
  "two_line_pod = ''warn-svc'' @ NL @ ''[2024-05-01 12:00:00] FATAL: down''"

section \<open>Properties\<close>

subsection \<open>Strings\<close>

lemma lower_char_idem: "lower_char (lower_char c) = lower_char c"
proof -
  define n where "n = (of_char c :: nat)"
  have lt: "n < 256" by (simp add: n_def)
  show ?thesis
  proof (cases "(65 \<le> n \<and> n \<le> 90) \<or> (192 \<le> n \<and> n \<le> 222 \<and> n \<noteq> 215)")
    case True
    then have 1: "lower_char c = char_of (n + 32)"
      by (simp add: lower_char_def n_def Let_def)
    from True lt have 2: "(of_char (char_of (n + 32) :: char) :: nat) = n + 32"
      by (simp only: of_char_of) auto
    from True have 3: "\<not> ((65 \<le> n + 32 \<and> n + 32 \<le> 90)
        \<or> (192 \<le> n + 32 \<and> n + 32 \<le> 222 \<and> n + 32 \<noteq> 215))"
      by arith
    have "lower_char (char_of (n + 32)) = char_of (n + 32)"
      unfolding lower_char_def Let_def 2 using 3 by (simp only: if_False)
    with 1 show ?thesis by simp
  next
    case False
    then have "lower_char c = c"
      unfolding lower_char_def Let_def n_def by (simp only: if_False)
    then show ?thesis by simp
  qed
qed

lemma lower_idem: "lower (lower s) = lower s"
  by (simp add: lower_def lower_char_idem)

lemma lower_Nil_iff: "lower s = [] \<longleftrightarrow> s = []"
  by (simp add: lower_def)

subsection \<open>Field normalizer\<close>

lemma lower_bundle_values:
  "map (\<lambda>(k, v). lower v) bundle_mapping = map fst bundle_mapping"
  unfolding bundle_mapping_def
  by (simp add: lower_def lower_char_def char_of_eq_iff)

lemma bundle_fix:
  assumes "map_of bundle_mapping k = Some v"
  shows "map_of bundle_mapping (lower v) = Some v"
proof -
  from assms have "(k, v) \<in> set bundle_mapping" by (rule map_of_SomeD)
  moreover have "\<forall>x\<in>set bundle_mapping. (\<lambda>(k, v). lower v) x = fst x"
    using lower_bundle_values by (simp only: map_eq_conv)
  ultimately have "lower v = k" by fastforce
  with assms show ?thesis by simp
qed

lemma cluster_values_not_keys:
  "list_all (\<lambda>(k, v). map_of cluster_mapping v = None) cluster_mapping"
  unfolding cluster_mapping_def by simp

lemma cluster_fix:
  assumes "map_of cluster_mapping k = Some v"
  shows "map_of cluster_mapping v = None"
proof -
  from assms have "(k, v) \<in> set cluster_mapping" by (rule map_of_SomeD)
  with cluster_values_not_keys show ?thesis
    by (auto simp: list_all_iff)
qed

lemma cluster_get_idem:
  "dict_get cluster_mapping (dict_get cluster_mapping c c) (dict_get cluster_mapping c c)
     = dict_get cluster_mapping c c"
  by (cases "map_of cluster_mapping c") (simp_all add: dict_get_def cluster_fix)

lemma bundle_get_idem:
  "dict_get bundle_mapping (lower (dict_get bundle_mapping (lower b) b))
     (dict_get bundle_mapping (lower b) b) = dict_get bundle_mapping (lower b) b"
  by (cases "map_of bundle_mapping (lower b)") (simp_all add: dict_get_def bundle_fix)

text \<open>
  Claim C9. Field normalization is idempotent: for every tuple (application, cluster,
  bundle, pod), mapping the output of \<open>map_frontend_to_elasticsearch_values\<close> once more
  gives the same tuple as mapping once.
\<close>

theorem C9_normalize_idempotent:
  "(case map_frontend_to_elasticsearch_values app cluster bundle pod of
      (a, c, b, p) \<Rightarrow> map_frontend_to_elasticsearch_values a c b p)
   = map_frontend_to_elasticsearch_values app cluster bundle pod"
  by (cases pod)
     (simp_all add: map_frontend_to_elasticsearch_values_def Let_def
        cluster_get_idem bundle_get_idem lower_idem lower_Nil_iff)

theorem C9_normalize_idempotent_witness:
  "map_frontend_to_elasticsearch_values ''FOBPM'' ''cluster1'' ''BulkDeviceEnrollment''
       (Some ''FOBPM-Web-001'')
     = (''FOBPM'', ''Cluster Prod AKS 1'', ''Bulkdeviceenrollment'', Some ''fobpm-web-001'')
   \<and> map_frontend_to_elasticsearch_values ''FOBPM'' ''Cluster Prod AKS 1''
       ''Bulkdeviceenrollment'' (Some ''fobpm-web-001'')
     = (''FOBPM'', ''Cluster Prod AKS 1'', ''Bulkdeviceenrollment'', Some ''fobpm-web-001'')"
proof -
  have 1: "map_frontend_to_elasticsearch_values ''FOBPM'' ''cluster1'' ''BulkDeviceEnrollment''
       (Some ''FOBPM-Web-001'')
     = (''FOBPM'', ''Cluster Prod AKS 1'', ''Bulkdeviceenrollment'', Some ''fobpm-web-001'')"
    by (simp add: map_frontend_to_elasticsearch_values_def dict_get_def cluster_mapping_def
          bundle_mapping_def lower_def lower_char_def char_of_eq_iff)
  from C9_normalize_idempotent [of "''FOBPM''" "''cluster1''" "''BulkDeviceEnrollment''"
      "Some ''FOBPM-Web-001''"]
  show ?thesis unfolding 1 by simp
qed

lemma strip_Nil_iff: "strip v = [] \<longleftrightarrow> list_all py_isspace v"
proof
  assume "strip v = []"
  then have "dropWhile py_isspace (rev (dropWhile py_isspace v)) = []"
    by (simp add: strip_def)
  then have all: "\<forall>c\<in>set (dropWhile py_isspace v). py_isspace c"
    by (simp add: dropWhile_eq_Nil_conv)
  have "dropWhile py_isspace v = []"
  proof (rule ccontr)
    assume ne: "dropWhile py_isspace v \<noteq> []"
    then have "\<not> py_isspace (hd (dropWhile py_isspace v))" by (rule hd_dropWhile)
    moreover from ne have "hd (dropWhile py_isspace v) \<in> set (dropWhile py_isspace v)"
      by simp
    ultimately show False using all by blast
  qed
  then show "list_all py_isspace v" by (simp add: dropWhile_eq_Nil_conv list_all_iff)
next
  assume "list_all py_isspace v"
  then have d: "dropWhile py_isspace v = []"
    by (simp add: dropWhile_eq_Nil_conv list_all_iff)
  show "strip v = []" unfolding strip_def d by simp
qed

lemma missing_or_blank_strip:
  "missing_or_blank req key \<longleftrightarrow> strip (post_get req key []) = []"
  by (cases "req key") (simp_all add: missing_or_blank_def post_get_def strip_Nil_iff)

subsection \<open>Rejection of malformed requests\<close>

text \<open>
  Claim C1. A pod-list request (\<open>get_pods\<close>) or a pod-log request (\<open>get_pod_logs\<close>) in
  which application, cluster or bundle is missing or blank is answered with the
  HTTP-400 error payload and an empty result, and the state is the one before the call:
  no event at all (no search-store call, no cache read or write, no generator, no file
  access) has happened.
\<close>

theorem C1_missing_fields_rejected:
  assumes "missing_or_blank req ''application'' \<or> missing_or_blank req ''cluster''
             \<or> missing_or_blank req ''bundle''"
  shows "get_pods env now req s =
           (\<lparr>http_status = 400,
             payload = [(''error'', Str ''Missing required parameters''), (''pods'', Pods [])]\<rparr>,
            s)
       \<and> get_pod_logs env now req s =
           (\<lparr>http_status = 400,
             payload = [(''error'', Str ''Missing required parameters''), (''logs'', Str [])]\<rparr>,
            s)"
  using assms
  by (auto simp: get_pods_def get_pod_logs_def Let_def missing_or_blank_strip)

theorem C1_missing_fields_rejected_witness:
  "missing_or_blank blank_cluster_request ''cluster''
   \<and> missing_or_blank blank_cluster_request ''bundle''
   \<and> get_pods offline_env 0 blank_cluster_request init =
           (\<lparr>http_status = 400,
             payload = [(''error'', Str ''Missing required parameters''), (''pods'', Pods [])]\<rparr>,
            init)
   \<and> get_pod_logs offline_env 0 blank_cluster_request init =
           (\<lparr>http_status = 400,
             payload = [(''error'', Str ''Missing required parameters''), (''logs'', Str [])]\<rparr>,
            init)"
proof -
  have 1: "missing_or_blank blank_cluster_request ''cluster''"
    by (simp add: missing_or_blank_def blank_cluster_request_def py_isspace_def)
  have 2: "missing_or_blank blank_cluster_request ''bundle''"
    by (simp add: missing_or_blank_def blank_cluster_request_def)
  from 1 have "missing_or_blank blank_cluster_request ''application''
      \<or> missing_or_blank blank_cluster_request ''cluster''
      \<or> missing_or_blank blank_cluster_request ''bundle''" by simp
  from C1_missing_fields_rejected [OF this, of offline_env 0 init] 1 2
  show ?thesis by simp
qed

subsection \<open>Analysis engine\<close>

text \<open>
  Claim C4. A summarize or root-cause request whose text (trimmed, as the handlers read
  it) is empty or one of the placeholders "Waiting for execution..." and
  "Fetching pod logs..." gets the "no logs available" answer, and the state is unchanged:
  neither the remote model is called nor a local analyzer invoked.
\<close>

theorem C4_nothing_to_analyze:
  assumes "strip (post_get req ''log_text'' []) = []
           \<or> strip (post_get req ''log_text'' []) \<in> set placeholders"
  shows "summarize_logs env now req s =
           (\<lparr>http_status = 200,
             payload = [(''summary'', Str (cross_mark @ '' No logs available to summarize.''))]\<rparr>,
            s)
       \<and> analyze_logs env now req s =
           (\<lparr>http_status = 200,
             payload = [(''analysis'',
                          Str (cross_mark @ '' No logs available for root cause analysis.''))]\<rparr>,
            s)"
  using assms
  by (auto simp: summarize_logs_def analyze_logs_def Let_def)

theorem C4_nothing_to_analyze_witness:
  "strip (post_get placeholder_request ''log_text'' []) \<in> set placeholders
   \<and> summarize_logs offline_env 0 placeholder_request init =
           (\<lparr>http_status = 200,
             payload = [(''summary'', Str (cross_mark @ '' No logs available to summarize.''))]\<rparr>,
            init)
   \<and> analyze_logs offline_env 0 placeholder_request init =
           (\<lparr>http_status = 200,
             payload = [(''analysis'',
                          Str (cross_mark @ '' No logs available for root cause analysis.''))]\<rparr>,
            init)"
proof -
  have 1: "strip (post_get placeholder_request ''log_text'' []) \<in> set placeholders"
    by (simp add: placeholder_request_def post_get_def strip_def py_isspace_def
          placeholders_def)
  then have "strip (post_get placeholder_request ''log_text'' []) = []
      \<or> strip (post_get placeholder_request ''log_text'' []) \<in> set placeholders" by simp
  from C4_nothing_to_analyze [OF this, of offline_env 0 init] 1
  show ?thesis by simp
qed

lemma is_available_eq:
  "is_available env s = (\<not> probe_fails env s, emit (Health_probe 5) s)"
  by (simp add: is_available_def is_available_try_def probe_fails_def split: reply.splits)

subsection \<open>Search client adapter\<close>

text \<open>
  Claim C10. The adapter turns every failure into a value. \<open>is_available\<close> answers
  false exactly when the probe raises or has a status other than 200, and its one request
  carries the timeout 5. Whenever a search fails (probe failure, raised exception, status
  other than 200, unreadable body) \<open>search_logs\<close> returns the empty result with total 0
  and an error field; when nothing fails there is no error field.
\<close>

theorem C10_failures_become_values:
  "fst (is_available env s) = (\<not> probe_fails env s)
   \<and> new_events s (snd (is_available env s)) = [Health_probe 5]
   \<and> (search_fails env qp s \<longrightarrow>
        sr_logs (fst (search_logs env qp s)) = []
        \<and> sr_total (fst (search_logs env qp s)) = 0
        \<and> sr_error (fst (search_logs env qp s)) \<noteq> None)
   \<and> (\<not> search_fails env qp s \<longrightarrow> sr_error (fst (search_logs env qp s)) = None)"
  by (auto simp: is_available_eq new_events_def emit_def search_fails_def search_logs_def
        search_logs_try_def search_error_def Let_def
      split: reply.splits parsed.splits prod.splits)

theorem C10_failures_become_values_witness:
  "probe_fails offline_env init
   \<and> \<not> fst (is_available offline_env init)
   \<and> new_events init (snd (is_available offline_env init)) = [Health_probe 5]
   \<and> sr_logs (fst (search_logs offline_env example_query init)) = []
   \<and> sr_error (fst (search_logs offline_env example_query init)) \<noteq> None"
proof -
  have 1: "probe_fails offline_env init"
    by (simp add: probe_fails_def offline_env_def)
  then have 2: "search_fails offline_env example_query init"
    by (simp add: search_fails_def)
  from C10_failures_become_values [of offline_env init example_query] 1 2
  show ?thesis by simp
qed

subsection \<open>What each call does to the state\<close>

lemma trace_emit: "trace (emit e s) = trace s @ [e]"
  by (simp add: emit_def)

lemma cache_emit: "cache (emit e s) = cache s"
  by (simp add: emit_def)

lemma snd_search_logs:
  "snd (search_logs env qp s) =
     (if probe_fails env s then emit (Health_probe 5) s
      else emit (Search_post (build_search_query qp) 15) (emit (Health_probe 5) s))"
proof (cases "probe_fails env s")
  case True
  then show ?thesis
    by (simp add: search_logs_def search_logs_try_def is_available_eq)
next
  case False
  show ?thesis
  proof (cases "es_search env (trace (emit (Health_probe 5) s)) (build_search_query qp)")
    case (Raises e)
    with False show ?thesis
      by (simp add: search_logs_def search_logs_try_def is_available_eq Let_def)
  next
    case (Responds st raw body)
    with False show ?thesis
      by (cases body)
         (simp_all add: search_logs_def search_logs_try_def is_available_eq Let_def
            split: prod.splits)
  qed
qed

lemma snd_bulk_index_logs:
  "snd (bulk_index_logs env logs s) =
     (if logs = [] then s else emit (Bulk_post ''logops-logs'' logs 60) s)"
proof (cases "es_bulk env (trace s) logs")
  case (Raises e)
  then show ?thesis
    by (simp add: bulk_index_logs_def bulk_index_logs_try_def Let_def)
next
  case (Responds st raw body)
  then show ?thesis
    by (cases body) (simp_all add: bulk_index_logs_def bulk_index_logs_try_def Let_def)
qed

lemma index_generated_eq:
  "index_generated_logs_to_elasticsearch env now log_content app cluster bundle s =
     (if generated_log_entries now log_content app cluster bundle = [] then s
      else emit (Bulk_post ''logops-logs''
                   (generated_log_entries now log_content app cluster bundle) 60) s)"
  by (simp add: index_generated_logs_to_elasticsearch_def snd_bulk_index_logs Let_def)

lemma snd_get_log_statistics_eq:
  "snd (get_log_statistics env filters s) = emit (Stats_post (stats_request filters) 15) s"
proof (cases "es_stats env (trace s) (stats_request filters)")
  case (Raises e)
  then show ?thesis
    by (simp add: get_log_statistics_def get_log_statistics_try_def Let_def)
next
  case (Responds st raw body)
  then show ?thesis
    by (cases body)
       (simp_all add: get_log_statistics_def get_log_statistics_try_def Let_def
          split: prod.splits)
qed

lemma snd_get_log_statistics:
  "\<exists>q. snd (get_log_statistics env filters s) = emit (Stats_post q 15) s"
  using snd_get_log_statistics_eq by blast

lemma snd_get_pods_from_elasticsearch:
  "\<exists>q. snd (get_pods_from_elasticsearch env app cluster bundle s) = emit (Stats_post q 15) s"
proof -
  obtain a c b p where m: "map_frontend_to_elasticsearch_values app cluster bundle None = (a, c, b, p)"
    by (cases "map_frontend_to_elasticsearch_values app cluster bundle None") auto
  define qp where "qp = \<lparr>qp_application = Some a, qp_cluster = Some c,
                 qp_bundle = Some b, qp_pod = None, qp_log_level = None,
                 qp_search_text = None, qp_size = None, qp_page = None\<rparr>"
  obtain q where q: "snd (get_log_statistics env (Some qp) s) = emit (Stats_post q 15) s"
    using snd_get_log_statistics by blast
  have "snd (get_pods_from_elasticsearch env app cluster bundle s)
      = snd (get_log_statistics env (Some qp) s)"
    by (cases "get_log_statistics env (Some qp) s")
       (simp add: get_pods_from_elasticsearch_def m qp_def Let_def split: stats_result.splits)
  with q show ?thesis by auto
qed

lemma snd_get_pods_from_config:
  "snd (get_pods_from_config env app cluster bundle s) =
     (if path_exists env (trace s) ''app/static/pods_config.json''
      then emit (File_read ''app/static/pods_config.json'')
             (emit (Path_exists ''app/static/pods_config.json'') s)
      else emit (Path_exists ''app/static/pods_config.json'') s)"
  by (simp add: get_pods_from_config_def Let_def split: option.splits)

lemma generate_sample_pods_nonempty: "generate_sample_pods app bundle \<noteq> []"
  by (simp add: generate_sample_pods_def Let_def)

lemma get_pods_uncached_shape:
  "\<exists>pods s3. pods \<noteq> [] \<and> cache s3 = cache s \<and> prefix (trace s) (trace s3)
     \<and> get_pods_uncached env now app cluster bundle key s =
         (\<lparr>http_status = 200, payload = [(''pods'', Pods pods)]\<rparr>,
          cache_set now key (Pods pods) PODS_CACHE_TIMEOUT s3)"
proof -
  obtain es_pods s1 where g1: "get_pods_from_elasticsearch env app cluster bundle s = (es_pods, s1)"
    by (cases "get_pods_from_elasticsearch env app cluster bundle s") auto
  obtain q where "snd (get_pods_from_elasticsearch env app cluster bundle s)
      = emit (Stats_post q 15) s"
    using snd_get_pods_from_elasticsearch by blast
  with g1 have s1: "s1 = emit (Stats_post q 15) s" by simp
  show ?thesis
  proof (cases "es_pods = []")
    case False
    have "es_pods \<noteq> [] \<and> cache s1 = cache s \<and> prefix (trace s) (trace s1)
        \<and> get_pods_uncached env now app cluster bundle key s =
           (\<lparr>http_status = 200, payload = [(''pods'', Pods es_pods)]\<rparr>,
            cache_set now key (Pods es_pods) PODS_CACHE_TIMEOUT s1)"
      using g1 s1 False by (simp add: get_pods_uncached_def cache_emit trace_emit)
    then show ?thesis by blast
  next
    case True
    obtain pods s2 where g2: "get_pods_from_config env app cluster bundle s1 = (pods, s2)"
      by (cases "get_pods_from_config env app cluster bundle s1") auto
    have "s2 = snd (get_pods_from_config env app cluster bundle s1)"
      using g2 by simp
    then have s2: "cache s2 = cache s \<and> prefix (trace s) (trace s2)"
      unfolding snd_get_pods_from_config s1
      by (simp add: cache_emit trace_emit prefix_def)
    show ?thesis
    proof (cases "pods = []")
      case False
      have "pods \<noteq> [] \<and> cache s2 = cache s \<and> prefix (trace s) (trace s2)
          \<and> get_pods_uncached env now app cluster bundle key s =
             (\<lparr>http_status = 200, payload = [(''pods'', Pods pods)]\<rparr>,
              cache_set now key (Pods pods) PODS_CACHE_TIMEOUT s2)"
        using g1 g2 True False s2 by (simp add: get_pods_uncached_def)
      then show ?thesis by blast
    next
      case pe: True
      have "generate_sample_pods app bundle \<noteq> []
          \<and> cache (emit (Invoke ''generate_sample_pods'') s2) = cache s
          \<and> prefix (trace s) (trace (emit (Invoke ''generate_sample_pods'') s2))
          \<and> get_pods_uncached env now app cluster bundle key s =
             (\<lparr>http_status = 200, payload = [(''pods'', Pods (generate_sample_pods app bundle))]\<rparr>,
              cache_set now key (Pods (generate_sample_pods app bundle)) PODS_CACHE_TIMEOUT
                (emit (Invoke ''generate_sample_pods'') s2))"
        using g1 g2 True pe s2
        by (simp add: get_pods_uncached_def generate_sample_pods_nonempty cache_emit trace_emit)
      then show ?thesis by blast
    qed
  qed
qed

lemma trace_cache_set: "trace (cache_set now key v ttl s) = trace s @ [Cache_set key v ttl]"
  by (simp add: cache_set_def emit_def)

lemma cache_cache_set:
  "cache (cache_set now key v ttl s) = (cache s)(key \<mapsto> (v, now + int ttl))"
  by (simp add: cache_set_def emit_def)

lemma get_pods_uncached_trace:
  "prefix (trace s) (trace (snd (get_pods_uncached env now app cluster bundle key s)))"
proof -
  obtain pods s3 where "prefix (trace s) (trace s3)"
    and "get_pods_uncached env now app cluster bundle key s =
         (\<lparr>http_status = 200, payload = [(''pods'', Pods pods)]\<rparr>,
          cache_set now key (Pods pods) PODS_CACHE_TIMEOUT s3)"
    using get_pods_uncached_shape by blast
  then show ?thesis by (auto simp: trace_cache_set prefix_def)
qed

lemma form_field_Nil: "form_field req key = [] \<longleftrightarrow> missing_or_blank req key"
  by (simp add: form_field_def missing_or_blank_strip)

lemma new_events_emit: "new_events s (emit e s) = [e]"
  by (simp add: new_events_def emit_def)

lemma new_events_prefix:
  assumes "prefix (trace (emit e s)) (trace s')"
  shows "\<exists>rest. new_events s s' = e # rest"
proof -
  from assms obtain zs where "trace s' = trace (emit e s) @ zs"
    by (auto simp: prefix_def)
  then have "trace s' = trace s @ e # zs" by (simp add: trace_emit)
  then show ?thesis by (simp add: new_events_def)
qed

subsection \<open>Pod log resolution, step by step\<close>

lemma prefix_trans': "prefix a b \<Longrightarrow> prefix b c \<Longrightarrow> prefix a c"
  by (auto simp: prefix_def)

lemma get_pod_logs_from_elasticsearch_eq:
  "get_pod_logs_from_elasticsearch env now app cluster bundle pod s =
     (if sr_logs (fst (search_logs env (pod_logs_query_params app cluster bundle pod) s)) \<noteq> []
      then Some (format_elasticsearch_logs env now
             (sr_logs (fst (search_logs env (pod_logs_query_params app cluster bundle pod) s))))
      else None,
      snd (search_logs env (pod_logs_query_params app cluster bundle pod) s))"
  by (cases "search_logs env (pod_logs_query_params app cluster bundle pod) s")
     (simp add: get_pod_logs_from_elasticsearch_def)

lemma search_logs_grows:
  "cache (snd (search_logs env qp s)) = cache s
   \<and> prefix (trace s) (trace (snd (search_logs env qp s)))"
  by (simp add: snd_search_logs cache_emit trace_emit prefix_def)

lemma index_generated_grows:
  "cache (index_generated_logs_to_elasticsearch env now log_content app cluster bundle s)
     = cache s
   \<and> prefix (trace s)
        (trace (index_generated_logs_to_elasticsearch env now log_content app cluster bundle s))"
  by (simp add: index_generated_eq cache_emit trace_emit prefix_def)

lemma generate_and_index_grows:
  "cache (snd (generate_and_index env now app cluster bundle pod s)) = cache s
   \<and> prefix (trace s) (trace (snd (generate_and_index env now app cluster bundle pod s)))"
proof -
  let ?s1 = "emit (Invoke ''auto_generate_pod_logs'') s"
  let ?c = "auto_generate_pod_logs env now app cluster bundle pod"
  have 1: "snd (generate_and_index env now app cluster bundle pod s)
      = index_generated_logs_to_elasticsearch env now ?c app cluster bundle ?s1"
    by (simp add: generate_and_index_def Let_def)
  have "prefix (trace s) (trace ?s1)" by (simp add: trace_emit prefix_def)
  moreover have "prefix (trace ?s1)
      (trace (index_generated_logs_to_elasticsearch env now ?c app cluster bundle ?s1))"
    using index_generated_grows by blast
  ultimately have "prefix (trace s)
      (trace (index_generated_logs_to_elasticsearch env now ?c app cluster bundle ?s1))"
    by (rule prefix_trans')
  moreover have "cache (index_generated_logs_to_elasticsearch env now ?c app cluster bundle ?s1)
      = cache s"
    using index_generated_grows [of env now ?c app cluster "bundle" ?s1]
    by (simp add: cache_emit)
  ultimately show ?thesis unfolding 1 by simp
qed

lemma resolve_pod_logs_grows:
  "cache (snd (resolve_pod_logs env now app cluster bundle pod s)) = cache s
   \<and> prefix (trace s) (trace (snd (resolve_pod_logs env now app cluster bundle pod s)))"
proof -
  let ?r = "search_logs env (pod_logs_query_params app cluster bundle pod) s"
  show ?thesis
  proof (cases "sr_logs (fst ?r) \<noteq> []
      \<and> format_elasticsearch_logs env now (sr_logs (fst ?r)) \<noteq> []")
    case True
    then have "snd (resolve_pod_logs env now app cluster bundle pod s) = snd ?r"
      by (simp add: resolve_pod_logs_def get_pod_logs_from_elasticsearch_eq)
    with search_logs_grows [of env _ s] show ?thesis by simp
  next
    case False
    then have "snd (resolve_pod_logs env now app cluster bundle pod s)
        = snd (generate_and_index env now app cluster bundle pod (snd ?r))"
      by (auto simp: resolve_pod_logs_def get_pod_logs_from_elasticsearch_eq
            get_pod_logs_from_files_def)
    moreover have "prefix (trace s)
        (trace (snd (generate_and_index env now app cluster bundle pod (snd ?r))))"
      using search_logs_grows [of env "pod_logs_query_params app cluster bundle pod" s]
        generate_and_index_grows [of env now app cluster "bundle" pod "snd ?r"]
      by (blast intro: prefix_trans')
    moreover have "cache (snd (generate_and_index env now app cluster bundle pod (snd ?r)))
        = cache s"
      using search_logs_grows [of env "pod_logs_query_params app cluster bundle pod" s]
        generate_and_index_grows [of env now app cluster "bundle" pod "snd ?r"]
      by simp
    ultimately show ?thesis by simp
  qed
qed

lemma log_metadata_nonempty:
  "log_metadata env now found_log_source pod app cluster bundle \<noteq> []"
  by (simp add: log_metadata_def)

lemma get_pod_logs_uncached_shape:
  "\<exists>content s3. content \<noteq> [] \<and> cache s3 = cache s \<and> prefix (trace s) (trace s3)
     \<and> get_pod_logs_uncached env now app cluster bundle pod key s =
         (\<lparr>http_status = 200, payload = [(''logs'', Str content)]\<rparr>,
          cache_set now key (Str content) 30 s3)"
proof -
  obtain log_content found_log_source s1
    where r: "resolve_pod_logs env now app cluster bundle pod s
                = ((log_content, found_log_source), s1)"
    by (cases "resolve_pod_logs env now app cluster bundle pod s") auto
  with resolve_pod_logs_grows [of env now app cluster "bundle" pod s]
  have g: "cache s1 = cache s \<and> prefix (trace s) (trace s1)" by simp
  let ?content = "log_metadata env now found_log_source pod app cluster bundle @ log_content"
  have "?content \<noteq> [] \<and> cache s1 = cache s \<and> prefix (trace s) (trace s1)
     \<and> get_pod_logs_uncached env now app cluster bundle pod key s =
         (\<lparr>http_status = 200, payload = [(''logs'', Str ?content)]\<rparr>,
          cache_set now key (Str ?content) 30 s1)"
    using r g by (simp add: get_pod_logs_uncached_def log_metadata_nonempty Let_def)
  then show ?thesis by blast
qed

lemma get_pod_logs_uncached_trace:
  "prefix (trace s) (trace (snd (get_pod_logs_uncached env now app cluster bundle pod key s)))"
proof -
  obtain content s3 where "prefix (trace s) (trace s3)"
    and "get_pod_logs_uncached env now app cluster bundle pod key s =
         (\<lparr>http_status = 200, payload = [(''logs'', Str content)]\<rparr>,
          cache_set now key (Str content) 30 s3)"
    using get_pod_logs_uncached_shape by blast
  then show ?thesis by (auto simp: trace_cache_set prefix_def)
qed

subsection \<open>The cache key\<close>

lemma get_pods_first_event:
  assumes "form_field req ''application'' \<noteq> []" "form_field req ''cluster'' \<noteq> []"
    "form_field req ''bundle'' \<noteq> []"
  shows "\<exists>rest. new_events s (snd (get_pods env now req s)) =
           Cache_get (pods_cache_key (form_field req ''application'')
             (form_field req ''cluster'') (form_field req ''bundle'')) # rest"
proof -
  let ?key = "pods_cache_key (form_field req ''application'')
             (form_field req ''cluster'') (form_field req ''bundle'')"
  let ?s1 = "emit (Cache_get ?key) s"
  have "snd (get_pods env now req s) = ?s1
      \<or> snd (get_pods env now req s)
          = snd (get_pods_uncached env now (form_field req ''application'')
              (form_field req ''cluster'') (form_field req ''bundle'') ?key ?s1)"
    using assms
    by (auto simp: get_pods_def Let_def cache_get_def form_field_def split: option.splits)
  then have "prefix (trace ?s1) (trace (snd (get_pods env now req s)))"
    using get_pods_uncached_trace [of ?s1] by auto
  then show ?thesis by (rule new_events_prefix)
qed

lemma get_pod_logs_first_event:
  assumes "form_field req ''application'' \<noteq> []" "form_field req ''cluster'' \<noteq> []"
    "form_field req ''bundle'' \<noteq> []" "form_field req ''pod'' \<noteq> []"
  shows "\<exists>rest. new_events s (snd (get_pod_logs env now req s)) =
           Cache_get (pod_logs_cache_key (form_field req ''application'')
             (form_field req ''cluster'') (form_field req ''bundle'')
             (form_field req ''pod'')) # rest"
proof -
  let ?key = "pod_logs_cache_key (form_field req ''application'')
             (form_field req ''cluster'') (form_field req ''bundle'') (form_field req ''pod'')"
  let ?s1 = "emit (Cache_get ?key) s"
  have "snd (get_pod_logs env now req s) = ?s1
      \<or> snd (get_pod_logs env now req s)
          = snd (get_pod_logs_uncached env now (form_field req ''application'')
              (form_field req ''cluster'') (form_field req ''bundle'')
              (form_field req ''pod'') ?key ?s1)"
    using assms
    by (auto simp: get_pod_logs_def Let_def cache_get_def form_field_def split: option.splits)
  then have "prefix (trace ?s1) (trace (snd (get_pod_logs env now req s)))"
    using get_pod_logs_uncached_trace [of ?s1] by auto
  then show ?thesis by (rule new_events_prefix)
qed

lemma sanitize_filename_safe: "list_all safe_char (sanitize_filename v)"
proof (cases "v = []")
  case True
  then show ?thesis by (simp add: sanitize_filename_def safe_char_def)
next
  case False
  have "safe_char (CHR ''_'')" by (simp add: safe_char_def)
  with False show ?thesis
    by (auto simp: sanitize_filename_def list_all_iff)
qed

lemma cache_keys_safe:
  "list_all safe_char (pods_cache_key app cluster bundle)"
  "list_all safe_char (pod_logs_cache_key app cluster bundle pod)"
proof -
  have "list_all safe_char ''pods_''" "list_all safe_char ''pod_logs_''"
    "list_all safe_char ''_''"
    by (simp_all add: safe_char_def)
  then show "list_all safe_char (pods_cache_key app cluster bundle)"
    "list_all safe_char (pod_logs_cache_key app cluster bundle pod)"
    unfolding pods_cache_key_def pod_logs_cache_key_def
    by (simp_all only: list_all_append sanitize_filename_safe simp_thms)
qed

lemma example_request_fields:
  "form_field example_request ''application'' = ''FOBPM''"
  "form_field example_request ''cluster'' = ''cluster1''"
  "form_field example_request ''bundle'' = ''Bulkdeviceenrollment''"
  "form_field example_request ''pod'' = ''fobpm-bulkdeviceenrollment-web-001''"
  by (simp_all add: form_field_def post_get_def example_request_def strip_def py_isspace_def)

lemma display_name_request_fields:
  "form_field display_name_request ''application'' = ''FOBPM''"
  "form_field display_name_request ''cluster'' = ''Cluster Prod AKS 1''"
  "form_field display_name_request ''bundle'' = ''Bulkdeviceenrollment''"
  "form_field display_name_request ''pod'' = ''fobpm-bulkdeviceenrollment-web-001''"
  by (simp_all add: form_field_def post_get_def display_name_request_def strip_def
        py_isspace_def)

lemma example_keys:
  "pods_cache_key ''FOBPM'' ''cluster1'' ''Bulkdeviceenrollment''
     = ''pods_FOBPM_cluster1_Bulkdeviceenrollment''"
  "pods_cache_key ''FOBPM'' ''Cluster Prod AKS 1'' ''Bulkdeviceenrollment''
     = ''pods_FOBPM_Cluster_Prod_AKS_1_Bulkdeviceenrollment''"
  "pod_logs_cache_key ''FOBPM'' ''cluster1'' ''Bulkdeviceenrollment''
       ''fobpm-bulkdeviceenrollment-web-001''
     = ''pod_logs_FOBPM_cluster1_Bulkdeviceenrollment_fobpm-bulkdeviceenrollment-web-001''"
  by (simp_all add: pods_cache_key_def pod_logs_cache_key_def sanitize_filename_def
        safe_char_def)

lemma example_normalized:
  "map_frontend_to_elasticsearch_values ''FOBPM'' ''cluster1'' ''Bulkdeviceenrollment'' None
     = (''FOBPM'', ''Cluster Prod AKS 1'', ''Bulkdeviceenrollment'', None)"
  "map_frontend_to_elasticsearch_values ''FOBPM'' ''Cluster Prod AKS 1''
       ''Bulkdeviceenrollment'' None
     = (''FOBPM'', ''Cluster Prod AKS 1'', ''Bulkdeviceenrollment'', None)"
  by (simp_all add: map_frontend_to_elasticsearch_values_def dict_get_def cluster_mapping_def
        bundle_mapping_def lower_def lower_char_def char_of_eq_iff)

subsection \<open>The cache holds only values the handlers accept\<close>

lemma cache_get_eq: "cache_get now key s = (cache_lookup now s key, emit (Cache_get key) s)"
  by (simp add: cache_get_def)

lemma get_pods_miss:
  assumes "form_field req ''application'' \<noteq> []" "form_field req ''cluster'' \<noteq> []"
    "form_field req ''bundle'' \<noteq> []"
    and "\<not> cache_hit now s (pods_cache_key (form_field req ''application'')
             (form_field req ''cluster'') (form_field req ''bundle''))"
  shows "get_pods env now req s =
           get_pods_uncached env now (form_field req ''application'')
             (form_field req ''cluster'') (form_field req ''bundle'')
             (pods_cache_key (form_field req ''application'')
               (form_field req ''cluster'') (form_field req ''bundle''))
             (emit (Cache_get (pods_cache_key (form_field req ''application'')
               (form_field req ''cluster'') (form_field req ''bundle''))) s)"
  using assms
  by (auto simp: get_pods_def Let_def cache_get_eq form_field_def cache_hit_def
      split: option.splits)

lemma get_pods_hit:
  assumes "form_field req ''application'' \<noteq> []" "form_field req ''cluster'' \<noteq> []"
    "form_field req ''bundle'' \<noteq> []"
    and "cache_lookup now s (pods_cache_key (form_field req ''application'')
             (form_field req ''cluster'') (form_field req ''bundle'')) = Some v"
    and "truthy v"
  shows "get_pods env now req s =
           (\<lparr>http_status = 200, payload = [(''pods'', v)]\<rparr>,
            emit (Cache_get (pods_cache_key (form_field req ''application'')
               (form_field req ''cluster'') (form_field req ''bundle''))) s)"
  using assms
  by (simp add: get_pods_def Let_def cache_get_eq form_field_def)

lemma get_pod_logs_miss:
  assumes "form_field req ''application'' \<noteq> []" "form_field req ''cluster'' \<noteq> []"
    "form_field req ''bundle'' \<noteq> []" "form_field req ''pod'' \<noteq> []"
    and "\<not> cache_hit now s (pod_logs_cache_key (form_field req ''application'')
             (form_field req ''cluster'') (form_field req ''bundle'') (form_field req ''pod''))"
  shows "get_pod_logs env now req s =
           get_pod_logs_uncached env now (form_field req ''application'')
             (form_field req ''cluster'') (form_field req ''bundle'') (form_field req ''pod'')
             (pod_logs_cache_key (form_field req ''application'')
               (form_field req ''cluster'') (form_field req ''bundle'') (form_field req ''pod''))
             (emit (Cache_get (pod_logs_cache_key (form_field req ''application'')
               (form_field req ''cluster'') (form_field req ''bundle'')
               (form_field req ''pod''))) s)"
  using assms
  by (auto simp: get_pod_logs_def Let_def cache_get_eq form_field_def cache_hit_def
      split: option.splits)

lemma get_pod_logs_hit:
  assumes "form_field req ''application'' \<noteq> []" "form_field req ''cluster'' \<noteq> []"
    "form_field req ''bundle'' \<noteq> []" "form_field req ''pod'' \<noteq> []"
    and "cache_lookup now s (pod_logs_cache_key (form_field req ''application'')
             (form_field req ''cluster'') (form_field req ''bundle'')
             (form_field req ''pod'')) = Some v"
    and "truthy v"
  shows "get_pod_logs env now req s =
           (\<lparr>http_status = 200, payload = [(''logs'', v)]\<rparr>,
            emit (Cache_get (pod_logs_cache_key (form_field req ''application'')
               (form_field req ''cluster'') (form_field req ''bundle'')
               (form_field req ''pod''))) s)"
  using assms
  by (simp add: get_pod_logs_def Let_def cache_get_eq form_field_def)

lemma cache_ok_update:
  "cache_ok s \<Longrightarrow> truthy v \<Longrightarrow> cache s' = (cache s)(key \<mapsto> (v, e)) \<Longrightarrow> cache_ok s'"
  by (auto simp: cache_ok_def)

lemma cache_ok_same: "cache_ok s \<Longrightarrow> cache s' = cache s \<Longrightarrow> cache_ok s'"
  by (simp add: cache_ok_def)

lemma get_pods_uncached_cache_ok:
  assumes "cache_ok s"
  shows "cache_ok (snd (get_pods_uncached env now app cluster bundle key s))"
proof -
  obtain pods s3 where "pods \<noteq> []" "cache s3 = cache s"
    and "get_pods_uncached env now app cluster bundle key s =
         (\<lparr>http_status = 200, payload = [(''pods'', Pods pods)]\<rparr>,
          cache_set now key (Pods pods) PODS_CACHE_TIMEOUT s3)"
    using get_pods_uncached_shape by blast
  then have "truthy (Pods pods)"
    and "cache (snd (get_pods_uncached env now app cluster bundle key s))
      = (cache s)(key \<mapsto> (Pods pods, now + int PODS_CACHE_TIMEOUT))"
    by (simp_all add: cache_cache_set)
  with assms show ?thesis by (blast intro: cache_ok_update)
qed

lemma get_pod_logs_uncached_cache_ok:
  assumes "cache_ok s"
  shows "cache_ok (snd (get_pod_logs_uncached env now app cluster bundle pod key s))"
proof -
  obtain content s3 where "content \<noteq> []" "cache s3 = cache s"
    and "get_pod_logs_uncached env now app cluster bundle pod key s =
         (\<lparr>http_status = 200, payload = [(''logs'', Str content)]\<rparr>,
          cache_set now key (Str content) 30 s3)"
    using get_pod_logs_uncached_shape by blast
  then have "truthy (Str content)"
    and "cache (snd (get_pod_logs_uncached env now app cluster bundle pod key s))
      = (cache s)(key \<mapsto> (Str content, now + int 30))"
    by (simp_all add: cache_cache_set)
  with assms show ?thesis by (blast intro: cache_ok_update)
qed

lemma get_pods_cache_ok:
  assumes "cache_ok s"
  shows "cache_ok (snd (get_pods env now req s))"
proof -
  let ?key = "pods_cache_key (form_field req ''application'')
             (form_field req ''cluster'') (form_field req ''bundle'')"
  let ?s1 = "emit (Cache_get ?key) s"
  from assms have ok1: "cache_ok ?s1" by (simp add: cache_ok_def cache_emit)
  have "snd (get_pods env now req s) = s \<or> snd (get_pods env now req s) = ?s1
      \<or> snd (get_pods env now req s)
          = snd (get_pods_uncached env now (form_field req ''application'')
              (form_field req ''cluster'') (form_field req ''bundle'') ?key ?s1)"
    by (auto simp: get_pods_def Let_def cache_get_eq form_field_def split: option.splits)
  with assms ok1 get_pods_uncached_cache_ok [OF ok1] show ?thesis by auto
qed

lemma get_pod_logs_cache_ok:
  assumes "cache_ok s"
  shows "cache_ok (snd (get_pod_logs env now req s))"
proof -
  let ?key = "pod_logs_cache_key (form_field req ''application'')
             (form_field req ''cluster'') (form_field req ''bundle'') (form_field req ''pod'')"
  let ?s1 = "emit (Cache_get ?key) s"
  from assms have ok1: "cache_ok ?s1" by (simp add: cache_ok_def cache_emit)
  have "snd (get_pod_logs env now req s) = s \<or> snd (get_pod_logs env now req s) = ?s1
      \<or> snd (get_pod_logs env now req s)
          = snd (get_pod_logs_uncached env now (form_field req ''application'')
              (form_field req ''cluster'') (form_field req ''bundle'')
              (form_field req ''pod'') ?key ?s1)"
    by (auto simp: get_pod_logs_def Let_def cache_get_eq form_field_def split: option.splits)
  with assms ok1 get_pod_logs_uncached_cache_ok [OF ok1] show ?thesis by auto
qed

lemma snd_get_together_ai_summary:
  "cache (snd (get_together_ai_summary env now log_text s)) = cache s"
proof -
  let ?data = "\<lparr>t_model = ''meta-llama/Llama-3-8b-chat-hf'',
                  t_system = summary_system_prompt,
                  t_user = ''Analyze and summarize this application log:'' @ NL @ NL
                           @ truncate_for_analysis log_text,
                  t_max_tokens = 500\<rparr>"
  have "snd (get_together_ai_summary_try env now log_text s) = emit (Together_post ?data 30) s"
  proof (cases "together env (trace s) ?data")
    case (Raises e)
    then show ?thesis by (simp add: get_together_ai_summary_try_def Let_def)
  next
    case (Responds st raw body)
    then show ?thesis
      by (cases body) (simp_all add: get_together_ai_summary_try_def Let_def)
  qed
  then show ?thesis
    by (cases "get_together_ai_summary_try env now log_text s")
       (auto simp: get_together_ai_summary_def cache_emit split: sum.splits exn.splits)
qed

lemma snd_get_together_ai_analysis:
  "cache (snd (get_together_ai_analysis env now log_text s)) = cache s"
proof -
  let ?data = "\<lparr>t_model = ''meta-llama/Llama-3-8b-chat-hf'',
                  t_system = analysis_system_prompt,
                  t_user = ''Perform comprehensive root cause analysis on this log:''
                           @ NL @ NL @ truncate_for_analysis log_text,
                  t_max_tokens = 600\<rparr>"
  have "snd (get_together_ai_analysis_try env now log_text s) = emit (Together_post ?data 30) s"
  proof (cases "together env (trace s) ?data")
    case (Raises e)
    then show ?thesis by (simp add: get_together_ai_analysis_try_def Let_def)
  next
    case (Responds st raw body)
    then show ?thesis
      by (cases body) (simp_all add: get_together_ai_analysis_try_def Let_def)
  qed
  then show ?thesis
    by (cases "get_together_ai_analysis_try env now log_text s")
       (auto simp: get_together_ai_analysis_def cache_emit split: sum.splits exn.splits)
qed

lemma summarize_logs_cache: "cache (snd (summarize_logs env now req s)) = cache s"
proof -
  let ?t = "strip (post_get req ''log_text'' [])"
  obtain r s1 where g: "get_together_ai_summary env now ?t s = (r, s1)"
    by (cases "get_together_ai_summary env now ?t s") auto
  with snd_get_together_ai_summary [of env now ?t s] have "cache s1 = cache s" by simp
  with g show ?thesis
    by (simp add: summarize_logs_def Let_def local_summary_response_def cache_emit)
qed

lemma analyze_logs_cache: "cache (snd (analyze_logs env now req s)) = cache s"
proof -
  let ?t = "strip (post_get req ''log_text'' [])"
  obtain r s1 where g: "get_together_ai_analysis env now ?t s = (r, s1)"
    by (cases "get_together_ai_analysis env now ?t s") auto
  with snd_get_together_ai_analysis [of env now ?t s] have "cache s1 = cache s" by simp
  with g show ?thesis
    by (simp add: analyze_logs_def Let_def local_rca_response_def cache_emit)
qed

lemma reachable_cache_ok: "reachable s \<Longrightarrow> cache_ok s"
proof (induction rule: reachable.induct)
  case reach_init
  show ?case by (simp add: cache_ok_def init_def)
next
  case (reach_get_pods s env now req)
  then show ?case by (simp add: get_pods_cache_ok)
next
  case (reach_get_pod_logs s env now req)
  then show ?case by (simp add: get_pod_logs_cache_ok)
next
  case (reach_summarize_logs s env now req)
  then show ?case by (blast intro: cache_ok_same summarize_logs_cache)
next
  case (reach_analyze_logs s env now req)
  then show ?case by (blast intro: cache_ok_same analyze_logs_cache)
qed

lemma cache_lookup_truthy:
  assumes "cache_ok s" "cache_lookup now s key = Some v"
  shows "truthy v"
  using assms
  by (auto simp: cache_ok_def cache_lookup_def split: option.splits prod.splits if_splits)

text \<open>
  Claim C8. In every state the program reaches, a complete request whose cache key holds
  a fresh (unexpired) entry is answered with exactly the cached value, and the only thing
  that happens is the cache read itself: the state after the call is the state before plus
  that one event, so there is no search-store call, no generator, no file access and no
  cache write. (The handlers test the cached value for truth; every value they ever store
  is a non-empty pod list or a non-empty text, which is why reachability is assumed.)
\<close>

theorem C8_fresh_entry_returned:
  assumes "reachable s"
  shows "(\<not> missing_or_blank req ''application'' \<and> \<not> missing_or_blank req ''cluster''
          \<and> \<not> missing_or_blank req ''bundle''
          \<and> cache_lookup now s (pods_cache_key (form_field req ''application'')
                (form_field req ''cluster'') (form_field req ''bundle'')) = Some v
          \<longrightarrow> get_pods env now req s =
                (\<lparr>http_status = 200, payload = [(''pods'', v)]\<rparr>,
                 emit (Cache_get (pods_cache_key (form_field req ''application'')
                   (form_field req ''cluster'') (form_field req ''bundle''))) s))
       \<and> (\<not> missing_or_blank req ''application'' \<and> \<not> missing_or_blank req ''cluster''
          \<and> \<not> missing_or_blank req ''bundle'' \<and> \<not> missing_or_blank req ''pod''
          \<and> cache_lookup now s (pod_logs_cache_key (form_field req ''application'')
                (form_field req ''cluster'') (form_field req ''bundle'')
                (form_field req ''pod'')) = Some w
          \<longrightarrow> get_pod_logs env now req s =
                (\<lparr>http_status = 200, payload = [(''logs'', w)]\<rparr>,
                 emit (Cache_get (pod_logs_cache_key (form_field req ''application'')
                   (form_field req ''cluster'') (form_field req ''bundle'')
                   (form_field req ''pod''))) s))"
proof -
  from assms have ok: "cache_ok s" by (rule reachable_cache_ok)
  show ?thesis
    using cache_lookup_truthy [OF ok]
    by (auto simp: form_field_Nil [symmetric] intro!: get_pods_hit get_pod_logs_hit)
qed

lemma example_keys_differ:
  "pods_cache_key ''FOBPM'' ''cluster1'' ''Bulkdeviceenrollment''
     \<noteq> pod_logs_cache_key ''FOBPM'' ''cluster1'' ''Bulkdeviceenrollment''
         ''fobpm-bulkdeviceenrollment-web-001''"
  by (simp add: example_keys)

lemma warm_state_cache:
  "\<exists>pods content. pods \<noteq> [] \<and> content \<noteq> []
     \<and> cache warm_state =
         [pods_cache_key ''FOBPM'' ''cluster1'' ''Bulkdeviceenrollment''
            \<mapsto> (Pods pods, 120),
          pod_logs_cache_key ''FOBPM'' ''cluster1'' ''Bulkdeviceenrollment''
            ''fobpm-bulkdeviceenrollment-web-001'' \<mapsto> (Str content, 30)]"
proof -
  let ?pk = "pods_cache_key ''FOBPM'' ''cluster1'' ''Bulkdeviceenrollment''"
  let ?lk = "pod_logs_cache_key ''FOBPM'' ''cluster1'' ''Bulkdeviceenrollment''
            ''fobpm-bulkdeviceenrollment-web-001''"
  let ?s1 = "snd (get_pods offline_env 0 example_request init)"
  have miss1: "\<not> cache_hit 0 init ?pk"
    by (simp add: cache_hit_def cache_lookup_def init_def)
  have 1: "get_pods offline_env 0 example_request init =
      get_pods_uncached offline_env 0 ''FOBPM'' ''cluster1'' ''Bulkdeviceenrollment'' ?pk
        (emit (Cache_get ?pk) init)"
    using get_pods_miss [of example_request 0 init offline_env] miss1
    by (simp add: example_request_fields)
  obtain pods s3 where p: "pods \<noteq> []" "cache s3 = cache (emit (Cache_get ?pk) init)"
    and "get_pods_uncached offline_env 0 ''FOBPM'' ''cluster1'' ''Bulkdeviceenrollment'' ?pk
        (emit (Cache_get ?pk) init) =
         (\<lparr>http_status = 200, payload = [(''pods'', Pods pods)]\<rparr>,
          cache_set 0 ?pk (Pods pods) PODS_CACHE_TIMEOUT s3)"
    using get_pods_uncached_shape by blast
  with 1 have c1: "cache ?s1 = [?pk \<mapsto> (Pods pods, 120)]"
    by (simp add: cache_cache_set cache_emit init_def PODS_CACHE_TIMEOUT_def)
  have miss2: "\<not> cache_hit 0 ?s1 ?lk"
    using example_keys_differ by (simp add: cache_hit_def cache_lookup_def c1)
  have 2: "get_pod_logs offline_env 0 example_request ?s1 =
      get_pod_logs_uncached offline_env 0 ''FOBPM'' ''cluster1'' ''Bulkdeviceenrollment''
        ''fobpm-bulkdeviceenrollment-web-001'' ?lk (emit (Cache_get ?lk) ?s1)"
    using get_pod_logs_miss [of example_request 0 ?s1 offline_env] miss2
    by (simp add: example_request_fields)
  obtain content s4 where q: "content \<noteq> []" "cache s4 = cache (emit (Cache_get ?lk) ?s1)"
    and "get_pod_logs_uncached offline_env 0 ''FOBPM'' ''cluster1'' ''Bulkdeviceenrollment''
        ''fobpm-bulkdeviceenrollment-web-001'' ?lk (emit (Cache_get ?lk) ?s1) =
         (\<lparr>http_status = 200, payload = [(''logs'', Str content)]\<rparr>,
          cache_set 0 ?lk (Str content) 30 s4)"
    using get_pod_logs_uncached_shape by blast
  with 2 have "cache warm_state = [?pk \<mapsto> (Pods pods, 120), ?lk \<mapsto> (Str content, 30)]"
    by (simp add: warm_state_def cache_cache_set cache_emit c1)
  with p q show ?thesis by blast
qed

theorem C8_fresh_entry_returned_witness:
  "reachable warm_state
   \<and> (\<exists>v w.
        cache_lookup 10 warm_state ''pods_FOBPM_cluster1_Bulkdeviceenrollment'' = Some v
      \<and> cache_lookup 10 warm_state
          ''pod_logs_FOBPM_cluster1_Bulkdeviceenrollment_fobpm-bulkdeviceenrollment-web-001''
          = Some w
      \<and> get_pods offline_env 10 example_request warm_state =
          (\<lparr>http_status = 200, payload = [(''pods'', v)]\<rparr>,
           emit (Cache_get ''pods_FOBPM_cluster1_Bulkdeviceenrollment'') warm_state)
      \<and> get_pod_logs offline_env 10 example_request warm_state =
          (\<lparr>http_status = 200, payload = [(''logs'', w)]\<rparr>,
           emit (Cache_get
             ''pod_logs_FOBPM_cluster1_Bulkdeviceenrollment_fobpm-bulkdeviceenrollment-web-001'')
             warm_state))"
proof -
  have r: "reachable warm_state"
    unfolding warm_state_def
    by (intro reach_get_pod_logs reach_get_pods reach_init)
  obtain pods content where c: "cache warm_state =
         [pods_cache_key ''FOBPM'' ''cluster1'' ''Bulkdeviceenrollment''
            \<mapsto> (Pods pods, 120),
          pod_logs_cache_key ''FOBPM'' ''cluster1'' ''Bulkdeviceenrollment''
            ''fobpm-bulkdeviceenrollment-web-001'' \<mapsto> (Str content, 30)]"
    using warm_state_cache by blast
  have l1: "cache_lookup 10 warm_state
        (pods_cache_key ''FOBPM'' ''cluster1'' ''Bulkdeviceenrollment'') = Some (Pods pods)"
    using example_keys_differ by (simp add: cache_lookup_def c)
  have l2: "cache_lookup 10 warm_state
        (pod_logs_cache_key ''FOBPM'' ''cluster1'' ''Bulkdeviceenrollment''
          ''fobpm-bulkdeviceenrollment-web-001'') = Some (Str content)"
    by (simp add: cache_lookup_def c)
  have m: "\<not> missing_or_blank example_request ''application''"
    "\<not> missing_or_blank example_request ''cluster''"
    "\<not> missing_or_blank example_request ''bundle''"
    "\<not> missing_or_blank example_request ''pod''"
    by (simp_all add: form_field_Nil [symmetric] example_request_fields)
  from C8_fresh_entry_returned [OF r, of example_request 10 "Pods pods" offline_env
      "Str content"] m l1 l2
  have "get_pods offline_env 10 example_request warm_state =
          (\<lparr>http_status = 200, payload = [(''pods'', Pods pods)]\<rparr>,
           emit (Cache_get (pods_cache_key ''FOBPM'' ''cluster1'' ''Bulkdeviceenrollment''))
             warm_state)
      \<and> get_pod_logs offline_env 10 example_request warm_state =
          (\<lparr>http_status = 200, payload = [(''logs'', Str content)]\<rparr>,
           emit (Cache_get (pod_logs_cache_key ''FOBPM'' ''cluster1'' ''Bulkdeviceenrollment''
             ''fobpm-bulkdeviceenrollment-web-001'')) warm_state)"
    by (simp add: example_request_fields)
  with r l1 l2 show ?thesis unfolding example_keys by blast
qed

subsection \<open>The synthetic tier of pod log resolution\<close>














subsection \<open>Substrings survive trimming and line splitting\<close>



lemma split_on_nonempty: "split_on sep xs \<noteq> []"
  by (induction xs) (auto split: list.splits)









subsection \<open>The sample log generator\<close>

lemma randint_eq: "randint a b g = (a + fst g (snd g) mod (b - a + 1), (fst g, Suc (snd g)))"
  by (simp add: randint_def draw_def)

lemma random_below_eq: "random_below p q g = (fst g (snd g) mod q < p, (fst g, Suc (snd g)))"
  by (simp add: random_below_def draw_def)

lemma choices_eq:
  "choices population weights g =
     (population ! weighted_index weights (fst g (snd g) mod sum_list weights),
      (fst g, Suc (snd g)))"
  by (simp add: choices_def draw_def)

lemma choice_eq:
  "seq \<noteq> [] \<Longrightarrow> choice seq g = Inr (seq ! (fst g (snd g) mod length seq), (fst g, Suc (snd g)))"
  by (simp add: choice_def draw_def)

lemma level_drawn:
  "[''INFO'', ''WARN'', ''ERROR''] ! weighted_index [70, 20, 10] r
     \<in> set [''INFO'', ''WARN'', ''ERROR'']"
  by simp

lemma log_messages_ok: "catalogue_ok (fst (log_messages g)) \<and> fst (snd (log_messages g)) = fst g"
  by (simp add: log_messages_def randint_eq Let_def catalogue_ok_def)

lemma sample_entry_ok:
  assumes "catalogue_ok messages"
  shows "\<exists>e k. sample_entry messages base_time app cluster bundle pod_name g
                  = Inr (e, (fst g, k))
               \<and> entry_ok (fst g) base_time pod_name e"
proof -
  let ?level = "[''INFO'', ''WARN'', ''ERROR'']
      ! weighted_index [70, 20, 10] (fst g (Suc (Suc (snd g))) mod 100)"
  have "?level \<in> set [''INFO'', ''WARN'', ''ERROR'']" by (rule level_drawn)
  with assms obtain c where c: "map_of messages ?level = Some c" "c \<noteq> []"
    unfolding catalogue_ok_def by blast
  have ok: "\<And>e. log_level e = ?level \<Longrightarrow> log_pod e = pod_name \<Longrightarrow>
      log_timestamp e = base_time + int (60 * (fst g (snd g) mod 121))
        + int (fst g (Suc (snd g)) mod 60) \<Longrightarrow> entry_ok (fst g) base_time pod_name e"
  proof -
    fix e :: log_entry
    assume l: "log_level e = ?level" and p: "log_pod e = pod_name"
      and t: "log_timestamp e = base_time + int (60 * (fst g (snd g) mod 121))
        + int (fst g (Suc (snd g)) mod 60)"
    from l have "log_level e \<in> set [''INFO'', ''WARN'', ''ERROR'']"
      by (simp only: level_drawn)
    with p t show "entry_ok (fst g) base_time pod_name e"
      unfolding entry_ok_def by blast
  qed
  show ?thesis
  proof (cases "fst g (Suc (Suc (Suc (Suc (snd g))))) mod 10 < 3")
    case wt: True
    show ?thesis
    proof (cases "fst g (Suc (Suc (Suc (Suc (Suc (Suc (snd g))))))) mod 10 < 2")
      case True
      with wt c show ?thesis
        by (auto simp: sample_entry_def randint_eq random_below_eq choices_eq choice_eq
              Let_def intro!: ok)
    next
      case False
      with wt c show ?thesis
        by (auto simp: sample_entry_def randint_eq random_below_eq choices_eq choice_eq
              Let_def intro!: ok)
    qed
  next
    case wt: False
    show ?thesis
    proof (cases "fst g (Suc (Suc (Suc (Suc (Suc (snd g)))))) mod 10 < 2")
      case True
      with wt c show ?thesis
        by (auto simp: sample_entry_def randint_eq random_below_eq choices_eq choice_eq
              Let_def intro!: ok)
    next
      case False
      with wt c show ?thesis
        by (auto simp: sample_entry_def randint_eq random_below_eq choices_eq choice_eq
              Let_def intro!: ok)
    qed
  qed
qed

lemma sample_entries_ok:
  assumes "catalogue_ok messages"
  shows "\<exists>es k. sample_entries n messages base_time app cluster bundle pod_name g
                   = Inr (es, (fst g, k))
                \<and> length es = n
                \<and> list_all (entry_ok (fst g) base_time pod_name) es"
proof (induction n arbitrary: g)
  case 0
  show ?case by (cases g) simp
next
  case (Suc n)
  obtain e k1 where e: "sample_entry messages base_time app cluster bundle pod_name g
      = Inr (e, (fst g, k1))" "entry_ok (fst g) base_time pod_name e"
    using sample_entry_ok [OF assms] by blast
  obtain es k2 where es: "sample_entries n messages base_time app cluster bundle pod_name
      (fst g, k1) = Inr (es, (fst g, k2))" "length es = n"
      "list_all (entry_ok (fst g) base_time pod_name) es"
    using Suc [of "(fst g, k1)"] by auto
  have "sample_entries (Suc n) messages base_time app cluster bundle pod_name g
      = Inr (e # es, (fst g, k2))"
    by (simp add: e es)
  with e es show ?case by simp
qed

lemma sample_pods_ok:
  assumes "catalogue_ok messages"
  shows "\<exists>blocks k. sample_pods pod_nums messages base_time app cluster bundle g
                       = Inr (concat blocks, (fst g, k))
                    \<and> list_all2 (\<lambda>pod_num block. 20 \<le> length block \<and> length block \<le> 30
                          \<and> list_all (entry_ok (fst g) base_time
                                (sample_pod_name app bundle pod_num)) block)
                        pod_nums blocks"
proof (induction pod_nums arbitrary: g)
  case Nil
  have "sample_pods [] messages base_time app cluster bundle g = Inr (concat [], (fst g, snd g))"
    by simp
  moreover have "list_all2 (\<lambda>pod_num block. 20 \<le> length block \<and> length block \<le> 30
                          \<and> list_all (entry_ok (fst g) base_time
                                (sample_pod_name app bundle pod_num)) block) [] []"
    by simp
  ultimately show ?case by blast
next
  case (Cons pod_num pod_nums)
  let ?count = "20 + fst g (snd g) mod 11"
  let ?g1 = "(fst g, Suc (snd g))"
  let ?P = "\<lambda>pod_num block. 20 \<le> length block \<and> length block \<le> 30
           \<and> list_all (entry_ok (fst g) base_time (sample_pod_name app bundle pod_num)) block"
  have r: "randint 20 30 g = (?count, ?g1)" by (simp add: randint_eq)
  have "\<exists>es k. sample_entries ?count messages base_time app cluster bundle
                   (sample_pod_name app bundle pod_num) ?g1 = Inr (es, (fst ?g1, k))
                \<and> length es = ?count
                \<and> list_all (entry_ok (fst ?g1) base_time (sample_pod_name app bundle pod_num)) es"
    using assms by (rule sample_entries_ok)
  then obtain es k1 where es: "sample_entries ?count messages base_time app cluster bundle
        (sample_pod_name app bundle pod_num) ?g1 = Inr (es, (fst g, k1))"
      "length es = ?count"
      "list_all (entry_ok (fst g) base_time (sample_pod_name app bundle pod_num)) es"
    by (simp only: fst_conv) blast
  have "\<exists>blocks k. sample_pods pod_nums messages base_time app cluster bundle (fst g, k1)
                       = Inr (concat blocks, (fst (fst g, k1), k))
                    \<and> list_all2 (\<lambda>pod_num block. 20 \<le> length block \<and> length block \<le> 30
                          \<and> list_all (entry_ok (fst (fst g, k1)) base_time
                                (sample_pod_name app bundle pod_num)) block)
                        pod_nums blocks"
    by (rule Cons)
  then obtain blocks k2 where bl: "sample_pods pod_nums messages base_time app cluster bundle
        (fst g, k1) = Inr (concat blocks, (fst g, k2))"
      "list_all2 ?P pod_nums blocks"
    by (simp only: fst_conv) blast
  have step: "sample_pods (pod_num # pod_nums) messages base_time app cluster bundle g
      = (case sample_entries ?count messages base_time app cluster bundle
                (sample_pod_name app bundle pod_num) ?g1 of
            Inl e \<Rightarrow> Inl e
          | Inr (logs, g2) \<Rightarrow>
              (case sample_pods pod_nums messages base_time app cluster bundle g2 of
                 Inl e \<Rightarrow> Inl e
               | Inr (rest, g3) \<Rightarrow> Inr (logs @ rest, g3)))"
    by (simp only: sample_pods.simps Let_def r prod.case)
  have eq: "sample_pods (pod_num # pod_nums) messages base_time app cluster bundle g
      = Inr (concat (es # blocks), (fst g, k2))"
    by (simp only: step es(1) bl(1) sum.case prod.case concat.simps)
  have "20 \<le> length es \<and> length es \<le> 30"
    unfolding es(2) by simp
  with es(3) bl(2) have "list_all2 ?P (pod_num # pod_nums) (es # blocks)"
    by simp
  with eq show ?case by blast
qed

lemma generate_specific_sample_logs_blocks:
  "\<exists>b1 b2 b3. generate_specific_sample_logs g now app cluster bundle = b1 @ b2 @ b3
     \<and> 20 \<le> length b1 \<and> length b1 \<le> 30
     \<and> 20 \<le> length b2 \<and> length b2 \<le> 30
     \<and> 20 \<le> length b3 \<and> length b3 \<le> 30
     \<and> list_all (entry_ok (fst g) (now - 7200) (sample_pod_name app bundle 1)) b1
     \<and> list_all (entry_ok (fst g) (now - 7200) (sample_pod_name app bundle 2)) b2
     \<and> list_all (entry_ok (fst g) (now - 7200) (sample_pod_name app bundle 3)) b3"
proof -
  let ?m = "fst (log_messages g)"
  let ?g1 = "snd (log_messages g)"
  have ok: "catalogue_ok ?m" and f: "fst ?g1 = fst g"
    using log_messages_ok by blast+
  obtain blocks k where bl: "sample_pods [1, 2, 3] ?m (now - 7200) app cluster bundle ?g1
        = Inr (concat blocks, (fst g, k))"
      "list_all2 (\<lambda>pod_num block. 20 \<le> length block \<and> length block \<le> 30
           \<and> list_all (entry_ok (fst g) (now - 7200) (sample_pod_name app bundle pod_num)) block)
         [1, 2, 3] blocks"
    using sample_pods_ok [OF ok, of "[1, 2, 3]" "now - 7200" app cluster "bundle" ?g1]
    unfolding f by blast
  from bl(2) obtain b1 b2 b3 where b: "blocks = [b1, b2, b3]"
    by (auto simp: list_all2_Cons1)
  have "generate_specific_sample_logs_try g now app cluster bundle
      = sample_pods [1, 2, 3] ?m (now - 7200) app cluster bundle ?g1"
    by (simp add: generate_specific_sample_logs_try_def case_prod_beta Let_def
          del: sample_pods.simps)
  then have "generate_specific_sample_logs g now app cluster bundle = concat blocks"
    unfolding generate_specific_sample_logs_def bl(1) by (simp only: bl(1) sum.case prod.case)
  with bl(2) b show ?thesis by auto
qed

lemma entry_ok_bounds:
  assumes "entry_ok f base_time pod_name e"
  shows "base_time \<le> log_timestamp e \<and> log_timestamp e \<le> base_time + 7259"
proof -
  from assms obtain n where "log_timestamp e
      = base_time + int (60 * (f n mod 121)) + int (f (Suc n) mod 60)"
    unfolding entry_ok_def by blast
  moreover have "f n mod 121 \<le> 120" "f (Suc n) mod 60 \<le> 59"
    by (simp_all add: less_Suc_eq_le [symmetric])
  ultimately show ?thesis by simp
qed

lemma pad3_small: "pad3 1 = ''001''" "pad3 (Suc 0) = ''001''" "pad3 2 = ''002''"
    "pad3 3 = ''003''"
  by (simp_all add: pad3_def str_nat.simps eval_nat_numeral)

lemma sample_pod_names_differ:
  "sample_pod_name app bundle 2 \<noteq> sample_pod_name app bundle 1"
  "sample_pod_name app bundle 3 \<noteq> sample_pod_name app bundle 1"
  by (simp_all add: sample_pod_name_def pad3_small)

text \<open>
  What the generator guarantees, whatever the random source: three blocks of 20 to 30
  entries, one per pod; 20 to 30 entries for the first pod; every level among INFO, WARN
  and ERROR; every instant from two hours before the call to 59 seconds after it.
\<close>

lemma generate_specific_sample_logs_shape:
  "20 \<le> length (filter (\<lambda>e. log_pod e = sample_pod_name app bundle 1)
           (generate_specific_sample_logs g now app cluster bundle))
   \<and> length (filter (\<lambda>e. log_pod e = sample_pod_name app bundle 1)
           (generate_specific_sample_logs g now app cluster bundle)) \<le> 30
   \<and> list_all (\<lambda>e. log_level e \<in> set [''INFO'', ''WARN'', ''ERROR'']
                  \<and> now - 7200 \<le> log_timestamp e \<and> log_timestamp e \<le> now + 59)
        (generate_specific_sample_logs g now app cluster bundle)"
proof -
  obtain b1 b2 b3 where b: "generate_specific_sample_logs g now app cluster bundle = b1 @ b2 @ b3"
    "20 \<le> length b1" "length b1 \<le> 30"
    "list_all (entry_ok (fst g) (now - 7200) (sample_pod_name app bundle 1)) b1"
    "list_all (entry_ok (fst g) (now - 7200) (sample_pod_name app bundle 2)) b2"
    "list_all (entry_ok (fst g) (now - 7200) (sample_pod_name app bundle 3)) b3"
    using generate_specific_sample_logs_blocks [of g now app cluster "bundle"] by blast
  have f1: "filter (\<lambda>e. log_pod e = sample_pod_name app bundle 1) b1 = b1"
    using b(4) by (auto simp: list_all_iff entry_ok_def filter_id_conv)
  have f2: "filter (\<lambda>e. log_pod e = sample_pod_name app bundle 1) b2 = []"
    using b(5) sample_pod_names_differ(1) [of app "bundle"]
    by (auto simp: list_all_iff entry_ok_def filter_empty_conv)
  have f3: "filter (\<lambda>e. log_pod e = sample_pod_name app bundle 1) b3 = []"
    using b(6) sample_pod_names_differ(2) [of app "bundle"]
    by (auto simp: list_all_iff entry_ok_def filter_empty_conv)
  define Q :: "log_entry \<Rightarrow> bool" where "Q = (\<lambda>e. log_level e \<in> set [''INFO'', ''WARN'', ''ERROR'']
                  \<and> now - 7200 \<le> log_timestamp e \<and> log_timestamp e \<le> now + 59)"
  have each: "\<And>name e. entry_ok (fst g) (now - 7200) name e \<Longrightarrow> Q e"
  proof -
    fix name e
    assume a: "entry_ok (fst g) (now - 7200) name e"
    from entry_ok_bounds [OF a] a show "Q e"
      by (simp add: entry_ok_def Q_def)
  qed
  have "list_all Q b1" "list_all Q b2" "list_all Q b3"
    using b(4,5,6) each unfolding list_all_iff by blast+
  then have "list_all Q (b1 @ b2 @ b3)" by simp
  then have "list_all (\<lambda>e. log_level e \<in> set [''INFO'', ''WARN'', ''ERROR'']
                  \<and> now - 7200 \<le> log_timestamp e \<and> log_timestamp e \<le> now + 59)
        (b1 @ b2 @ b3)"
    unfolding Q_def .
  with b(1,2,3) f1 f2 f3 show ?thesis by simp
qed

lemma late_rng_entry:
  assumes "entry_ok (fst late_rng) (now - 7200) name e"
  shows "log_timestamp e = now + 1"
  using assms by (auto simp: entry_ok_def late_rng_def)

lemma example_sample_pod_name:
  "sample_pod_name ''FOBPM'' ''Bulkdeviceenrollment'' 1 = ''fobpm-bulkdeviceenrollment-web-001''"
  by (simp add: sample_pod_name_def pad3_small lower_def lower_char_def char_of_eq_iff)

text \<open>
  Claim C3, at an input where the code departs from it. The filter is FOBPM, cluster1,
  Bulkdeviceenrollment, the time of generation is 1000 and every draw of the random
  source is 241. The generated entries include at least 20 for the pod
  "fobpm-bulkdeviceenrollment-web-001", and every entry carries the instant 1001, one
  second after the time of generation: \<^verbatim>\<open>randint(0, 120)\<close> minutes may be the full
  two hours, and the seconds come on top.
\<close>

theorem C3_timestamp_after_generation:
  "list_all (\<lambda>e. log_timestamp e = 1000 + 1)
     (generate_specific_sample_logs late_rng 1000 ''FOBPM'' ''cluster1'' ''Bulkdeviceenrollment'')
   \<and> 20 \<le> length (filter (\<lambda>e. log_pod e = ''fobpm-bulkdeviceenrollment-web-001'')
       (generate_specific_sample_logs late_rng 1000 ''FOBPM'' ''cluster1''
          ''Bulkdeviceenrollment''))"
proof -
  obtain b1 b2 b3 where b: "generate_specific_sample_logs late_rng 1000 ''FOBPM'' ''cluster1''
      ''Bulkdeviceenrollment'' = b1 @ b2 @ b3"
    "list_all (entry_ok (fst late_rng) (1000 - 7200)
       (sample_pod_name ''FOBPM'' ''Bulkdeviceenrollment'' 1)) b1"
    "list_all (entry_ok (fst late_rng) (1000 - 7200)
       (sample_pod_name ''FOBPM'' ''Bulkdeviceenrollment'' 2)) b2"
    "list_all (entry_ok (fst late_rng) (1000 - 7200)
       (sample_pod_name ''FOBPM'' ''Bulkdeviceenrollment'' 3)) b3"
    using generate_specific_sample_logs_blocks [of late_rng 1000 "''FOBPM''" "''cluster1''"
        "''Bulkdeviceenrollment''"] by blast
  have "list_all (\<lambda>e. log_timestamp e = 1000 + 1) b1"
    "list_all (\<lambda>e. log_timestamp e = 1000 + 1) b2"
    "list_all (\<lambda>e. log_timestamp e = 1000 + 1) b3"
    using b(2,3,4) late_rng_entry [of 1000] unfolding list_all_iff by blast+
  then have "list_all (\<lambda>e. log_timestamp e = 1000 + 1) (b1 @ b2 @ b3)" by simp
  then have late: "list_all (\<lambda>e. log_timestamp e = 1000 + 1)
     (generate_specific_sample_logs late_rng 1000 ''FOBPM'' ''cluster1'' ''Bulkdeviceenrollment'')"
    by (simp only: b(1))
  have "20 \<le> length (filter
       (\<lambda>e. log_pod e = sample_pod_name ''FOBPM'' ''Bulkdeviceenrollment'' 1)
       (generate_specific_sample_logs late_rng 1000 ''FOBPM'' ''cluster1''
          ''Bulkdeviceenrollment''))"
    using generate_specific_sample_logs_shape [of "''FOBPM''" "''Bulkdeviceenrollment''"
      late_rng 1000 "''cluster1''"] by blast
  then have "20 \<le> length (filter (\<lambda>e. log_pod e = ''fobpm-bulkdeviceenrollment-web-001'')
       (generate_specific_sample_logs late_rng 1000 ''FOBPM'' ''cluster1''
          ''Bulkdeviceenrollment''))"
    by (simp only: example_sample_pod_name)
  with late show ?thesis by (rule conjI)
qed

subsection \<open>Every cache operation of a request carries the request's key\<close>

lemma quiet_refl: "quiet s s"
  by (simp add: quiet_def new_events_def cache_events_def)

lemma quiet_emit:
  assumes "\<not> is_cache_event e" "quiet s s'"
  shows "quiet s (emit e s')"
proof -
  from assms(2) obtain zs where zs: "trace s' = trace s @ zs"
    and c: "cache s' = cache s" and q: "cache_events (new_events s s') = []"
    by (auto simp: quiet_def prefix_def)
  from zs q have "cache_events zs = []" by (simp add: new_events_def)
  with assms(1) zs c show ?thesis
    by (simp add: quiet_def new_events_def cache_events_def emit_def)
qed

lemma quiet_trans:
  assumes "quiet a b" "quiet b c"
  shows "quiet a c"
proof -
  from assms(1) obtain ys where ys: "trace b = trace a @ ys"
    and c1: "cache b = cache a" and q1: "cache_events (new_events a b) = []"
    by (auto simp: quiet_def prefix_def)
  from assms(2) obtain zs where zs: "trace c = trace b @ zs"
    and c2: "cache c = cache b" and q2: "cache_events (new_events b c) = []"
    by (auto simp: quiet_def prefix_def)
  from ys q1 have "cache_events ys = []" by (simp add: new_events_def)
  moreover from zs q2 have "cache_events zs = []" by (simp add: new_events_def)
  ultimately show ?thesis
    using ys zs c1 c2 by (simp add: quiet_def new_events_def cache_events_def)
qed

lemma quiet_search_logs: "quiet s (snd (search_logs env qp s))"
  by (simp add: snd_search_logs quiet_emit quiet_refl)

lemma quiet_index_generated:
  "quiet s (index_generated_logs_to_elasticsearch env now log_content app cluster bundle s)"
  by (simp add: index_generated_eq quiet_emit quiet_refl)

lemma quiet_generate_and_index:
  "quiet s (snd (generate_and_index env now app cluster bundle pod s))"
proof -
  let ?s1 = "emit (Invoke ''auto_generate_pod_logs'') s"
  let ?c = "auto_generate_pod_logs env now app cluster bundle pod"
  have 1: "snd (generate_and_index env now app cluster bundle pod s)
      = index_generated_logs_to_elasticsearch env now ?c app cluster bundle ?s1"
    by (simp add: generate_and_index_def Let_def)
  have "quiet s ?s1" by (simp add: quiet_emit quiet_refl)
  moreover have "quiet ?s1
      (index_generated_logs_to_elasticsearch env now ?c app cluster bundle ?s1)"
    by (rule quiet_index_generated)
  ultimately show ?thesis unfolding 1 by (rule quiet_trans)
qed

lemma quiet_resolve_pod_logs:
  "quiet s (snd (resolve_pod_logs env now app cluster bundle pod s))"
proof -
  let ?r = "search_logs env (pod_logs_query_params app cluster bundle pod) s"
  have q: "quiet s (snd ?r)" by (rule quiet_search_logs)
  show ?thesis
  proof (cases "sr_logs (fst ?r) \<noteq> []
      \<and> format_elasticsearch_logs env now (sr_logs (fst ?r)) \<noteq> []")
    case True
    then have "snd (resolve_pod_logs env now app cluster bundle pod s) = snd ?r"
      by (simp add: resolve_pod_logs_def get_pod_logs_from_elasticsearch_eq)
    with q show ?thesis by simp
  next
    case False
    then have "snd (resolve_pod_logs env now app cluster bundle pod s)
        = snd (generate_and_index env now app cluster bundle pod (snd ?r))"
      by (auto simp: resolve_pod_logs_def get_pod_logs_from_elasticsearch_eq
            get_pod_logs_from_files_def)
    moreover have "quiet s (snd (generate_and_index env now app cluster bundle pod (snd ?r)))"
      using q quiet_generate_and_index by (rule quiet_trans)
    ultimately show ?thesis by simp
  qed
qed

lemma quiet_get_pods_from_elasticsearch:
  "quiet s (snd (get_pods_from_elasticsearch env app cluster bundle s))"
proof -
  obtain q where "snd (get_pods_from_elasticsearch env app cluster bundle s)
      = emit (Stats_post q 15) s"
    using snd_get_pods_from_elasticsearch by blast
  then show ?thesis by (simp add: quiet_emit quiet_refl)
qed

lemma quiet_get_pods_from_config:
  "quiet s (snd (get_pods_from_config env app cluster bundle s))"
  by (simp add: snd_get_pods_from_config quiet_emit quiet_refl)

text \<open>After a miss the pod list is resolved without touching the cache, then written.\<close>

lemma get_pods_uncached_quiet:
  "\<exists>pods s3. quiet s s3
     \<and> get_pods_uncached env now app cluster bundle key s =
         (\<lparr>http_status = 200, payload = [(''pods'', Pods pods)]\<rparr>,
          cache_set now key (Pods pods) PODS_CACHE_TIMEOUT s3)"
proof -
  obtain es_pods s1 where g1: "get_pods_from_elasticsearch env app cluster bundle s = (es_pods, s1)"
    by (cases "get_pods_from_elasticsearch env app cluster bundle s") auto
  with quiet_get_pods_from_elasticsearch [of s env app cluster "bundle"]
  have q1: "quiet s s1" by simp
  show ?thesis
  proof (cases "es_pods = []")
    case False
    have "quiet s s1
        \<and> get_pods_uncached env now app cluster bundle key s =
           (\<lparr>http_status = 200, payload = [(''pods'', Pods es_pods)]\<rparr>,
            cache_set now key (Pods es_pods) PODS_CACHE_TIMEOUT s1)"
      using g1 q1 False by (simp add: get_pods_uncached_def)
    then show ?thesis by blast
  next
    case True
    obtain pods s2 where g2: "get_pods_from_config env app cluster bundle s1 = (pods, s2)"
      by (cases "get_pods_from_config env app cluster bundle s1") auto
    with quiet_get_pods_from_config [of s1 env app cluster "bundle"]
    have "quiet s1 s2" by simp
    with q1 have q2: "quiet s s2" by (rule quiet_trans)
    show ?thesis
    proof (cases "pods = []")
      case False
      have "quiet s s2
          \<and> get_pods_uncached env now app cluster bundle key s =
             (\<lparr>http_status = 200, payload = [(''pods'', Pods pods)]\<rparr>,
              cache_set now key (Pods pods) PODS_CACHE_TIMEOUT s2)"
        using g1 g2 True False q2 by (simp add: get_pods_uncached_def)
      then show ?thesis by blast
    next
      case pe: True
      have "quiet s (emit (Invoke ''generate_sample_pods'') s2)"
        using q2 by (simp add: quiet_emit)
      then have "quiet s (emit (Invoke ''generate_sample_pods'') s2)
          \<and> get_pods_uncached env now app cluster bundle key s =
             (\<lparr>http_status = 200, payload = [(''pods'', Pods (generate_sample_pods app bundle))]\<rparr>,
              cache_set now key (Pods (generate_sample_pods app bundle)) PODS_CACHE_TIMEOUT
                (emit (Invoke ''generate_sample_pods'') s2))"
        using g1 g2 True pe by (simp add: get_pods_uncached_def)
      then show ?thesis by blast
    qed
  qed
qed

lemma get_pod_logs_uncached_quiet:
  "\<exists>content s3. quiet s s3
     \<and> get_pod_logs_uncached env now app cluster bundle pod key s =
         (\<lparr>http_status = 200, payload = [(''logs'', Str content)]\<rparr>,
          cache_set now key (Str content) 30 s3)"
proof -
  obtain log_content found_log_source s1
    where r: "resolve_pod_logs env now app cluster bundle pod s
                = ((log_content, found_log_source), s1)"
    by (cases "resolve_pod_logs env now app cluster bundle pod s") auto
  with quiet_resolve_pod_logs [of s env now app cluster "bundle" pod]
  have g: "quiet s s1" by simp
  let ?content = "log_metadata env now found_log_source pod app cluster bundle @ log_content"
  have "quiet s s1
     \<and> get_pod_logs_uncached env now app cluster bundle pod key s =
         (\<lparr>http_status = 200, payload = [(''logs'', Str ?content)]\<rparr>,
          cache_set now key (Str ?content) 30 s1)"
    using r g by (simp add: get_pod_logs_uncached_def Let_def)
  then show ?thesis by blast
qed

text \<open>A read, a quiet resolution and a write: the two cache operations of a miss.\<close>

lemma cache_events_read_write:
  assumes "quiet (emit (Cache_get key) s) s3"
  shows "cache_events (new_events s (cache_set now key' v ttl s3))
           = [Cache_get key, Cache_set key' v ttl]"
proof -
  from assms obtain zs where zs: "trace s3 = trace (emit (Cache_get key) s) @ zs"
    and q: "cache_events (new_events (emit (Cache_get key) s) s3) = []"
    by (auto simp: quiet_def prefix_def)
  from zs q have z: "cache_events zs = []" by (simp add: new_events_def)
  from zs have "trace (cache_set now key' v ttl s3)
      = trace s @ Cache_get key # zs @ [Cache_set key' v ttl]"
    by (simp add: trace_cache_set trace_emit)
  then have "new_events s (cache_set now key' v ttl s3)
      = Cache_get key # zs @ [Cache_set key' v ttl]"
    by (simp add: new_events_def)
  with z show ?thesis by (simp add: cache_events_def)
qed

lemma cache_hit_lookup:
  "cache_hit now s key \<Longrightarrow> \<exists>v. cache_lookup now s key = Some v \<and> truthy v"
  by (simp add: cache_hit_def split: option.splits)

lemma get_pods_cache_events:
  assumes "form_field req ''application'' \<noteq> []" "form_field req ''cluster'' \<noteq> []"
    "form_field req ''bundle'' \<noteq> []"
  shows "(cache_hit now s (pods_cache_key (form_field req ''application'')
               (form_field req ''cluster'') (form_field req ''bundle'')) \<longrightarrow>
            new_events s (snd (get_pods env now req s))
              = [Cache_get (pods_cache_key (form_field req ''application'')
                   (form_field req ''cluster'') (form_field req ''bundle''))])
    \<and> (\<not> cache_hit now s (pods_cache_key (form_field req ''application'')
               (form_field req ''cluster'') (form_field req ''bundle'')) \<longrightarrow>
         (\<exists>v. cache_events (new_events s (snd (get_pods env now req s)))
                = [Cache_get (pods_cache_key (form_field req ''application'')
                     (form_field req ''cluster'') (form_field req ''bundle'')),
                   Cache_set (pods_cache_key (form_field req ''application'')
                     (form_field req ''cluster'') (form_field req ''bundle'')) v 120]
              \<and> payload (fst (get_pods env now req s)) = [(''pods'', v)]))"
proof (intro conjI impI)
  let ?key = "pods_cache_key (form_field req ''application'')
               (form_field req ''cluster'') (form_field req ''bundle'')"
  {
    assume "cache_hit now s ?key"
    then obtain v where "cache_lookup now s ?key = Some v" "truthy v"
      using cache_hit_lookup by blast
    from get_pods_hit [OF assms this]
    show "new_events s (snd (get_pods env now req s)) = [Cache_get ?key]"
      by (simp add: new_events_emit)
  }
  assume "\<not> cache_hit now s ?key"
  from get_pods_miss [OF assms this]
  have m: "get_pods env now req s =
      get_pods_uncached env now (form_field req ''application'')
        (form_field req ''cluster'') (form_field req ''bundle'') ?key
        (emit (Cache_get ?key) s)" .
  obtain pods s3 where q: "quiet (emit (Cache_get ?key) s) s3"
    and u: "get_pods_uncached env now (form_field req ''application'')
        (form_field req ''cluster'') (form_field req ''bundle'') ?key
        (emit (Cache_get ?key) s) =
         (\<lparr>http_status = 200, payload = [(''pods'', Pods pods)]\<rparr>,
          cache_set now ?key (Pods pods) PODS_CACHE_TIMEOUT s3)"
    using get_pods_uncached_quiet by blast
  have "cache_events (new_events s (snd (get_pods env now req s)))
          = [Cache_get ?key, Cache_set ?key (Pods pods) 120]
        \<and> payload (fst (get_pods env now req s)) = [(''pods'', Pods pods)]"
    unfolding m u using cache_events_read_write [OF q]
    by (simp add: PODS_CACHE_TIMEOUT_def)
  then show "\<exists>v. cache_events (new_events s (snd (get_pods env now req s)))
                = [Cache_get ?key, Cache_set ?key v 120]
              \<and> payload (fst (get_pods env now req s)) = [(''pods'', v)]"
    by blast
qed

lemma get_pod_logs_cache_events:
  assumes "form_field req ''application'' \<noteq> []" "form_field req ''cluster'' \<noteq> []"
    "form_field req ''bundle'' \<noteq> []" "form_field req ''pod'' \<noteq> []"
  shows "(cache_hit now s (pod_logs_cache_key (form_field req ''application'')
               (form_field req ''cluster'') (form_field req ''bundle'')
               (form_field req ''pod'')) \<longrightarrow>
            new_events s (snd (get_pod_logs env now req s))
              = [Cache_get (pod_logs_cache_key (form_field req ''application'')
                   (form_field req ''cluster'') (form_field req ''bundle'')
                   (form_field req ''pod''))])
    \<and> (\<not> cache_hit now s (pod_logs_cache_key (form_field req ''application'')
               (form_field req ''cluster'') (form_field req ''bundle'')
               (form_field req ''pod'')) \<longrightarrow>
         (\<exists>v. cache_events (new_events s (snd (get_pod_logs env now req s)))
                = [Cache_get (pod_logs_cache_key (form_field req ''application'')
                     (form_field req ''cluster'') (form_field req ''bundle'')
                     (form_field req ''pod'')),
                   Cache_set (pod_logs_cache_key (form_field req ''application'')
                     (form_field req ''cluster'') (form_field req ''bundle'')
                     (form_field req ''pod'')) v 30]
              \<and> payload (fst (get_pod_logs env now req s)) = [(''logs'', v)]))"
proof (intro conjI impI)
  let ?key = "pod_logs_cache_key (form_field req ''application'')
               (form_field req ''cluster'') (form_field req ''bundle'')
               (form_field req ''pod'')"
  {
    assume "cache_hit now s ?key"
    then obtain v where "cache_lookup now s ?key = Some v" "truthy v"
      using cache_hit_lookup by blast
    from get_pod_logs_hit [OF assms this]
    show "new_events s (snd (get_pod_logs env now req s)) = [Cache_get ?key]"
      by (simp add: new_events_emit)
  }
  assume "\<not> cache_hit now s ?key"
  from get_pod_logs_miss [OF assms this]
  have m: "get_pod_logs env now req s =
      get_pod_logs_uncached env now (form_field req ''application'')
        (form_field req ''cluster'') (form_field req ''bundle'') (form_field req ''pod'') ?key
        (emit (Cache_get ?key) s)" .
  obtain content s3 where q: "quiet (emit (Cache_get ?key) s) s3"
    and u: "get_pod_logs_uncached env now (form_field req ''application'')
        (form_field req ''cluster'') (form_field req ''bundle'') (form_field req ''pod'') ?key
        (emit (Cache_get ?key) s) =
         (\<lparr>http_status = 200, payload = [(''logs'', Str content)]\<rparr>,
          cache_set now ?key (Str content) 30 s3)"
    using get_pod_logs_uncached_quiet by blast
  have "cache_events (new_events s (snd (get_pod_logs env now req s)))
          = [Cache_get ?key, Cache_set ?key (Str content) 30]
        \<and> payload (fst (get_pod_logs env now req s)) = [(''logs'', Str content)]"
    unfolding m u using cache_events_read_write [OF q] by simp
  then show "\<exists>v. cache_events (new_events s (snd (get_pod_logs env now req s)))
                = [Cache_get ?key, Cache_set ?key v 30]
              \<and> payload (fst (get_pod_logs env now req s)) = [(''logs'', v)]"
    by blast
qed

lemma cache_keys_cache_events: "cache_keys (cache_events evs) = cache_keys evs"
  by (induction evs rule: cache_keys.induct) (simp_all add: cache_events_def)

lemma get_pods_cache_keys:
  assumes "form_field req ''application'' \<noteq> []" "form_field req ''cluster'' \<noteq> []"
    "form_field req ''bundle'' \<noteq> []"
  shows "set (cache_keys (new_events s (snd (get_pods env now req s))))
           = {pods_cache_key (form_field req ''application'')
                (form_field req ''cluster'') (form_field req ''bundle'')}"
proof -
  let ?key = "pods_cache_key (form_field req ''application'')
               (form_field req ''cluster'') (form_field req ''bundle'')"
  let ?evs = "new_events s (snd (get_pods env now req s))"
  show ?thesis
  proof (cases "cache_hit now s ?key")
    case True
    with get_pods_cache_events [OF assms, of now s env]
    have "?evs = [Cache_get ?key]" by blast
    then show ?thesis by simp
  next
    case False
    with get_pods_cache_events [OF assms, of now s env]
    obtain v where "cache_events ?evs = [Cache_get ?key, Cache_set ?key v 120]" by blast
    then have "cache_keys (cache_events ?evs) = [?key, ?key]" by simp
    then show ?thesis by (simp add: cache_keys_cache_events)
  qed
qed

lemma get_pod_logs_cache_keys:
  assumes "form_field req ''application'' \<noteq> []" "form_field req ''cluster'' \<noteq> []"
    "form_field req ''bundle'' \<noteq> []" "form_field req ''pod'' \<noteq> []"
  shows "set (cache_keys (new_events s (snd (get_pod_logs env now req s))))
           = {pod_logs_cache_key (form_field req ''application'')
                (form_field req ''cluster'') (form_field req ''bundle'')
                (form_field req ''pod'')}"
proof -
  let ?key = "pod_logs_cache_key (form_field req ''application'')
               (form_field req ''cluster'') (form_field req ''bundle'')
               (form_field req ''pod'')"
  let ?evs = "new_events s (snd (get_pod_logs env now req s))"
  show ?thesis
  proof (cases "cache_hit now s ?key")
    case True
    with get_pod_logs_cache_events [OF assms, of now s env]
    have "?evs = [Cache_get ?key]" by blast
    then show ?thesis by simp
  next
    case False
    with get_pod_logs_cache_events [OF assms, of now s env]
    obtain v where "cache_events ?evs = [Cache_get ?key, Cache_set ?key v 30]" by blast
    then have "cache_keys (cache_events ?evs) = [?key, ?key]" by simp
    then show ?thesis by (simp add: cache_keys_cache_events)
  qed
qed

text \<open>The character class of the sanitizer, letter by letter.\<close>

lemma safe_char_alphabet:
  "safe_char c \<longleftrightarrow>
     c \<in> set ''abcdefghijklmnopqrstuvwxyzABCDEFGHIJKLMNOPQRSTUVWXYZ0123456789_-''"
proof -
  obtain b0 b1 b2 b3 b4 b5 b6 b7 where c: "c = Char b0 b1 b2 b3 b4 b5 b6 b7" by (cases c)
  show ?thesis unfolding c
    by (cases b0; cases b1; cases b2; cases b3; cases b4; cases b5; cases b6; cases b7)
       (simp_all add: safe_char_def)
qed

text \<open>
  Claim C7 (as amended). The cache key of pod-list and pod-log resolution is a fixed
  function of the request fields as the handler reads them (trimmed, not mapped by the
  field normalizer): the prefix "pods_" or "pod_logs_", then the sanitized application,
  cluster, bundle (and pod), joined by underscores. For a complete request every cache
  operation of the handler carries that key. The first event is the read under it. On a
  hit the read is the only event. On a miss there are exactly two cache operations, the
  read and then one write under the same key, of the value the response carries, kept for
  120 seconds (pod list) or 30 seconds (pod log). Any request with the same trimmed
  fields, in any state, at any time and in any environment, reads and writes under that
  same key and no other. Sanitizing a non-empty value replaces exactly the characters
  outside the ASCII letters, the digits, underscore and hyphen by an underscore, so only
  such characters remain.
\<close>

theorem C7_cache_key:
  assumes "\<not> missing_or_blank req ''application''" "\<not> missing_or_blank req ''cluster''"
    "\<not> missing_or_blank req ''bundle''"
  shows "(\<exists>rest. new_events s (snd (get_pods env now req s)) =
            Cache_get (''pods_'' @ sanitize_filename (form_field req ''application'')
              @ ''_'' @ sanitize_filename (form_field req ''cluster'')
              @ ''_'' @ sanitize_filename (form_field req ''bundle'')) # rest)
    \<and> (cache_hit now s (''pods_'' @ sanitize_filename (form_field req ''application'')
              @ ''_'' @ sanitize_filename (form_field req ''cluster'')
              @ ''_'' @ sanitize_filename (form_field req ''bundle'')) \<longrightarrow>
         new_events s (snd (get_pods env now req s)) =
           [Cache_get (''pods_'' @ sanitize_filename (form_field req ''application'')
              @ ''_'' @ sanitize_filename (form_field req ''cluster'')
              @ ''_'' @ sanitize_filename (form_field req ''bundle''))])
    \<and> (\<not> cache_hit now s (''pods_'' @ sanitize_filename (form_field req ''application'')
              @ ''_'' @ sanitize_filename (form_field req ''cluster'')
              @ ''_'' @ sanitize_filename (form_field req ''bundle'')) \<longrightarrow>
         (\<exists>v. cache_events (new_events s (snd (get_pods env now req s))) =
                [Cache_get (''pods_'' @ sanitize_filename (form_field req ''application'')
                   @ ''_'' @ sanitize_filename (form_field req ''cluster'')
                   @ ''_'' @ sanitize_filename (form_field req ''bundle'')),
                 Cache_set (''pods_'' @ sanitize_filename (form_field req ''application'')
                   @ ''_'' @ sanitize_filename (form_field req ''cluster'')
                   @ ''_'' @ sanitize_filename (form_field req ''bundle'')) v 120]
              \<and> payload (fst (get_pods env now req s)) = [(''pods'', v)]))
    \<and> (\<forall>req' env' now' s'.
          form_field req' ''application'' = form_field req ''application''
          \<and> form_field req' ''cluster'' = form_field req ''cluster''
          \<and> form_field req' ''bundle'' = form_field req ''bundle'' \<longrightarrow>
          set (cache_keys (new_events s' (snd (get_pods env' now' req' s')))) =
            {''pods_'' @ sanitize_filename (form_field req ''application'')
               @ ''_'' @ sanitize_filename (form_field req ''cluster'')
               @ ''_'' @ sanitize_filename (form_field req ''bundle'')})
    \<and> (\<not> missing_or_blank req ''pod'' \<longrightarrow>
         (\<exists>rest. new_events s (snd (get_pod_logs env now req s)) =
            Cache_get (''pod_logs_'' @ sanitize_filename (form_field req ''application'')
              @ ''_'' @ sanitize_filename (form_field req ''cluster'')
              @ ''_'' @ sanitize_filename (form_field req ''bundle'')
              @ ''_'' @ sanitize_filename (form_field req ''pod'')) # rest)
       \<and> (cache_hit now s (''pod_logs_'' @ sanitize_filename (form_field req ''application'')
              @ ''_'' @ sanitize_filename (form_field req ''cluster'')
              @ ''_'' @ sanitize_filename (form_field req ''bundle'')
              @ ''_'' @ sanitize_filename (form_field req ''pod'')) \<longrightarrow>
            new_events s (snd (get_pod_logs env now req s)) =
              [Cache_get (''pod_logs_'' @ sanitize_filename (form_field req ''application'')
                 @ ''_'' @ sanitize_filename (form_field req ''cluster'')
                 @ ''_'' @ sanitize_filename (form_field req ''bundle'')
                 @ ''_'' @ sanitize_filename (form_field req ''pod''))])
       \<and> (\<not> cache_hit now s (''pod_logs_'' @ sanitize_filename (form_field req ''application'')
              @ ''_'' @ sanitize_filename (form_field req ''cluster'')
              @ ''_'' @ sanitize_filename (form_field req ''bundle'')
              @ ''_'' @ sanitize_filename (form_field req ''pod'')) \<longrightarrow>
            (\<exists>v. cache_events (new_events s (snd (get_pod_logs env now req s))) =
                   [Cache_get (''pod_logs_'' @ sanitize_filename (form_field req ''application'')
                      @ ''_'' @ sanitize_filename (form_field req ''cluster'')
                      @ ''_'' @ sanitize_filename (form_field req ''bundle'')
                      @ ''_'' @ sanitize_filename (form_field req ''pod'')),
                    Cache_set (''pod_logs_'' @ sanitize_filename (form_field req ''application'')
                      @ ''_'' @ sanitize_filename (form_field req ''cluster'')
                      @ ''_'' @ sanitize_filename (form_field req ''bundle'')
                      @ ''_'' @ sanitize_filename (form_field req ''pod'')) v 30]
                 \<and> payload (fst (get_pod_logs env now req s)) = [(''logs'', v)]))
       \<and> (\<forall>req' env' now' s'.
             form_field req' ''application'' = form_field req ''application''
             \<and> form_field req' ''cluster'' = form_field req ''cluster''
             \<and> form_field req' ''bundle'' = form_field req ''bundle''
             \<and> form_field req' ''pod'' = form_field req ''pod'' \<longrightarrow>
             set (cache_keys (new_events s' (snd (get_pod_logs env' now' req' s')))) =
               {''pod_logs_'' @ sanitize_filename (form_field req ''application'')
                  @ ''_'' @ sanitize_filename (form_field req ''cluster'')
                  @ ''_'' @ sanitize_filename (form_field req ''bundle'')
                  @ ''_'' @ sanitize_filename (form_field req ''pod'')}))
    \<and> (\<forall>v. v \<noteq> [] \<longrightarrow>
          sanitize_filename v = map (\<lambda>c. if safe_char c then c else CHR ''_'') v)
    \<and> (\<forall>v. list_all safe_char (sanitize_filename v))
    \<and> (\<forall>c. safe_char c \<longleftrightarrow>
          c \<in> set ''abcdefghijklmnopqrstuvwxyzABCDEFGHIJKLMNOPQRSTUVWXYZ0123456789_-'')"
proof -
  from assms have f: "form_field req ''application'' \<noteq> []" "form_field req ''cluster'' \<noteq> []"
    "form_field req ''bundle'' \<noteq> []"
    by (simp_all add: form_field_Nil)
  have kp: "''pods_'' @ sanitize_filename (form_field req ''application'')
              @ ''_'' @ sanitize_filename (form_field req ''cluster'')
              @ ''_'' @ sanitize_filename (form_field req ''bundle'')
      = pods_cache_key (form_field req ''application'')
               (form_field req ''cluster'') (form_field req ''bundle'')"
    by (simp add: pods_cache_key_def)
  have kl: "''pod_logs_'' @ sanitize_filename (form_field req ''application'')
              @ ''_'' @ sanitize_filename (form_field req ''cluster'')
              @ ''_'' @ sanitize_filename (form_field req ''bundle'')
              @ ''_'' @ sanitize_filename (form_field req ''pod'')
      = pod_logs_cache_key (form_field req ''application'')
               (form_field req ''cluster'') (form_field req ''bundle'')
               (form_field req ''pod'')"
    by (simp add: pod_logs_cache_key_def)
  have p1: "\<exists>rest. new_events s (snd (get_pods env now req s)) =
            Cache_get (pods_cache_key (form_field req ''application'')
               (form_field req ''cluster'') (form_field req ''bundle'')) # rest"
    by (rule get_pods_first_event [OF f])
  note p2 = get_pods_cache_events [OF f, of now s env]
  have p3: "\<forall>req' env' now' s'.
          form_field req' ''application'' = form_field req ''application''
          \<and> form_field req' ''cluster'' = form_field req ''cluster''
          \<and> form_field req' ''bundle'' = form_field req ''bundle'' \<longrightarrow>
          set (cache_keys (new_events s' (snd (get_pods env' now' req' s')))) =
            {pods_cache_key (form_field req ''application'')
               (form_field req ''cluster'') (form_field req ''bundle'')}"
  proof (intro allI impI)
    fix req' env' now' s'
    assume e: "form_field req' ''application'' = form_field req ''application''
          \<and> form_field req' ''cluster'' = form_field req ''cluster''
          \<and> form_field req' ''bundle'' = form_field req ''bundle''"
    with f have "form_field req' ''application'' \<noteq> []" "form_field req' ''cluster'' \<noteq> []"
      "form_field req' ''bundle'' \<noteq> []" by simp_all
    from get_pods_cache_keys [OF this, of s' env' now'] e
    show "set (cache_keys (new_events s' (snd (get_pods env' now' req' s')))) =
            {pods_cache_key (form_field req ''application'')
               (form_field req ''cluster'') (form_field req ''bundle'')}"
      by simp
  qed
  have l: "\<not> missing_or_blank req ''pod'' \<longrightarrow>
         (\<exists>rest. new_events s (snd (get_pod_logs env now req s)) =
            Cache_get (pod_logs_cache_key (form_field req ''application'')
               (form_field req ''cluster'') (form_field req ''bundle'')
               (form_field req ''pod'')) # rest)
       \<and> (cache_hit now s (pod_logs_cache_key (form_field req ''application'')
               (form_field req ''cluster'') (form_field req ''bundle'')
               (form_field req ''pod'')) \<longrightarrow>
            new_events s (snd (get_pod_logs env now req s)) =
              [Cache_get (pod_logs_cache_key (form_field req ''application'')
               (form_field req ''cluster'') (form_field req ''bundle'')
               (form_field req ''pod''))])
       \<and> (\<not> cache_hit now s (pod_logs_cache_key (form_field req ''application'')
               (form_field req ''cluster'') (form_field req ''bundle'')
               (form_field req ''pod'')) \<longrightarrow>
            (\<exists>v. cache_events (new_events s (snd (get_pod_logs env now req s))) =
                   [Cache_get (pod_logs_cache_key (form_field req ''application'')
                      (form_field req ''cluster'') (form_field req ''bundle'')
                      (form_field req ''pod'')),
                    Cache_set (pod_logs_cache_key (form_field req ''application'')
                      (form_field req ''cluster'') (form_field req ''bundle'')
                      (form_field req ''pod'')) v 30]
                 \<and> payload (fst (get_pod_logs env now req s)) = [(''logs'', v)]))
       \<and> (\<forall>req' env' now' s'.
             form_field req' ''application'' = form_field req ''application''
             \<and> form_field req' ''cluster'' = form_field req ''cluster''
             \<and> form_field req' ''bundle'' = form_field req ''bundle''
             \<and> form_field req' ''pod'' = form_field req ''pod'' \<longrightarrow>
             set (cache_keys (new_events s' (snd (get_pod_logs env' now' req' s')))) =
               {pod_logs_cache_key (form_field req ''application'')
                  (form_field req ''cluster'') (form_field req ''bundle'')
                  (form_field req ''pod'')})"
  proof
    assume "\<not> missing_or_blank req ''pod''"
    then have fp: "form_field req ''pod'' \<noteq> []" by (simp add: form_field_Nil)
    have l1: "\<exists>rest. new_events s (snd (get_pod_logs env now req s)) =
            Cache_get (pod_logs_cache_key (form_field req ''application'')
               (form_field req ''cluster'') (form_field req ''bundle'')
               (form_field req ''pod'')) # rest"
      by (rule get_pod_logs_first_event [OF f fp])
    note l2 = get_pod_logs_cache_events [OF f fp, of now s env]
    have l3: "\<forall>req' env' now' s'.
             form_field req' ''application'' = form_field req ''application''
             \<and> form_field req' ''cluster'' = form_field req ''cluster''
             \<and> form_field req' ''bundle'' = form_field req ''bundle''
             \<and> form_field req' ''pod'' = form_field req ''pod'' \<longrightarrow>
             set (cache_keys (new_events s' (snd (get_pod_logs env' now' req' s')))) =
               {pod_logs_cache_key (form_field req ''application'')
                  (form_field req ''cluster'') (form_field req ''bundle'')
                  (form_field req ''pod'')}"
    proof (intro allI impI)
      fix req' env' now' s'
      assume e: "form_field req' ''application'' = form_field req ''application''
             \<and> form_field req' ''cluster'' = form_field req ''cluster''
             \<and> form_field req' ''bundle'' = form_field req ''bundle''
             \<and> form_field req' ''pod'' = form_field req ''pod''"
      with f fp have "form_field req' ''application'' \<noteq> []"
        "form_field req' ''cluster'' \<noteq> []" "form_field req' ''bundle'' \<noteq> []"
        "form_field req' ''pod'' \<noteq> []" by simp_all
      from get_pod_logs_cache_keys [OF this, of s' env' now'] e
      show "set (cache_keys (new_events s' (snd (get_pod_logs env' now' req' s')))) =
               {pod_logs_cache_key (form_field req ''application'')
                  (form_field req ''cluster'') (form_field req ''bundle'')
                  (form_field req ''pod'')}"
        by simp
    qed
    from l1 l2 l3 show "(\<exists>rest. new_events s (snd (get_pod_logs env now req s)) =
            Cache_get (pod_logs_cache_key (form_field req ''application'')
               (form_field req ''cluster'') (form_field req ''bundle'')
               (form_field req ''pod'')) # rest)
       \<and> (cache_hit now s (pod_logs_cache_key (form_field req ''application'')
               (form_field req ''cluster'') (form_field req ''bundle'')
               (form_field req ''pod'')) \<longrightarrow>
            new_events s (snd (get_pod_logs env now req s)) =
              [Cache_get (pod_logs_cache_key (form_field req ''application'')
               (form_field req ''cluster'') (form_field req ''bundle'')
               (form_field req ''pod''))])
       \<and> (\<not> cache_hit now s (pod_logs_cache_key (form_field req ''application'')
               (form_field req ''cluster'') (form_field req ''bundle'')
               (form_field req ''pod'')) \<longrightarrow>
            (\<exists>v. cache_events (new_events s (snd (get_pod_logs env now req s))) =
                   [Cache_get (pod_logs_cache_key (form_field req ''application'')
                      (form_field req ''cluster'') (form_field req ''bundle'')
                      (form_field req ''pod'')),
                    Cache_set (pod_logs_cache_key (form_field req ''application'')
                      (form_field req ''cluster'') (form_field req ''bundle'')
                      (form_field req ''pod'')) v 30]
                 \<and> payload (fst (get_pod_logs env now req s)) = [(''logs'', v)]))
       \<and> (\<forall>req' env' now' s'.
             form_field req' ''application'' = form_field req ''application''
             \<and> form_field req' ''cluster'' = form_field req ''cluster''
             \<and> form_field req' ''bundle'' = form_field req ''bundle''
             \<and> form_field req' ''pod'' = form_field req ''pod'' \<longrightarrow>
             set (cache_keys (new_events s' (snd (get_pod_logs env' now' req' s')))) =
               {pod_logs_cache_key (form_field req ''application'')
                  (form_field req ''cluster'') (form_field req ''bundle'')
                  (form_field req ''pod'')})"
      by blast
  qed
  have s1: "\<forall>v. v \<noteq> [] \<longrightarrow>
          sanitize_filename v = map (\<lambda>c. if safe_char c then c else CHR ''_'') v"
    by (simp add: sanitize_filename_def)
  have s2: "\<forall>v. list_all safe_char (sanitize_filename v)"
    by (simp add: sanitize_filename_safe)
  have s3: "\<forall>c. safe_char c \<longleftrightarrow>
          c \<in> set ''abcdefghijklmnopqrstuvwxyzABCDEFGHIJKLMNOPQRSTUVWXYZ0123456789_-''"
    by (simp only: safe_char_alphabet simp_thms)
  from p1 p2 p3 l s1 s2 s3 show ?thesis unfolding kp kl by (intro conjI) blast+
qed

text \<open>
  The claim as stated fails: the key is built from the fields as sent, not from the
  normalized tuple. The cluster written "cluster1" and written "Cluster Prod AKS 1"
  normalize to the same tuple, and the two requests read the cache under different keys.
\<close>

theorem C7_normalized_key_counterexample:
  "map_frontend_to_elasticsearch_values (form_field example_request ''application'')
       (form_field example_request ''cluster'') (form_field example_request ''bundle'') None
     = map_frontend_to_elasticsearch_values (form_field display_name_request ''application'')
         (form_field display_name_request ''cluster'')
         (form_field display_name_request ''bundle'') None
   \<and> (\<exists>rest. new_events init (snd (get_pods offline_env 0 example_request init))
          = Cache_get ''pods_FOBPM_cluster1_Bulkdeviceenrollment'' # rest)
   \<and> (\<exists>rest. new_events init (snd (get_pods offline_env 0 display_name_request init))
          = Cache_get ''pods_FOBPM_Cluster_Prod_AKS_1_Bulkdeviceenrollment'' # rest)
   \<and> set (cache_keys (new_events init (snd (get_pods offline_env 0 example_request init))))
       = {''pods_FOBPM_cluster1_Bulkdeviceenrollment''}
   \<and> set (cache_keys (new_events init (snd (get_pods offline_env 0 display_name_request init))))
       = {''pods_FOBPM_Cluster_Prod_AKS_1_Bulkdeviceenrollment''}"
proof -
  have 1: "\<exists>rest. new_events init (snd (get_pods offline_env 0 example_request init))
          = Cache_get ''pods_FOBPM_cluster1_Bulkdeviceenrollment'' # rest"
    using get_pods_first_event [of example_request init offline_env 0]
    by (simp add: example_request_fields example_keys)
  have 2: "\<exists>rest. new_events init (snd (get_pods offline_env 0 display_name_request init))
          = Cache_get ''pods_FOBPM_Cluster_Prod_AKS_1_Bulkdeviceenrollment'' # rest"
    using get_pods_first_event [of display_name_request init offline_env 0]
    by (simp add: display_name_request_fields example_keys)
  have 3: "set (cache_keys (new_events init (snd (get_pods offline_env 0 example_request init))))
       = {''pods_FOBPM_cluster1_Bulkdeviceenrollment''}"
    using get_pods_cache_keys [of example_request init offline_env 0]
    by (simp add: example_request_fields example_keys)
  have 4: "set (cache_keys (new_events init
        (snd (get_pods offline_env 0 display_name_request init))))
       = {''pods_FOBPM_Cluster_Prod_AKS_1_Bulkdeviceenrollment''}"
    using get_pods_cache_keys [of display_name_request init offline_env 0]
    by (simp add: display_name_request_fields example_keys)
  from 1 2 3 4 show ?thesis
    by (simp add: example_request_fields display_name_request_fields example_normalized)
qed

theorem C7_cache_key_witness:
  "\<not> missing_or_blank example_request ''application''
   \<and> \<not> missing_or_blank example_request ''cluster''
   \<and> \<not> missing_or_blank example_request ''bundle''
   \<and> \<not> missing_or_blank example_request ''pod''
   \<and> \<not> cache_hit 0 init ''pods_FOBPM_cluster1_Bulkdeviceenrollment''
   \<and> \<not> cache_hit 0 init
         ''pod_logs_FOBPM_cluster1_Bulkdeviceenrollment_fobpm-bulkdeviceenrollment-web-001''
   \<and> (\<exists>v. cache_events (new_events init (snd (get_pods offline_env 0 example_request init)))
          = [Cache_get ''pods_FOBPM_cluster1_Bulkdeviceenrollment'',
             Cache_set ''pods_FOBPM_cluster1_Bulkdeviceenrollment'' v 120]
        \<and> payload (fst (get_pods offline_env 0 example_request init)) = [(''pods'', v)])
   \<and> (\<exists>v. cache_events (new_events init (snd (get_pod_logs offline_env 0 example_request init)))
          = [Cache_get
               ''pod_logs_FOBPM_cluster1_Bulkdeviceenrollment_fobpm-bulkdeviceenrollment-web-001'',
             Cache_set
               ''pod_logs_FOBPM_cluster1_Bulkdeviceenrollment_fobpm-bulkdeviceenrollment-web-001''
               v 30]
        \<and> payload (fst (get_pod_logs offline_env 0 example_request init)) = [(''logs'', v)])
   \<and> cache_hit 10 warm_state ''pods_FOBPM_cluster1_Bulkdeviceenrollment''
   \<and> new_events warm_state (snd (get_pods offline_env 10 example_request warm_state))
       = [Cache_get ''pods_FOBPM_cluster1_Bulkdeviceenrollment'']
   \<and> sanitize_filename ''Cluster Prod AKS 1'' = ''Cluster_Prod_AKS_1''"
proof -
  have m: "\<not> missing_or_blank example_request ''application''"
    "\<not> missing_or_blank example_request ''cluster''"
    "\<not> missing_or_blank example_request ''bundle''"
    "\<not> missing_or_blank example_request ''pod''"
    by (simp_all add: form_field_Nil [symmetric] example_request_fields)
  have k: "''pods_'' @ sanitize_filename ''FOBPM'' @ ''_'' @ sanitize_filename ''cluster1''
      @ ''_'' @ sanitize_filename ''Bulkdeviceenrollment''
      = ''pods_FOBPM_cluster1_Bulkdeviceenrollment''"
    "''pod_logs_'' @ sanitize_filename ''FOBPM'' @ ''_'' @ sanitize_filename ''cluster1''
      @ ''_'' @ sanitize_filename ''Bulkdeviceenrollment''
      @ ''_'' @ sanitize_filename ''fobpm-bulkdeviceenrollment-web-001''
      = ''pod_logs_FOBPM_cluster1_Bulkdeviceenrollment_fobpm-bulkdeviceenrollment-web-001''"
    by (simp_all add: sanitize_filename_def safe_char_def)
  have miss: "\<not> cache_hit 0 init ''pods_FOBPM_cluster1_Bulkdeviceenrollment''"
    "\<not> cache_hit 0 init
         ''pod_logs_FOBPM_cluster1_Bulkdeviceenrollment_fobpm-bulkdeviceenrollment-web-001''"
    by (simp_all add: cache_hit_def cache_lookup_def init_def)
  obtain pods content where "pods \<noteq> []" and c: "cache warm_state =
         [pods_cache_key ''FOBPM'' ''cluster1'' ''Bulkdeviceenrollment''
            \<mapsto> (Pods pods, 120),
          pod_logs_cache_key ''FOBPM'' ''cluster1'' ''Bulkdeviceenrollment''
            ''fobpm-bulkdeviceenrollment-web-001'' \<mapsto> (Str content, 30)]"
    using warm_state_cache by blast
  then have hit: "cache_hit 10 warm_state ''pods_FOBPM_cluster1_Bulkdeviceenrollment''"
    using example_keys_differ
    by (simp add: cache_hit_def cache_lookup_def example_keys [symmetric])
  note a = C7_cache_key [OF m(1) m(2) m(3), of init offline_env 0,
      unfolded example_request_fields k]
  note b = C7_cache_key [OF m(1) m(2) m(3), of warm_state offline_env 10,
      unfolded example_request_fields k]
  from a miss m(4)
  have 1: "\<exists>v. cache_events (new_events init (snd (get_pods offline_env 0 example_request init)))
          = [Cache_get ''pods_FOBPM_cluster1_Bulkdeviceenrollment'',
             Cache_set ''pods_FOBPM_cluster1_Bulkdeviceenrollment'' v 120]
        \<and> payload (fst (get_pods offline_env 0 example_request init)) = [(''pods'', v)]"
    by blast
  from a miss m(4)
  have 2: "\<exists>v. cache_events (new_events init
            (snd (get_pod_logs offline_env 0 example_request init)))
          = [Cache_get
               ''pod_logs_FOBPM_cluster1_Bulkdeviceenrollment_fobpm-bulkdeviceenrollment-web-001'',
             Cache_set
               ''pod_logs_FOBPM_cluster1_Bulkdeviceenrollment_fobpm-bulkdeviceenrollment-web-001''
               v 30]
        \<and> payload (fst (get_pod_logs offline_env 0 example_request init)) = [(''logs'', v)]"
    by blast
  from b hit
  have 3: "new_events warm_state (snd (get_pods offline_env 10 example_request warm_state))
       = [Cache_get ''pods_FOBPM_cluster1_Bulkdeviceenrollment'']"
    by blast
  from a have "sanitize_filename ''Cluster Prod AKS 1''
      = map (\<lambda>c. if safe_char c then c else CHR ''_'') ''Cluster Prod AKS 1''"
    by blast
  then have 4: "sanitize_filename ''Cluster Prod AKS 1'' = ''Cluster_Prod_AKS_1''"
    by (simp add: safe_char_def)
  from m miss 1 2 hit 3 4 show ?thesis by blast
qed

subsection \<open>The lines of a joined text\<close>

lemma split_on_no_sep: "sep \<notin> set x \<Longrightarrow> split_on sep x = [x]"
  by (induction x) auto

lemma split_on_append_sep:
  "split_on sep (x @ sep # ys) = split_on sep x @ split_on sep ys"
proof (induction x)
  case Nil
  show ?case by simp
next
  case (Cons c cs)
  obtain l ls where "split_on sep cs = l # ls"
    using split_on_nonempty [of sep cs] by (cases "split_on sep cs") auto
  with Cons show ?case by simp
qed

lemma split_on_join:
  "xs \<noteq> [] \<Longrightarrow> split_on sep (join [sep] xs) = concat (map (split_on sep) xs)"
proof (induction "[sep]" xs rule: join.induct)
  case 1
  then show ?case by simp
next
  case (2 x)
  show ?case by simp
next
  case (3 x y ys)
  then have "split_on sep (join [sep] (y # ys)) = concat (map (split_on sep) (y # ys))"
    by simp
  then show ?case by (simp add: split_on_append_sep)
qed

lemma split_on_join_lines:
  assumes "xs \<noteq> []" "\<forall>x\<in>set xs. sep \<notin> set x"
  shows "split_on sep (join [sep] xs) = xs"
proof -
  from assms(2) have "concat (map (split_on sep) xs) = xs"
    by (induction xs) (simp_all add: split_on_no_sep)
  with assms(1) show ?thesis by (simp add: split_on_join)
qed

lemma line_in_split_join:
  assumes "x \<in> set xs" "sep \<notin> set x"
  shows "x \<in> set (split_on sep (join [sep] xs))"
proof -
  from assms(1) have "xs \<noteq> []" by auto
  then have "set (split_on sep (join [sep] xs)) = (\<Union>y\<in>set xs. set (split_on sep y))"
    by (simp add: split_on_join)
  moreover from assms(2) have "x \<in> set (split_on sep x)" by (simp add: split_on_no_sep)
  ultimately show ?thesis using assms(1) by blast
qed

subsection \<open>The level and the line breaks of a rendered line\<close>

lemma line_level_log_line:
  assumes "CHR '']'' \<notin> set (strftime env t)" "CHR '':'' \<notin> set level"
  shows "line_level (log_line env (t, level, msg)) = level"
proof -
  have "dropWhile (\<lambda>c. c \<noteq> CHR '']'') ((''['' @ strftime env t) @ ''] '' @ level @ '': '' @ msg)
      = dropWhile (\<lambda>c. c \<noteq> CHR '']'') (''] '' @ level @ '': '' @ msg)"
    using assms(1) by (intro dropWhile_append2) auto
  then have "drop 2 (dropWhile (\<lambda>c. c \<noteq> CHR '']'') (log_line env (t, level, msg)))
      = level @ '': '' @ msg"
    by (simp add: log_line_def)
  moreover have "takeWhile (\<lambda>c. c \<noteq> CHR '':'') (level @ '': '' @ msg) = level"
    using assms(2) by (auto simp: takeWhile_tail takeWhile_eq_all_conv)
  ultimately show ?thesis by (simp add: line_level_def)
qed

lemma log_line_no_break:
  assumes "CHR 0x0A \<notin> set (strftime env t)" "CHR 0x0A \<notin> set level" "CHR 0x0A \<notin> set msg"
  shows "CHR 0x0A \<notin> set (log_line env (t, level, msg))"
  using assms by (simp add: log_line_def)

text \<open>An entry whose level and message have no line break is a line of the text, and the
  line shows the entry's level.\<close>

lemma entry_line_in_text:
  assumes "(t, level, msg) \<in> set (auto_generate_pod_entries now app cluster bundle pod)"
    and "CHR '']'' \<notin> set (strftime env t)" "CHR 0x0A \<notin> set (strftime env t)"
    and "CHR '':'' \<notin> set level" "CHR 0x0A \<notin> set level" "CHR 0x0A \<notin> set msg"
  shows "\<exists>line\<in>set (split_on (CHR 0x0A)
                     (auto_generate_pod_logs env now app cluster bundle pod)).
           line_level line = level"
proof -
  have "log_line env (t, level, msg)
      \<in> set (map (log_line env) (auto_generate_pod_entries now app cluster bundle pod))"
    unfolding set_map using assms(1) by (rule imageI)
  moreover have "CHR 0x0A \<notin> set (log_line env (t, level, msg))"
    using assms(3,5,6) by (rule log_line_no_break)
  ultimately have "log_line env (t, level, msg)
      \<in> set (split_on (CHR 0x0A) (auto_generate_pod_logs env now app cluster bundle pod))"
    unfolding auto_generate_pod_logs_def by (rule line_in_split_join)
  moreover have "line_level (log_line env (t, level, msg)) = level"
    using assms(2,4) by (rule line_level_log_line)
  ultimately show ?thesis by blast
qed

text \<open>When no field has a line break, the lines of the text are the entries, one each.\<close>

lemma auto_generate_pod_entries_nonempty:
  "auto_generate_pod_entries now app cluster bundle pod \<noteq> []"
  by (simp add: auto_generate_pod_entries_def Let_def)

lemma auto_generate_pod_entries_no_break:
  assumes "CHR 0x0A \<notin> set app" "CHR 0x0A \<notin> set cluster" "CHR 0x0A \<notin> set bundle"
    "CHR 0x0A \<notin> set pod"
    and "e \<in> set (auto_generate_pod_entries now app cluster bundle pod)"
  shows "CHR 0x0A \<notin> set (fst (snd e)) \<and> CHR 0x0A \<notin> set (snd (snd e))
       \<and> CHR '':'' \<notin> set (fst (snd e))"
  using assms(5) assms(1-4)
  by (auto simp: auto_generate_pod_entries_def Let_def split: if_splits)

lemma auto_generate_pod_logs_lines:
  assumes "\<And>t. CHR 0x0A \<notin> set (strftime env t)"
    and "CHR 0x0A \<notin> set app" "CHR 0x0A \<notin> set cluster" "CHR 0x0A \<notin> set bundle"
    "CHR 0x0A \<notin> set pod"
  shows "split_on (CHR 0x0A) (auto_generate_pod_logs env now app cluster bundle pod)
           = map (log_line env) (auto_generate_pod_entries now app cluster bundle pod)"
proof -
  let ?es = "auto_generate_pod_entries now app cluster bundle pod"
  have "\<forall>x\<in>set (map (log_line env) ?es). CHR 0x0A \<notin> set x"
  proof
    fix x assume "x \<in> set (map (log_line env) ?es)"
    then obtain e where e: "e \<in> set ?es" and x: "x = log_line env e" by auto
    obtain t level msg where p: "e = (t, level, msg)" by (cases e) auto
    from auto_generate_pod_entries_no_break [OF assms(2-5) e] p
    have "CHR 0x0A \<notin> set level" "CHR 0x0A \<notin> set msg" by simp_all
    with assms(1) [of t] show "CHR 0x0A \<notin> set x"
      unfolding x p by (rule log_line_no_break)
  qed
  moreover have "map (log_line env) ?es \<noteq> []"
    by (simp add: auto_generate_pod_entries_nonempty)
  ultimately show ?thesis
    unfolding auto_generate_pod_logs_def by (intro split_on_join_lines)
qed

lemma warn_entries_levels:
  assumes "sublist ''warn'' (lower pod)" "\<not> sublist ''error'' (lower pod)"
    and "e \<in> set (auto_generate_pod_entries now app cluster bundle pod)"
  shows "fst (snd e) = ''INFO'' \<or> fst (snd e) = ''WARN''"
  using assms(3) assms(1,2)
  by (auto simp: auto_generate_pod_entries_def Let_def)

subsection \<open>Synthetic pod logs\<close>

text \<open>
  Claim C6 (as amended). The lines of the auto-generated text are its pieces between line
  breaks; the level of a line is what it shows between the timestamp's closing bracket
  and the next colon. The rendering of an instant (the library's \<^verbatim>\<open>strftime\<close> with
  \<^verbatim>\<open>'%Y-%m-%d %H:%M:%S'\<close>) has no closing bracket and no line break. Then: for every
  pod name containing "error" (case-insensitive) the text has an ERROR-level line and a
  FATAL-level line; for every pod name containing "warn" but not "error"
  (case-insensitive) the text has a WARN-level line; and if moreover the application,
  cluster, bundle and pod name contain no line break, every line of that text is at
  level INFO or WARN, so none is at level ERROR or FATAL.
\<close>

theorem C6_pod_name_bias:
  assumes "\<And>t. CHR '']'' \<notin> set (strftime env t)"
    and "\<And>t. CHR 0x0A \<notin> set (strftime env t)"
  shows "(sublist ''error'' (lower pod) \<longrightarrow>
      (\<exists>line\<in>set (split_on (CHR 0x0A) (auto_generate_pod_logs env now app cluster bundle pod)).
          line_level line = ''ERROR'')
      \<and> (\<exists>line\<in>set (split_on (CHR 0x0A) (auto_generate_pod_logs env now app cluster bundle pod)).
          line_level line = ''FATAL''))
   \<and> (sublist ''warn'' (lower pod) \<and> \<not> sublist ''error'' (lower pod) \<longrightarrow>
      (\<exists>line\<in>set (split_on (CHR 0x0A) (auto_generate_pod_logs env now app cluster bundle pod)).
          line_level line = ''WARN''))
   \<and> (sublist ''warn'' (lower pod) \<and> \<not> sublist ''error'' (lower pod)
        \<and> CHR 0x0A \<notin> set app \<and> CHR 0x0A \<notin> set cluster \<and> CHR 0x0A \<notin> set bundle
        \<and> CHR 0x0A \<notin> set pod \<longrightarrow>
      (\<forall>line\<in>set (split_on (CHR 0x0A) (auto_generate_pod_logs env now app cluster bundle pod)).
          (line_level line = ''INFO'' \<or> line_level line = ''WARN'')
          \<and> line_level line \<noteq> ''ERROR'' \<and> line_level line \<noteq> ''FATAL''))"
proof (intro conjI impI)
  assume e: "sublist ''error'' (lower pod)"
  then have 1: "(now - 5400 + 20 + 60, ''ERROR'', ''Database connection timeout after 30s'')
      \<in> set (auto_generate_pod_entries now app cluster bundle pod)"
    and 2: "(now - 5400 + 20 + 120, ''FATAL'', ''Critical error - service unavailable'')
      \<in> set (auto_generate_pod_entries now app cluster bundle pod)"
    by (simp_all add: auto_generate_pod_entries_def Let_def)
  from 1 assms
  show "\<exists>line\<in>set (split_on (CHR 0x0A) (auto_generate_pod_logs env now app cluster bundle pod)).
          line_level line = ''ERROR''"
    by (rule entry_line_in_text) simp_all
  from 2 assms
  show "\<exists>line\<in>set (split_on (CHR 0x0A) (auto_generate_pod_logs env now app cluster bundle pod)).
          line_level line = ''FATAL''"
    by (rule entry_line_in_text) simp_all
next
  assume w: "sublist ''warn'' (lower pod) \<and> \<not> sublist ''error'' (lower pod)"
  then have 1: "(now - 5400 + 20 + 45, ''WARN'', ''High CPU usage detected: 78%'')
      \<in> set (auto_generate_pod_entries now app cluster bundle pod)"
    by (simp add: auto_generate_pod_entries_def Let_def)
  from 1 assms
  show "\<exists>line\<in>set (split_on (CHR 0x0A) (auto_generate_pod_logs env now app cluster bundle pod)).
          line_level line = ''WARN''"
    by (rule entry_line_in_text) simp_all
next
  assume w: "sublist ''warn'' (lower pod) \<and> \<not> sublist ''error'' (lower pod)
        \<and> CHR 0x0A \<notin> set app \<and> CHR 0x0A \<notin> set cluster \<and> CHR 0x0A \<notin> set bundle
        \<and> CHR 0x0A \<notin> set pod"
  then have nb: "CHR 0x0A \<notin> set app" "CHR 0x0A \<notin> set cluster" "CHR 0x0A \<notin> set bundle"
    "CHR 0x0A \<notin> set pod" by simp_all
  let ?es = "auto_generate_pod_entries now app cluster bundle pod"
  have lines: "split_on (CHR 0x0A) (auto_generate_pod_logs env now app cluster bundle pod)
      = map (log_line env) ?es"
    using assms(2) nb by (rule auto_generate_pod_logs_lines)
  show "\<forall>line\<in>set (split_on (CHR 0x0A) (auto_generate_pod_logs env now app cluster bundle pod)).
          (line_level line = ''INFO'' \<or> line_level line = ''WARN'')
          \<and> line_level line \<noteq> ''ERROR'' \<and> line_level line \<noteq> ''FATAL''"
    unfolding lines
  proof
    fix line assume "line \<in> set (map (log_line env) ?es)"
    then obtain e where e: "e \<in> set ?es" and x: "line = log_line env e" by auto
    obtain t level msg where p: "e = (t, level, msg)" by (cases e) auto
    from warn_entries_levels [OF _ _ e] w p
    have lv: "level = ''INFO'' \<or> level = ''WARN''" by simp
    then have "CHR '':'' \<notin> set level" by auto
    with assms(1) [of t] have "line_level line = level"
      unfolding x p by (rule line_level_log_line)
    with lv show "(line_level line = ''INFO'' \<or> line_level line = ''WARN'')
          \<and> line_level line \<noteq> ''ERROR'' \<and> line_level line \<noteq> ''FATAL''"
      by auto
  qed
qed

lemma lower_warn_error: "lower ''warn-error-pod'' = ''warn-error-pod''"
  by (simp add: lower_def lower_char_def)

lemma lower_two_line_pod:
  "lower two_line_pod = ''warn-svc'' @ NL @ ''[2024-05-01 12:00:00] fatal: down''"
  by (simp add: two_line_pod_def lower_def lower_char_def char_of_eq_iff)

lemma strftime_offline_env: "strftime offline_env t = ''2024-05-01 12:00:00''"
  by (simp add: offline_env_def)

text \<open>
  The claim as stated fails twice. The "error" branch is tested first, so the pod
  "warn-error-pod" gets ERROR lines. And the pod name is copied into the text as it is:
  a name with "warn", without "error", that carries a line break brings a line of its own,
  here one at level FATAL.
\<close>

theorem C6_warn_counterexample:
  "sublist ''warn'' (lower ''warn-error-pod'')
   \<and> (\<exists>e\<in>set (auto_generate_pod_entries 0 ''FOBPM'' ''cluster1'' ''Bulkdeviceenrollment''
                   ''warn-error-pod''). entry_level e = ''ERROR'')
   \<and> (\<exists>line\<in>set (split_on (CHR 0x0A)
          (auto_generate_pod_logs offline_env 0 ''FOBPM'' ''cluster1'' ''Bulkdeviceenrollment''
             ''warn-error-pod'')). line_level line = ''ERROR'')
   \<and> sublist ''warn'' (lower two_line_pod)
   \<and> \<not> sublist ''error'' (lower two_line_pod)
   \<and> (\<exists>line\<in>set (split_on (CHR 0x0A)
          (auto_generate_pod_logs offline_env 0 ''FOBPM'' ''cluster1'' ''Bulkdeviceenrollment''
             two_line_pod)). line_level line = ''FATAL'')"
proof -
  have 1: "sublist ''warn'' (lower ''warn-error-pod'')"
    and e: "sublist ''error'' (lower ''warn-error-pod'')"
    unfolding lower_warn_error by (simp_all add: sublist_code)
  from e have m: "(0 - 5400 + 20 + 60, ''ERROR'', ''Database connection timeout after 30s'')
      \<in> set (auto_generate_pod_entries 0 ''FOBPM'' ''cluster1'' ''Bulkdeviceenrollment''
               ''warn-error-pod'')"
    by (simp add: auto_generate_pod_entries_def Let_def)
  then have 2: "\<exists>e\<in>set (auto_generate_pod_entries 0 ''FOBPM'' ''cluster1''
      ''Bulkdeviceenrollment'' ''warn-error-pod''). entry_level e = ''ERROR''"
    by (force simp: entry_level_def)
  from m have 3: "\<exists>line\<in>set (split_on (CHR 0x0A)
          (auto_generate_pod_logs offline_env 0 ''FOBPM'' ''cluster1'' ''Bulkdeviceenrollment''
             ''warn-error-pod'')). line_level line = ''ERROR''"
    by (rule entry_line_in_text) (simp_all add: strftime_offline_env)
  have 4: "sublist ''warn'' (lower two_line_pod)"
    and 5: "\<not> sublist ''error'' (lower two_line_pod)"
    unfolding lower_two_line_pod by (simp_all add: sublist_code)
  let ?es = "auto_generate_pod_entries 0 ''FOBPM'' ''cluster1'' ''Bulkdeviceenrollment''
      two_line_pod"
  have "(0 - 5400, ''INFO'', ''Starting pod '' @ two_line_pod) \<in> set ?es"
    by (simp add: auto_generate_pod_entries_def Let_def)
  then have "log_line offline_env (0 - 5400, ''INFO'', ''Starting pod '' @ two_line_pod)
      \<in> log_line offline_env ` set ?es"
    by (rule imageI)
  then have "log_line offline_env (0 - 5400, ''INFO'', ''Starting pod '' @ two_line_pod)
      \<in> set (map (log_line offline_env) ?es)"
    by (simp only: set_map)
  moreover have "set (split_on (CHR 0x0A) (join NL (map (log_line offline_env) ?es)))
      = (\<Union>y\<in>set (map (log_line offline_env) ?es). set (split_on (CHR 0x0A) y))"
    by (simp add: split_on_join auto_generate_pod_entries_nonempty)
  moreover have "''[2024-05-01 12:00:00] FATAL: down''
      \<in> set (split_on (CHR 0x0A)
          (log_line offline_env (0 - 5400, ''INFO'', ''Starting pod '' @ two_line_pod)))"
    by (simp add: log_line_def strftime_offline_env two_line_pod_def)
  ultimately have "''[2024-05-01 12:00:00] FATAL: down''
      \<in> set (split_on (CHR 0x0A)
          (auto_generate_pod_logs offline_env 0 ''FOBPM'' ''cluster1'' ''Bulkdeviceenrollment''
             two_line_pod))"
    unfolding auto_generate_pod_logs_def by blast
  moreover have "line_level ''[2024-05-01 12:00:00] FATAL: down'' = ''FATAL''"
    by (simp add: line_level_def)
  ultimately have 6: "\<exists>line\<in>set (split_on (CHR 0x0A)
          (auto_generate_pod_logs offline_env 0 ''FOBPM'' ''cluster1'' ''Bulkdeviceenrollment''
             two_line_pod)). line_level line = ''FATAL''"
    by blast
  from 1 2 3 4 5 6 show ?thesis by blast
qed

theorem C6_pod_name_bias_witness:
  "(\<forall>t. CHR '']'' \<notin> set (strftime offline_env t))
   \<and> (\<forall>t. CHR 0x0A \<notin> set (strftime offline_env t))
   \<and> sublist ''error'' (lower ''FOBPM-Bulk-Error-pod'')
   \<and> (\<exists>line\<in>set (split_on (CHR 0x0A)
          (auto_generate_pod_logs offline_env 0 ''FOBPM'' ''cluster1'' ''Bulk''
             ''FOBPM-Bulk-Error-pod'')). line_level line = ''FATAL'')
   \<and> sublist ''warn'' (lower ''fobpm-bulk-warn-service'')
   \<and> \<not> sublist ''error'' (lower ''fobpm-bulk-warn-service'')
   \<and> CHR 0x0A \<notin> set ''FOBPM'' \<and> CHR 0x0A \<notin> set ''cluster1'' \<and> CHR 0x0A \<notin> set ''Bulk''
   \<and> CHR 0x0A \<notin> set ''fobpm-bulk-warn-service''
   \<and> (\<exists>line\<in>set (split_on (CHR 0x0A)
          (auto_generate_pod_logs offline_env 0 ''FOBPM'' ''cluster1'' ''Bulk''
             ''fobpm-bulk-warn-service'')). line_level line = ''WARN'')
   \<and> \<not> (\<exists>line\<in>set (split_on (CHR 0x0A)
          (auto_generate_pod_logs offline_env 0 ''FOBPM'' ''cluster1'' ''Bulk''
             ''fobpm-bulk-warn-service'')).
          line_level line = ''ERROR'' \<or> line_level line = ''FATAL'')"
proof -
  have s: "\<And>t. CHR '']'' \<notin> set (strftime offline_env t)"
    "\<And>t. CHR 0x0A \<notin> set (strftime offline_env t)"
    by (simp_all add: strftime_offline_env)
  have l1: "lower ''FOBPM-Bulk-Error-pod'' = ''fobpm-bulk-error-pod''"
    by (simp add: lower_def lower_char_def char_of_eq_iff)
  have l2: "lower ''fobpm-bulk-warn-service'' = ''fobpm-bulk-warn-service''"
    by (simp add: lower_def lower_char_def char_of_eq_iff)
  have 1: "sublist ''error'' (lower ''FOBPM-Bulk-Error-pod'')"
    unfolding l1 by (simp add: sublist_code)
  have 2: "sublist ''warn'' (lower ''fobpm-bulk-warn-service'')"
    "\<not> sublist ''error'' (lower ''fobpm-bulk-warn-service'')"
    unfolding l2 by (simp_all add: sublist_code)
  have 3: "CHR 0x0A \<notin> set ''FOBPM''" "CHR 0x0A \<notin> set ''cluster1''"
    "CHR 0x0A \<notin> set ''Bulk''" "CHR 0x0A \<notin> set ''fobpm-bulk-warn-service''"
    by simp_all
  from C6_pod_name_bias [OF s, of "''FOBPM-Bulk-Error-pod''" 0 "''FOBPM''" "''cluster1''"
      "''Bulk''"] 1
  have a: "\<exists>line\<in>set (split_on (CHR 0x0A)
          (auto_generate_pod_logs offline_env 0 ''FOBPM'' ''cluster1'' ''Bulk''
             ''FOBPM-Bulk-Error-pod'')). line_level line = ''FATAL''"
    by blast
  from C6_pod_name_bias [OF s, of "''fobpm-bulk-warn-service''" 0 "''FOBPM''" "''cluster1''"
      "''Bulk''"] 2 3
  have b: "(\<exists>line\<in>set (split_on (CHR 0x0A)
          (auto_generate_pod_logs offline_env 0 ''FOBPM'' ''cluster1'' ''Bulk''
             ''fobpm-bulk-warn-service'')). line_level line = ''WARN'')
   \<and> \<not> (\<exists>line\<in>set (split_on (CHR 0x0A)
          (auto_generate_pod_logs offline_env 0 ''FOBPM'' ''cluster1'' ''Bulk''
             ''fobpm-bulk-warn-service'')).
          line_level line = ''ERROR'' \<or> line_level line = ''FATAL'')"
    by blast
  from s 1 2 3 a b show ?thesis by blast
qed

end
